theory Spec2Isabelle
  imports Complex_Main
begin

section \<open>Tower defense: data model\<close>

text \<open>
  Two implementations of the tower-defense page live in \<^verbatim>\<open>src/pages/TowerDefenseGame.tsx\<close>:
  the primary one (six tower types, five enemy types, four maps) and a second, smaller
  one (four tower types, untyped enemies, one fixed path). Definitions of the second
  implementation carry the suffix \<open>2\<close>.

  JavaScript numbers are modelled as follows: gold, lives, health, damage, armor, reward,
  experience and millisecond timestamps only ever hold integers and are \<open>int\<close>; the wave
  number and the kill counters start at 0 and are only incremented, they are \<open>nat\<close>;
  coordinates, speeds and ranges are \<open>real\<close>.
\<close>

datatype tower_kind = archer | cannon | wizard | frost | barracks | tesla

datatype enemy_kind = goblin | orc | troll | dragon | necromancer

datatype map_key = greenlands | volcano | crystalCave | darkCastle

text \<open>The template string \<^verbatim>\<open>enemy-${wave}-${i}\<close> is kept as its two numbers.\<close>

datatype enemy_ident = EnemyId nat nat

record Point =
  px :: real
  py :: real

text \<open>\<^verbatim>\<open>interface Tower\<close>; the id \<^verbatim>\<open>tower-${Date.now()}\<close> is kept as the timestamp.\<close>

record 'k Tower =
  tower_id :: int
  tower_type :: 'k
  tower_x :: real
  tower_y :: real
  level :: nat
  damage :: int
  tower_range :: real
  fireRate :: int
  lastFired :: int

text \<open>\<^verbatim>\<open>interface Enemy\<close> of the primary implementation.\<close>

record Enemy =
  enemy_id :: enemy_ident
  enemy_type :: enemy_kind
  enemy_x :: real
  enemy_y :: real
  health :: int
  maxHealth :: int
  speed :: real
  pathIndex :: nat
  reward :: int
  armor :: int

record TowerDef =
  def_cost :: int
  def_damage :: int
  def_range :: real
  def_fireRate :: int
  def_unlocked :: bool

text \<open>\<^verbatim>\<open>TOWER_TYPES\<close> (name, icon, colour and description are display data).\<close>

fun TOWER_TYPES :: "tower_kind \<Rightarrow> TowerDef" where
  "TOWER_TYPES archer =
     \<lparr>def_cost = 50, def_damage = 15, def_range = 120, def_fireRate = 800, def_unlocked = True\<rparr>"
| "TOWER_TYPES cannon =
     \<lparr>def_cost = 100, def_damage = 40, def_range = 100, def_fireRate = 1500, def_unlocked = True\<rparr>"
| "TOWER_TYPES wizard =
     \<lparr>def_cost = 150, def_damage = 30, def_range = 90, def_fireRate = 1200, def_unlocked = False\<rparr>"
| "TOWER_TYPES frost =
     \<lparr>def_cost = 120, def_damage = 10, def_range = 100, def_fireRate = 600, def_unlocked = False\<rparr>"
| "TOWER_TYPES barracks =
     \<lparr>def_cost = 80, def_damage = 20, def_range = 60, def_fireRate = 1000, def_unlocked = False\<rparr>"
| "TOWER_TYPES tesla =
     \<lparr>def_cost = 200, def_damage = 60, def_range = 80, def_fireRate = 2000, def_unlocked = False\<rparr>"

definition pt :: "real \<Rightarrow> real \<Rightarrow> Point" where
  "pt a b = \<lparr>px = a, py = b\<rparr>"

record MapDef =
  map_unlocked :: bool
  waves :: nat
  path :: "Point list"

text \<open>\<^verbatim>\<open>MAPS\<close> (name, description, gradient and tip are display data).\<close>

fun MAPS :: "map_key \<Rightarrow> MapDef" where
  "MAPS greenlands = \<lparr>map_unlocked = True, waves = 10,
     path = [pt 0 180, pt 120 180, pt 120 80, pt 280 80, pt 280 280, pt 420 280,
             pt 420 180, pt 600 180]\<rparr>"
| "MAPS volcano = \<lparr>map_unlocked = False, waves = 15,
     path = [pt 0 100, pt 150 100, pt 150 250, pt 300 250, pt 300 150, pt 450 150,
             pt 450 300, pt 600 300]\<rparr>"
| "MAPS crystalCave = \<lparr>map_unlocked = False, waves = 20,
     path = [pt 0 200, pt 100 200, pt 100 50, pt 250 50, pt 250 300, pt 400 300,
             pt 400 100, pt 550 100, pt 550 200, pt 600 200]\<rparr>"
| "MAPS darkCastle = \<lparr>map_unlocked = False, waves = 25,
     path = [pt 0 150, pt 80 150, pt 80 50, pt 200 50, pt 200 250, pt 350 250,
             pt 350 100, pt 500 100, pt 500 300, pt 600 300]\<rparr>"

text \<open>\<^verbatim>\<open>Object.keys(MAPS)\<close>: the keys in declaration order.\<close>

definition mapKeys :: "map_key list" where
  "mapKeys = [greenlands, volcano, crystalCave, darkCastle]"

text \<open>The summary handed to the backend by \<^verbatim>\<open>supabase.from('game_sessions').insert\<close>
  (the constant fields \<^verbatim>\<open>game_type\<close> and \<^verbatim>\<open>status\<close> and the completion time are left out).\<close>

record 'm SessionSummary =
  wallet_address :: string
  difficulty :: 'm
  xp_earned :: int
  sum_result :: string
  sum_wave :: nat
  sum_gold :: int
  sum_kills :: "nat option"

text \<open>
  The component state of the primary implementation, one field per \<^verbatim>\<open>useState\<close> hook
  (the tutorial flag and the tip banner are display state and left out), together with
  what the component reads from and leaves in its environment: the wallet address of
  \<^verbatim>\<open>useAccount\<close>, the log of summaries inserted into \<^verbatim>\<open>game_sessions\<close>, and the number of
  wave-advance callbacks scheduled with \<^verbatim>\<open>setTimeout\<close> that have not fired yet.
\<close>

record GameState =
  towers :: "tower_kind Tower list"
  enemies :: "Enemy list"
  gold :: int
  lives :: int
  wave :: nat
  isPlaying :: bool
  gameOver :: bool
  victory :: bool
  selectedTower :: "tower_kind option"
  currentMap :: map_key
  xpEarned :: int
  unlockedTowers :: "tower_kind list"
  unlockedMaps :: "map_key list"
  placementMode :: bool
  killCount :: nat
  totalKills :: nat
  address :: "string option"
  recorded :: "map_key SessionSummary list"
  waveTimers :: nat

definition initialState :: "string option \<Rightarrow> GameState" where
  "initialState addr =
     \<lparr>towers = [], enemies = [], gold = 250, lives = 20, wave = 0, isPlaying = False,
      gameOver = False, victory = False, selectedTower = Some archer,
      currentMap = greenlands, xpEarned = 0, unlockedTowers = [archer, cannon],
      unlockedMaps = [greenlands], placementMode = False, killCount = 0, totalKills = 0,
      address = addr, recorded = [], waveTimers = 0\<rparr>"

definition currentPath :: "GameState \<Rightarrow> Point list" where
  "currentPath s = path (MAPS (currentMap s))"

section \<open>Spawner\<close>

record EnemyStats =
  base_health :: int
  base_speed :: real
  base_armor :: int
  base_reward :: int

fun baseStats :: "enemy_kind \<Rightarrow> EnemyStats" where
  "baseStats goblin = \<lparr>base_health = 30, base_speed = 1.5, base_armor = 0, base_reward = 10\<rparr>"
| "baseStats orc = \<lparr>base_health = 60, base_speed = 1, base_armor = 5, base_reward = 15\<rparr>"
| "baseStats troll = \<lparr>base_health = 100, base_speed = 0.7, base_armor = 10, base_reward = 25\<rparr>"
| "baseStats dragon = \<lparr>base_health = 150, base_speed = 1.2, base_armor = 15, base_reward = 40\<rparr>"
| "baseStats necromancer = \<lparr>base_health = 80, base_speed = 0.8, base_armor = 5, base_reward = 30\<rparr>"

definition enemyTypes :: "enemy_kind list" where
  "enemyTypes = [goblin, orc, troll, dragon, necromancer]"

text \<open>
  One iteration of the loop of \<^verbatim>\<open>spawnWave\<close>. \<^verbatim>\<open>Math.floor(Math.random() * (typeIndex + 1))\<close>
  is a draw from \<open>{0..typeIndex}\<close>; the draws are supplied by \<open>rnd\<close> (one per enemy) and
  reduced modulo \<open>typeIndex + 1\<close>.
\<close>

definition spawnEnemy :: "nat \<Rightarrow> Point list \<Rightarrow> (nat \<Rightarrow> nat) \<Rightarrow> nat \<Rightarrow> Enemy" where
  "spawnEnemy w p rnd i =
     (let typeIndex = min (w div 3) (length enemyTypes - 1);
          type = enemyTypes ! (rnd i mod (typeIndex + 1));
          stats = baseStats type
      in \<lparr>enemy_id = EnemyId w i, enemy_type = type,
          enemy_x = px (hd p) - real i * 50, enemy_y = py (hd p),
          health = base_health stats + int w * 10,
          maxHealth = base_health stats + int w * 10,
          speed = base_speed stats + real w * 0.05,
          pathIndex = 0,
          reward = base_reward stats + int w * 2,
          armor = base_armor stats\<rparr>)"

text \<open>The roster \<^verbatim>\<open>newEnemies\<close> built by \<^verbatim>\<open>spawnWave\<close> for wave \<open>w\<close> on path \<open>p\<close>.\<close>

definition spawnWave :: "nat \<Rightarrow> Point list \<Rightarrow> (nat \<Rightarrow> nat) \<Rightarrow> Enemy list" where
  "spawnWave w p rnd = map (spawnEnemy w p rnd) [0..<w * 2 + 5]"

subsection \<open>Second implementation\<close>

datatype tower_kind2 = basic | sniper | splash | slow

datatype map_key2 = forest | desert | volcano2

record Enemy2 =
  enemy2_id :: enemy_ident
  enemy2_x :: real
  enemy2_y :: real
  health2 :: int
  maxHealth2 :: int
  speed2 :: real
  pathIndex2 :: nat
  reward2 :: int

fun TOWER_TYPES2 :: "tower_kind2 \<Rightarrow> TowerDef" where
  "TOWER_TYPES2 basic =
     \<lparr>def_cost = 50, def_damage = 10, def_range = 100, def_fireRate = 1000, def_unlocked = True\<rparr>"
| "TOWER_TYPES2 sniper =
     \<lparr>def_cost = 100, def_damage = 50, def_range = 200, def_fireRate = 2000, def_unlocked = False\<rparr>"
| "TOWER_TYPES2 splash =
     \<lparr>def_cost = 150, def_damage = 20, def_range = 80, def_fireRate = 1500, def_unlocked = False\<rparr>"
| "TOWER_TYPES2 slow =
     \<lparr>def_cost = 75, def_damage = 5, def_range = 100, def_fireRate = 500, def_unlocked = False\<rparr>"

definition ENEMY_PATH :: "Point list" where
  "ENEMY_PATH = [pt 0 200, pt 150 200, pt 150 100, pt 300 100, pt 300 300, pt 450 300,
                 pt 450 150, pt 600 150]"

record MapDef2 =
  map2_unlocked :: bool
  waves2 :: nat

fun MAPS2 :: "map_key2 \<Rightarrow> MapDef2" where
  "MAPS2 forest = \<lparr>map2_unlocked = True, waves2 = 10\<rparr>"
| "MAPS2 desert = \<lparr>map2_unlocked = False, waves2 = 15\<rparr>"
| "MAPS2 volcano2 = \<lparr>map2_unlocked = False, waves2 = 20\<rparr>"

definition spawnEnemy2 :: "nat \<Rightarrow> nat \<Rightarrow> Enemy2" where
  "spawnEnemy2 w i =
     \<lparr>enemy2_id = EnemyId w i,
      enemy2_x = px (hd ENEMY_PATH) - real i * 40, enemy2_y = py (hd ENEMY_PATH),
      health2 = 20 + int w * 10,
      maxHealth2 = 20 + int w * 10,
      speed2 = 1 + real w * 0.1,
      pathIndex2 = 0,
      reward2 = 10 + int w * 2\<rparr>"

definition spawnWave2 :: "nat \<Rightarrow> Enemy2 list" where
  "spawnWave2 w = map (spawnEnemy2 w) [0..<w * 2 + 3]"

section \<open>Tick scheduler\<close>

text \<open>
  One call of \<^verbatim>\<open>gameLoop\<close>. The state updaters it queues are applied in the order in
  which they are queued: the movement updater of \<^verbatim>\<open>setEnemies\<close> first, then, tower by
  tower, the attack updater of \<^verbatim>\<open>setEnemies\<close>; the updaters of \<^verbatim>\<open>setLives\<close>, \<^verbatim>\<open>setGold\<close>,
  \<^verbatim>\<open>setXpEarned\<close> and the kill counters called from inside them are additions and are
  applied to the state as they are called. Every updater is applied once.
\<close>

text \<open>The updater passed to \<^verbatim>\<open>setLives\<close> when an enemy completes the path.\<close>

definition loseLife :: "GameState \<Rightarrow> GameState" where
  "loseLife s =
     (let newLives = lives s - 1
      in (if newLives \<le> 0 then s\<lparr>gameOver := True, isPlaying := False\<rparr> else s)
           \<lparr>lives := newLives\<rparr>)"

text \<open>
  The callback of \<^verbatim>\<open>prevEnemies.map\<close> in the movement updater; the flag tells whether
  the enemy completed the path (and \<^verbatim>\<open>setLives\<close> was called for it).
\<close>

definition moveEnemy :: "Point list \<Rightarrow> Enemy \<Rightarrow> Enemy \<times> bool" where
  "moveEnemy p enemy =
     (if length p \<le> pathIndex enemy then (enemy, False)
      else
        let targetPoint = p ! pathIndex enemy;
            dx = px targetPoint - enemy_x enemy;
            dy = py targetPoint - enemy_y enemy;
            distance = sqrt (dx * dx + dy * dy)
        in if distance < 5 then
             (if pathIndex enemy < length p - 1
              then (enemy\<lparr>pathIndex := pathIndex enemy + 1\<rparr>, False)
              else (enemy\<lparr>health := 0\<rparr>, True))
           else (enemy\<lparr>enemy_x := enemy_x enemy + (dx / distance) * speed enemy,
                       enemy_y := enemy_y enemy + (dy / distance) * speed enemy\<rparr>, False))"

fun moveEnemies :: "Point list \<Rightarrow> Enemy list \<Rightarrow> GameState \<Rightarrow> Enemy list \<times> GameState" where
  "moveEnemies p [] s = ([], s)"
| "moveEnemies p (enemy # rest) s =
     (let (enemy', atEnd) = moveEnemy p enemy;
          s1 = (if atEnd then loseLife s else s);
          (rest', s2) = moveEnemies p rest s1
      in (enemy' # rest', s2))"

definition movePhase :: "GameState \<Rightarrow> GameState" where
  "movePhase s =
     (let (moved, s1) = moveEnemies (currentPath s) (enemies s) s
      in s1\<lparr>enemies := filter (\<lambda>e. health e > 0) moved\<rparr>)"

definition inRange :: "'k Tower \<Rightarrow> Enemy \<Rightarrow> bool" where
  "inRange tower enemy =
     (let dx = enemy_x enemy - tower_x tower;
          dy = enemy_y enemy - tower_y tower
      in sqrt (dx * dx + dy * dy) \<le> tower_range tower)"

text \<open>The four setters called when a hit brings the health to 0 or below.\<close>

definition creditKill :: "GameState \<Rightarrow> Enemy \<Rightarrow> GameState" where
  "creditKill s e =
     s\<lparr>gold := gold s + reward e, xpEarned := xpEarned s + 5,
       killCount := killCount s + 1, totalKills := totalKills s + 1\<rparr>"

text \<open>\<^verbatim>\<open>prevEnemies.map(e => ...)\<close> of the attack updater, for the target id \<open>tid\<close>.\<close>

fun attackMap ::
  "'k Tower \<Rightarrow> enemy_ident \<Rightarrow> Enemy list \<Rightarrow> GameState \<Rightarrow> Enemy list \<times> GameState" where
  "attackMap tower tid [] s = ([], s)"
| "attackMap tower tid (e # rest) s =
     (if enemy_id e = tid then
        let effectiveDamage = max (damage tower - armor e) 5;
            newHealth = health e - effectiveDamage;
            s1 = (if newHealth \<le> 0 then creditKill s e else s);
            (rest', s2) = attackMap tower tid rest s1
        in (e\<lparr>health := newHealth\<rparr> # rest', s2)
      else
        let (rest', s2) = attackMap tower tid rest s
        in (e # rest', s2))"

text \<open>The attack updater of one tower that passed its fire-rate gate.\<close>

definition towerAttack :: "'k Tower \<Rightarrow> GameState \<Rightarrow> GameState" where
  "towerAttack tower s =
     (case filter (inRange tower) (enemies s) of
        [] \<Rightarrow> s
      | target # _ \<Rightarrow>
          let (hit, s1) = attackMap tower (enemy_id target) (enemies s) s
          in s1\<lparr>enemies := filter (\<lambda>e. health e > 0) hit\<rparr>)"

text \<open>The callback of \<^verbatim>\<open>prevTowers.map\<close>.\<close>

definition fireTower :: "int \<Rightarrow> 'k Tower \<Rightarrow> GameState \<Rightarrow> 'k Tower \<times> GameState" where
  "fireTower now tower s =
     (if now - lastFired tower < fireRate tower then (tower, s)
      else (tower\<lparr>lastFired := now\<rparr>, towerAttack tower s))"

fun fireTowers :: "int \<Rightarrow> 'k Tower list \<Rightarrow> GameState \<Rightarrow> 'k Tower list \<times> GameState" where
  "fireTowers now [] s = ([], s)"
| "fireTowers now (tower # rest) s =
     (let (tower', s1) = fireTower now tower s;
          (rest', s2) = fireTowers now rest s1
      in (tower' # rest', s2))"

text \<open>
  The loop runs only while the effect that owns it is active
  (\<^verbatim>\<open>if (!isPlaying || gameOver) return\<close>).
\<close>

definition gameLoop :: "int \<Rightarrow> GameState \<Rightarrow> GameState" where
  "gameLoop now s =
     (if \<not> isPlaying s \<or> gameOver s then s
      else
        let s1 = movePhase s;
            (ts, s2) = fireTowers now (towers s1) s1
        in s2\<lparr>towers := ts\<rparr>)"

subsection \<open>Second implementation\<close>

record GameState2 =
  towers2 :: "tower_kind2 Tower list"
  enemies2 :: "Enemy2 list"
  gold2 :: int
  lives2 :: int
  wave2 :: nat
  isPlaying2 :: bool
  gameOver2 :: bool
  selectedTower2 :: "tower_kind2 option"
  currentMap2 :: map_key2
  xpEarned2 :: int
  unlockedTowers2 :: "tower_kind2 list"
  placementMode2 :: bool
  killCount2 :: nat
  address2 :: "string option"
  recorded2 :: "map_key2 SessionSummary list"
  waveTimers2 :: nat

definition initialState2 :: "string option \<Rightarrow> GameState2" where
  "initialState2 addr =
     \<lparr>towers2 = [], enemies2 = [], gold2 = 200, lives2 = 20, wave2 = 0, isPlaying2 = False,
      gameOver2 = False, selectedTower2 = Some basic, currentMap2 = forest, xpEarned2 = 0,
      unlockedTowers2 = [basic], placementMode2 = False, killCount2 = 0,
      address2 = addr, recorded2 = [], waveTimers2 = 0\<rparr>"

definition inRange2 :: "'k Tower \<Rightarrow> Enemy2 \<Rightarrow> bool" where
  "inRange2 tower enemy =
     (let dx = enemy2_x enemy - tower_x tower;
          dy = enemy2_y enemy - tower_y tower
      in sqrt (dx * dx + dy * dy) \<le> tower_range tower)"

definition creditKill2 :: "GameState2 \<Rightarrow> Enemy2 \<Rightarrow> GameState2" where
  "creditKill2 s e =
     s\<lparr>gold2 := gold2 s + reward2 e, xpEarned2 := xpEarned2 s + 5,
       killCount2 := killCount2 s + 1\<rparr>"

fun attackMap2 ::
  "'k Tower \<Rightarrow> enemy_ident \<Rightarrow> Enemy2 list \<Rightarrow> GameState2 \<Rightarrow> Enemy2 list \<times> GameState2" where
  "attackMap2 tower tid [] s = ([], s)"
| "attackMap2 tower tid (e # rest) s =
     (if enemy2_id e = tid then
        let newHealth = health2 e - damage tower;
            s1 = (if newHealth \<le> 0 then creditKill2 s e else s);
            (rest', s2) = attackMap2 tower tid rest s1
        in (e\<lparr>health2 := newHealth\<rparr> # rest', s2)
      else
        let (rest', s2) = attackMap2 tower tid rest s
        in (e # rest', s2))"

definition towerAttack2 :: "'k Tower \<Rightarrow> GameState2 \<Rightarrow> GameState2" where
  "towerAttack2 tower s =
     (case filter (inRange2 tower) (enemies2 s) of
        [] \<Rightarrow> s
      | target # _ \<Rightarrow>
          let (hit, s1) = attackMap2 tower (enemy2_id target) (enemies2 s) s
          in s1\<lparr>enemies2 := filter (\<lambda>e. health2 e > 0) hit\<rparr>)"

definition fireTower2 :: "int \<Rightarrow> 'k Tower \<Rightarrow> GameState2 \<Rightarrow> 'k Tower \<times> GameState2" where
  "fireTower2 now tower s =
     (if now - lastFired tower < fireRate tower then (tower, s)
      else (tower\<lparr>lastFired := now\<rparr>, towerAttack2 tower s))"

definition loseLife2 :: "GameState2 \<Rightarrow> GameState2" where
  "loseLife2 s =
     (let newLives = lives2 s - 1
      in (if newLives \<le> 0 then s\<lparr>gameOver2 := True, isPlaying2 := False\<rparr> else s)
           \<lparr>lives2 := newLives\<rparr>)"

definition moveEnemy2 :: "Enemy2 \<Rightarrow> Enemy2 \<times> bool" where
  "moveEnemy2 enemy =
     (if length ENEMY_PATH \<le> pathIndex2 enemy then (enemy, False)
      else
        let targetPoint = ENEMY_PATH ! pathIndex2 enemy;
            dx = px targetPoint - enemy2_x enemy;
            dy = py targetPoint - enemy2_y enemy;
            distance = sqrt (dx * dx + dy * dy)
        in if distance < 5 then
             (if pathIndex2 enemy < length ENEMY_PATH - 1
              then (enemy\<lparr>pathIndex2 := pathIndex2 enemy + 1\<rparr>, False)
              else (enemy\<lparr>health2 := 0\<rparr>, True))
           else (enemy\<lparr>enemy2_x := enemy2_x enemy + (dx / distance) * speed2 enemy,
                       enemy2_y := enemy2_y enemy + (dy / distance) * speed2 enemy\<rparr>, False))"

fun moveEnemies2 :: "Enemy2 list \<Rightarrow> GameState2 \<Rightarrow> Enemy2 list \<times> GameState2" where
  "moveEnemies2 [] s = ([], s)"
| "moveEnemies2 (enemy # rest) s =
     (let (enemy', atEnd) = moveEnemy2 enemy;
          s1 = (if atEnd then loseLife2 s else s);
          (rest', s2) = moveEnemies2 rest s1
      in (enemy' # rest', s2))"

definition movePhase2 :: "GameState2 \<Rightarrow> GameState2" where
  "movePhase2 s =
     (let (moved, s1) = moveEnemies2 (enemies2 s) s
      in s1\<lparr>enemies2 := filter (\<lambda>e. health2 e > 0) moved\<rparr>)"

fun fireTowers2 :: "int \<Rightarrow> 'k Tower list \<Rightarrow> GameState2 \<Rightarrow> 'k Tower list \<times> GameState2" where
  "fireTowers2 now [] s = ([], s)"
| "fireTowers2 now (tower # rest) s =
     (let (tower', s1) = fireTower2 now tower s;
          (rest', s2) = fireTowers2 now rest s1
      in (tower' # rest', s2))"

definition gameLoop2 :: "int \<Rightarrow> GameState2 \<Rightarrow> GameState2" where
  "gameLoop2 now s =
     (if \<not> isPlaying2 s \<or> gameOver2 s then s
      else
        let s1 = movePhase2 s;
            (ts, s2) = fireTowers2 now (towers2 s1) s1
        in s2\<lparr>towers2 := ts\<rparr>)"

section \<open>Player actions and wave controller\<close>

datatype place_error = NotArmed | NotEnoughGold | TooCloseToPath

text \<open>The loop over \<^verbatim>\<open>currentPath\<close> in \<^verbatim>\<open>placeTower\<close>: some waypoint is closer than 30.\<close>

definition tooCloseToPath :: "Point list \<Rightarrow> real \<Rightarrow> real \<Rightarrow> bool" where
  "tooCloseToPath p x y =
     list_ex (\<lambda>point. let dx = px point - x; dy = py point - y
                      in sqrt (dx * dx + dy * dy) < 30) p"

definition newTower :: "'k \<Rightarrow> TowerDef \<Rightarrow> real \<Rightarrow> real \<Rightarrow> int \<Rightarrow> 'k Tower" where
  "newTower k towerData x y now =
     \<lparr>tower_id = now, tower_type = k, tower_x = x, tower_y = y, level = 1,
      damage = def_damage towerData, tower_range = def_range towerData,
      fireRate = def_fireRate towerData, lastFired = 0\<rparr>"

text \<open>
  \<^verbatim>\<open>placeTower(x, y)\<close>, with \<open>now\<close> the value of \<^verbatim>\<open>Date.now()\<close>. Every early return of the
  source leaves the state as it is and is an error value here.
\<close>

definition placeTower :: "real \<Rightarrow> real \<Rightarrow> int \<Rightarrow> GameState \<Rightarrow> place_error + GameState" where
  "placeTower x y now s =
     (case selectedTower s of
        None \<Rightarrow> Inl NotArmed
      | Some k \<Rightarrow>
          if \<not> placementMode s then Inl NotArmed
          else
            let towerData = TOWER_TYPES k
            in if gold s < def_cost towerData then Inl NotEnoughGold
               else if tooCloseToPath (currentPath s) x y then Inl TooCloseToPath
               else Inr (s\<lparr>towers := towers s @ [newTower k towerData x y now],
                            gold := gold s - def_cost towerData,
                            placementMode := False\<rparr>))"

definition startGame :: "GameState \<Rightarrow> GameState" where
  "startGame s = s\<lparr>isPlaying := True, wave := 1\<rparr>"

definition resetGame :: "GameState \<Rightarrow> GameState" where
  "resetGame s =
     s\<lparr>towers := [], enemies := [], gold := 250, lives := 20, wave := 0,
       isPlaying := False, gameOver := False, victory := False, xpEarned := 0,
       killCount := 0, totalKills := 0\<rparr>"

definition unlockTower :: "tower_kind \<Rightarrow> GameState \<Rightarrow> GameState" where
  "unlockTower towerType s =
     (let cost = def_cost (TOWER_TYPES towerType) * 3
      in if gold s \<ge> cost
         then s\<lparr>gold := gold s - cost, unlockedTowers := unlockedTowers s @ [towerType]\<rparr>
         else s)"

text \<open>\<^verbatim>\<open>Array.prototype.indexOf\<close>: the first position of the element, \<open>-1\<close> when absent.\<close>

fun indexOf :: "'a list \<Rightarrow> 'a \<Rightarrow> int" where
  "indexOf [] a = -1"
| "indexOf (b # bs) a =
     (if b = a then 0 else let r = indexOf bs a in if r < 0 then -1 else r + 1)"

text \<open>
  \<^verbatim>\<open>handleVictory\<close>. The insert into \<^verbatim>\<open>game_sessions\<close> is the call of the session
  recorder; it is logged in \<open>recorded\<close> whether or not the backend accepts it.
  \<^verbatim>\<open>if (address)\<close> holds when the wallet address is present and not the empty string.
\<close>

definition handleVictory :: "GameState \<Rightarrow> GameState" where
  "handleVictory s =
     (let earnedXP = xpEarned s + 150 + int (wave s) * 15;
          s1 = s\<lparr>isPlaying := False, gameOver := True, victory := True, xpEarned := earnedXP\<rparr>;
          currentIndex = indexOf mapKeys (currentMap s);
          s2 = (if currentIndex < int (length mapKeys) - 1 then
                  let nextMap = mapKeys ! nat (currentIndex + 1)
                  in if nextMap \<notin> set (unlockedMaps s)
                     then s1\<lparr>unlockedMaps := unlockedMaps s @ [nextMap]\<rparr>
                     else s1
                else s1)
      in case address s of
           None \<Rightarrow> s2
         | Some w \<Rightarrow>
             if w = [] then s2
             else s2\<lparr>recorded := recorded s @
                    [\<lparr>wallet_address = w, difficulty = currentMap s,
                      xp_earned = earnedXP, sum_result = ''win'', sum_wave = wave s,
                      sum_gold = gold s, sum_kills = Some (totalKills s)\<rparr>]\<rparr>)"

text \<open>The effect "Check wave completion".\<close>

definition waveCompletionEffect :: "GameState \<Rightarrow> GameState" where
  "waveCompletionEffect s =
     (if isPlaying s \<and> enemies s = [] \<and> wave s > 0 then
        (if wave s \<ge> waves (MAPS (currentMap s)) then handleVictory s
         else s\<lparr>waveTimers := waveTimers s + 1\<rparr>)
      else s)"

text \<open>The callback scheduled by that effect, \<^verbatim>\<open>setWave(prev => prev + 1)\<close>, when it fires.\<close>

definition waveTimerFires :: "GameState \<Rightarrow> GameState" where
  "waveTimerFires s =
     (if waveTimers s > 0 then s\<lparr>wave := wave s + 1, waveTimers := waveTimers s - 1\<rparr> else s)"

text \<open>
  What the page lets the player and the host do: a frame of the loop, a click on the
  board, on a tower of the side bar, on its unlock button (shown for locked types), on
  Start (shown in the idle state), Pause, Resume, Reset, a map button (enabled for
  unlocked maps), and a pending wave timer firing.
\<close>

datatype event =
    Tick int
  | ClickBoard real real int
  | ClickTower tower_kind
  | ClickUnlock tower_kind
  | ClickStart
  | ClickPause
  | ClickResume
  | ClickReset
  | ClickMap map_key
  | WaveTimer

fun handle :: "event \<Rightarrow> GameState \<Rightarrow> GameState" where
  "handle (Tick now) s = gameLoop now s"
| "handle (ClickBoard x y now) s =
     (if placementMode s
      then (case placeTower x y now s of Inl err \<Rightarrow> s | Inr s' \<Rightarrow> s')
      else s)"
| "handle (ClickTower k) s =
     (if k \<in> set (unlockedTowers s)
      then s\<lparr>selectedTower := Some k, placementMode := True\<rparr>
      else s)"
| "handle (ClickUnlock k) s =
     (if k \<notin> set (unlockedTowers s) then unlockTower k s else s)"
| "handle ClickStart s =
     (if \<not> isPlaying s \<and> \<not> gameOver s \<and> wave s = 0 then startGame s else s)"
| "handle ClickPause s = (if isPlaying s then s\<lparr>isPlaying := False\<rparr> else s)"
| "handle ClickResume s =
     (if \<not> isPlaying s \<and> wave s > 0 \<and> \<not> gameOver s then s\<lparr>isPlaying := True\<rparr> else s)"
| "handle ClickReset s = resetGame s"
| "handle (ClickMap k) s =
     (if k \<in> set (unlockedMaps s) then resetGame (s\<lparr>currentMap := k\<rparr>) else s)"
| "handle WaveTimer s = waveTimerFires s"

text \<open>
  Whether the event stored a new array in \<^verbatim>\<open>enemies\<close>: a frame of the running loop always
  does (\<^verbatim>\<open>map\<close> and \<^verbatim>\<open>filter\<close> build a new array), and so does a reset.
\<close>

fun newEnemiesArray :: "event \<Rightarrow> GameState \<Rightarrow> bool" where
  "newEnemiesArray (Tick now) s = (isPlaying s \<and> \<not> gameOver s)"
| "newEnemiesArray ClickReset s = True"
| "newEnemiesArray (ClickMap k) s = (k \<in> set (unlockedMaps s))"
| "newEnemiesArray ev s = False"

text \<open>
  One event followed by the render it causes. After the render the two wave effects run
  when one of their dependencies changed, both on the rendered state \<open>s'\<close>: the
  wave-completion effect (dependencies \<^verbatim>\<open>enemies\<close>, \<^verbatim>\<open>isPlaying\<close>, \<^verbatim>\<open>wave\<close>, the wave count of
  the map) and the spawn effect (dependencies \<^verbatim>\<open>wave\<close>, \<^verbatim>\<open>spawnWave\<close>, \<^verbatim>\<open>isPlaying\<close>), which
  appends the roster of \<^verbatim>\<open>spawnWave\<close>; \<open>rnd\<close> supplies its random draws.
\<close>

definition waveDepsChanged :: "event \<Rightarrow> GameState \<Rightarrow> GameState \<Rightarrow> bool" where
  "waveDepsChanged ev s s' =
     (newEnemiesArray ev s \<or> isPlaying s' \<noteq> isPlaying s \<or> wave s' \<noteq> wave s
      \<or> waves (MAPS (currentMap s')) \<noteq> waves (MAPS (currentMap s)))"

definition spawnDepsChanged :: "GameState \<Rightarrow> GameState \<Rightarrow> bool" where
  "spawnDepsChanged s s' =
     (wave s' \<noteq> wave s \<or> currentMap s' \<noteq> currentMap s \<or> isPlaying s' \<noteq> isPlaying s)"

definition step :: "(nat \<Rightarrow> nat) \<Rightarrow> event \<Rightarrow> GameState \<Rightarrow> GameState" where
  "step rnd ev s =
     (let s' = handle ev s;
          a = (if waveDepsChanged ev s s' then waveCompletionEffect s' else s')
      in if spawnDepsChanged s s' \<and> wave s' > 0 \<and> isPlaying s'
         then a\<lparr>enemies := enemies a @ spawnWave (wave s') (currentPath s') rnd\<rparr>
         else a)"

text \<open>A session: events, each with the random draws its render may consume.\<close>

fun run :: "(event \<times> (nat \<Rightarrow> nat)) list \<Rightarrow> GameState \<Rightarrow> GameState" where
  "run [] s = s"
| "run ((ev, rnd) # rest) s = run rest (step rnd ev s)"

subsection \<open>Second implementation\<close>

text \<open>\<^verbatim>\<open>placeTower\<close> of the second implementation has no check against the path.\<close>

definition placeTower2 :: "real \<Rightarrow> real \<Rightarrow> int \<Rightarrow> GameState2 \<Rightarrow> place_error + GameState2" where
  "placeTower2 x y now s =
     (case selectedTower2 s of
        None \<Rightarrow> Inl NotArmed
      | Some k \<Rightarrow>
          if \<not> placementMode2 s then Inl NotArmed
          else
            let towerData = TOWER_TYPES2 k
            in if gold2 s < def_cost towerData then Inl NotEnoughGold
               else Inr (s\<lparr>towers2 := towers2 s @ [newTower k towerData x y now],
                            gold2 := gold2 s - def_cost towerData,
                            placementMode2 := False\<rparr>))"

definition resetGame2 :: "GameState2 \<Rightarrow> GameState2" where
  "resetGame2 s =
     s\<lparr>towers2 := [], enemies2 := [], gold2 := 200, lives2 := 20, wave2 := 0,
       isPlaying2 := False, gameOver2 := False, xpEarned2 := 0, killCount2 := 0\<rparr>"

definition unlockTower2 :: "tower_kind2 \<Rightarrow> GameState2 \<Rightarrow> GameState2" where
  "unlockTower2 towerType s =
     (let cost = def_cost (TOWER_TYPES2 towerType) * 5
      in if gold2 s \<ge> cost
         then s\<lparr>gold2 := gold2 s - cost, unlockedTowers2 := unlockedTowers2 s @ [towerType]\<rparr>
         else s)"

definition handleVictory2 :: "GameState2 \<Rightarrow> GameState2" where
  "handleVictory2 s =
     (let earnedXP = xpEarned2 s + 100 + int (wave2 s) * 10;
          s1 = s\<lparr>isPlaying2 := False, gameOver2 := True, xpEarned2 := earnedXP\<rparr>
      in case address2 s of
           None \<Rightarrow> s1
         | Some w \<Rightarrow>
             if w = [] then s1
             else s1\<lparr>recorded2 := recorded2 s @
                    [\<lparr>wallet_address = w, difficulty = currentMap2 s,
                      xp_earned = earnedXP, sum_result = ''win'', sum_wave = wave2 s,
                      sum_gold = gold2 s, sum_kills = None\<rparr>]\<rparr>)"

text \<open>The effect "Check wave completion" of the second implementation.\<close>

definition waveCompletionEffect2 :: "GameState2 \<Rightarrow> GameState2" where
  "waveCompletionEffect2 s =
     (if isPlaying2 s \<and> enemies2 s = [] \<and> wave2 s > 0 then
        (let mapData = MAPS2 (currentMap2 s)
         in if wave2 s \<ge> waves2 mapData then handleVictory2 s
            else s\<lparr>waveTimers2 := waveTimers2 s + 1\<rparr>)
      else s)"

text \<open>
  A frame of the second implementation followed by the render it causes. A frame of the
  running loop stores a new array in \<^verbatim>\<open>enemies\<close>, so the wave-completion effect runs on the
  rendered state; the spawn effect adds nothing, since a frame leaves the wave alone and
  can only stop the play.
\<close>

definition frame2 :: "int \<Rightarrow> GameState2 \<Rightarrow> GameState2" where
  "frame2 now s =
     (if \<not> isPlaying2 s \<or> gameOver2 s then s
      else waveCompletionEffect2 (gameLoop2 now s))"

text \<open>A map button of the second implementation is enabled by the static catalog flag
  (\<^verbatim>\<open>disabled={!map.unlocked}\<close>); no state of the component takes part.\<close>

definition mapEnabled2 :: "GameState2 \<Rightarrow> map_key2 \<Rightarrow> bool" where
  "mapEnabled2 s k = map2_unlocked (MAPS2 k)"

section \<open>Notions used in the statements\<close>

text \<open>An enemy after a hit of \<open>tower\<close> aimed at the id \<open>tid\<close>, and the enemies such a hit kills.\<close>

definition hitBy :: "'k Tower \<Rightarrow> enemy_ident \<Rightarrow> Enemy \<Rightarrow> Enemy" where
  "hitBy tower tid e =
     (if enemy_id e = tid then e\<lparr>health := health e - max (damage tower - armor e) 5\<rparr> else e)"

definition killedBy :: "'k Tower \<Rightarrow> enemy_ident \<Rightarrow> Enemy list \<Rightarrow> Enemy list" where
  "killedBy tower tid es =
     filter (\<lambda>e. enemy_id e = tid \<and> health e - max (damage tower - armor e) 5 \<le> 0) es"

definition hitBy2 :: "'k Tower \<Rightarrow> enemy_ident \<Rightarrow> Enemy2 \<Rightarrow> Enemy2" where
  "hitBy2 tower tid e =
     (if enemy2_id e = tid then e\<lparr>health2 := health2 e - damage tower\<rparr> else e)"

definition killedBy2 :: "'k Tower \<Rightarrow> enemy_ident \<Rightarrow> Enemy2 list \<Rightarrow> Enemy2 list" where
  "killedBy2 tower tid es =
     filter (\<lambda>e. enemy2_id e = tid \<and> health2 e - damage tower \<le> 0) es"

text \<open>
  The combat step in the words of the specification, on the list of enemies alone: tower
  by tower, a tower whose fire-rate interval has elapsed hits the first enemy of the list
  within its range, if there is one, and the enemies without health left are removed.
\<close>

fun volley :: "int \<Rightarrow> 'k Tower list \<Rightarrow> Enemy list \<Rightarrow> Enemy list" where
  "volley now [] es = es"
| "volley now (tower # rest) es =
     volley now rest
       (if now - lastFired tower < fireRate tower then es
        else (case find (inRange tower) es of
                None \<Rightarrow> es
              | Some target \<Rightarrow>
                  filter (\<lambda>e. health e > 0) (map (hitBy tower (enemy_id target)) es)))"

fun volley2 :: "int \<Rightarrow> 'k Tower list \<Rightarrow> Enemy2 list \<Rightarrow> Enemy2 list" where
  "volley2 now [] es = es"
| "volley2 now (tower # rest) es =
     volley2 now rest
       (if now - lastFired tower < fireRate tower then es
        else (case find (inRange2 tower) es of
                None \<Rightarrow> es
              | Some target \<Rightarrow>
                  filter (\<lambda>e. health2 e > 0) (map (hitBy2 tower (enemy2_id target)) es)))"

text \<open>A tower of the second implementation has the damage of its catalog entry.\<close>

definition catalogTower2 :: "tower_kind2 Tower \<Rightarrow> bool" where
  "catalogTower2 t = (damage t = def_damage (TOWER_TYPES2 (tower_type t)))"

text \<open>The map following a map in the order of the catalog.\<close>

fun nextMapOf :: "map_key \<Rightarrow> map_key option" where
  "nextMapOf greenlands = Some volcano"
| "nextMapOf volcano = Some crystalCave"
| "nextMapOf crystalCave = Some darkCastle"
| "nextMapOf darkCastle = None"

text \<open>
  An enemy completes the path in the coming frame: it approaches the last waypoint and is
  closer to it than the arrival distance 5.
\<close>

definition completesPath :: "Point list \<Rightarrow> Enemy \<Rightarrow> bool" where
  "completesPath p e =
     (p \<noteq> [] \<and> pathIndex e = length p - 1
      \<and> sqrt ((px (last p) - enemy_x e) * (px (last p) - enemy_x e)
              + (py (last p) - enemy_y e) * (py (last p) - enemy_y e)) < 5)"

text \<open>
  The state with the fields written by the combat step blanked: two states with the same
  core differ at most in enemies, gold, experience and the kill counters.
\<close>

definition combatCore :: "GameState \<Rightarrow> GameState" where
  "combatCore s = s\<lparr>enemies := [], gold := 0, xpEarned := 0, killCount := 0, totalKills := 0\<rparr>"

text \<open>The events that reset the session: Reset and the choice of a map.\<close>

fun isReset :: "event \<Rightarrow> bool" where
  "isReset ClickReset = True"
| "isReset (ClickMap k) = True"
| "isReset ev = False"

text \<open>The session is over once no life is left, and a session that is over does not play.\<close>

definition defeatInv :: "GameState \<Rightarrow> bool" where
  "defeatInv s = ((lives s \<le> 0 \<longrightarrow> gameOver s) \<and> (gameOver s \<longrightarrow> \<not> isPlaying s))"

text \<open>
  The enemies killed by the towers in the combat step of a frame, in the order in which
  the towers fire; the rewards of the enemies killed over a session; the catalog costs of
  the towers on the board and the costs paid for a list of unlocked types; and the sum
  that only a kill changes.
\<close>

fun towerKills :: "int \<Rightarrow> 'k Tower list \<Rightarrow> GameState \<Rightarrow> Enemy list" where
  "towerKills now [] s = []"
| "towerKills now (tower # rest) s =
     (if now - lastFired tower < fireRate tower then towerKills now rest s
      else (case filter (inRange tower) (enemies s) of
              [] \<Rightarrow> towerKills now rest s
            | target # _ \<Rightarrow>
                killedBy tower (enemy_id target) (enemies s)
                  @ towerKills now rest (towerAttack tower s)))"

definition killedInFrame :: "int \<Rightarrow> GameState \<Rightarrow> Enemy list" where
  "killedInFrame now s =
     (if isPlaying s \<and> \<not> gameOver s
      then towerKills now (towers (movePhase s)) (movePhase s) else [])"

fun rewardsOfKills :: "(event \<times> (nat \<Rightarrow> nat)) list \<Rightarrow> GameState \<Rightarrow> int" where
  "rewardsOfKills [] s = 0"
| "rewardsOfKills ((ev, rnd) # rest) s =
     (case ev of Tick now \<Rightarrow> sum_list (map reward (killedInFrame now s)) | _ \<Rightarrow> 0)
       + rewardsOfKills rest (step rnd ev s)"

definition towerCosts :: "tower_kind Tower list \<Rightarrow> int" where
  "towerCosts ts = sum_list (map (\<lambda>t. def_cost (TOWER_TYPES (tower_type t))) ts)"

definition unlockCosts :: "tower_kind list \<Rightarrow> int" where
  "unlockCosts ks = sum_list (map (\<lambda>k. def_cost (TOWER_TYPES k) * 3) ks)"

definition ledger :: "GameState \<Rightarrow> int" where
  "ledger s = gold s + towerCosts (towers s) + unlockCosts (unlockedTowers s)"

text \<open>The point of the segment from \<open>a\<close> to \<open>b\<close> at the fraction \<open>u\<close> of the way.\<close>

definition segPoint :: "Point \<Rightarrow> Point \<Rightarrow> real \<Rightarrow> Point" where
  "segPoint a b u = pt (px a + u * (px b - px a)) (py a + u * (py b - py a))"

text \<open>
  The state of the second implementation with the fields written by the combat step
  blanked.
\<close>

definition combatCore2 :: "GameState2 \<Rightarrow> GameState2" where
  "combatCore2 s = s\<lparr>enemies2 := [], gold2 := 0, xpEarned2 := 0, killCount2 := 0\<rparr>"

text \<open>
  A frame defeats the last enemy of the final wave: the session is playing, the wave number
  is at or above the wave count of the map, the frame kills an enemy (the kill counter
  rises), and after it no enemy is left and the session is still playing.
\<close>

definition lastEnemyDefeated :: "int \<Rightarrow> GameState \<Rightarrow> bool" where
  "lastEnemyDefeated now s =
     (isPlaying s \<and> \<not> gameOver s \<and> waves (MAPS (currentMap s)) \<le> wave s
      \<and> totalKills s < totalKills (gameLoop now s)
      \<and> enemies (gameLoop now s) = [] \<and> isPlaying (gameLoop now s))"

definition lastEnemyDefeated2 :: "int \<Rightarrow> GameState2 \<Rightarrow> bool" where
  "lastEnemyDefeated2 now s =
     (isPlaying2 s \<and> \<not> gameOver2 s \<and> waves2 (MAPS2 (currentMap2 s)) \<le> wave2 s
      \<and> killCount2 s < killCount2 (gameLoop2 now s)
      \<and> enemies2 (gameLoop2 now s) = [] \<and> isPlaying2 (gameLoop2 now s))"

section \<open>Example states\<close>

definition exTower :: "tower_kind Tower" where
  "exTower = newTower archer (TOWER_TYPES archer) 100 100 0"

definition exFar :: Enemy where
  "exFar = \<lparr>enemy_id = EnemyId 9 0, enemy_type = goblin, enemy_x = -300, enemy_y = 180,
     health = 120, maxHealth = 120, speed = 1.95, pathIndex = 0, reward = 28, armor = 0\<rparr>"

definition exNear :: Enemy where
  "exNear = \<lparr>enemy_id = EnemyId 9 1, enemy_type = dragon, enemy_x = 100, enemy_y = 180,
     health = 240, maxHealth = 240, speed = 1.65, pathIndex = 1, reward = 58, armor = 15\<rparr>"

definition exState :: GameState where
  "exState = (initialState None)\<lparr>isPlaying := True, wave := 9, towers := [exTower],
     enemies := [exFar, exNear]\<rparr>"

definition exTower2 :: "tower_kind2 Tower" where
  "exTower2 = newTower basic (TOWER_TYPES2 basic) 100 150 0"

definition exFar2 :: Enemy2 where
  "exFar2 = \<lparr>enemy2_id = EnemyId 1 0, enemy2_x = -80, enemy2_y = 200, health2 = 30,
     maxHealth2 = 30, speed2 = 1.1, pathIndex2 = 0, reward2 = 12\<rparr>"

definition exNear2 :: Enemy2 where
  "exNear2 = \<lparr>enemy2_id = EnemyId 1 1, enemy2_x = 100, enemy2_y = 200, health2 = 30,
     maxHealth2 = 30, speed2 = 1.1, pathIndex2 = 1, reward2 = 12\<rparr>"

definition exState2 :: GameState2 where
  "exState2 = (initialState2 None)\<lparr>isPlaying2 := True, wave2 := 1, towers2 := [exTower2],
     enemies2 := [exFar2, exNear2]\<rparr>"

definition exFrost :: "tower_kind Tower" where
  "exFrost = newTower frost (TOWER_TYPES frost) 100 100 0"

definition exSlow2 :: "tower_kind2 Tower" where
  "exSlow2 = newTower slow (TOWER_TYPES2 slow) 100 150 0"

definition noDraws :: "nat \<Rightarrow> nat" where
  "noDraws i = 0"

definition exGoblinAtEnd :: Enemy where
  "exGoblinAtEnd = \<lparr>enemy_id = EnemyId 3 0, enemy_type = goblin, enemy_x = 598, enemy_y = 180,
     health = 60, maxHealth = 60, speed = 1.65, pathIndex = 7, reward = 16, armor = 0\<rparr>"

definition exOrcAtEnd :: Enemy where
  "exOrcAtEnd = \<lparr>enemy_id = EnemyId 3 1, enemy_type = orc, enemy_x = 597, enemy_y = 180,
     health = 90, maxHealth = 90, speed = 1.15, pathIndex = 7, reward = 21, armor = 5\<rparr>"

definition exLastLife :: "string option \<Rightarrow> Enemy list \<Rightarrow> GameState" where
  "exLastLife addr es =
     (initialState addr)\<lparr>isPlaying := True, wave := 3, lives := 1, enemies := es\<rparr>"

definition exArmed :: "int \<Rightarrow> GameState" where
  "exArmed g = (initialState None)\<lparr>placementMode := True, gold := g\<rparr>"

definition exPurchase :: "(event \<times> (nat \<Rightarrow> nat)) list" where
  "exPurchase = [(ClickTower archer, noDraws), (ClickBoard 60 60 7, noDraws)]"

definition exArmed2 :: GameState2 where
  "exArmed2 = (initialState2 None)\<lparr>placementMode2 := True\<rparr>"

definition exOnPath :: "(event \<times> (nat \<Rightarrow> nat)) list" where
  "exOnPath = [(ClickTower archer, noDraws), (ClickBoard 60 180 7, noDraws)]"

definition exStartReset :: "(event \<times> (nat \<Rightarrow> nat)) list" where
  "exStartReset = [(ClickStart, noDraws), (ClickReset, noDraws)]"

definition exAtStart :: Enemy where
  "exAtStart = \<lparr>enemy_id = EnemyId 9 0, enemy_type = goblin, enemy_x = 0, enemy_y = 180,
     health = 120, maxHealth = 120, speed = 1.95, pathIndex = 0, reward = 28, armor = 0\<rparr>"

definition exAtCorner :: Enemy where
  "exAtCorner = \<lparr>enemy_id = EnemyId 9 1, enemy_type = dragon, enemy_x = 120, enemy_y = 180,
     health = 240, maxHealth = 240, speed = 1.65, pathIndex = 1, reward = 58, armor = 15\<rparr>"

definition exFrame :: "Enemy list \<Rightarrow> GameState" where
  "exFrame es = (initialState None)\<lparr>isPlaying := True, wave := 9, towers := [exTower],
     enemies := es\<rparr>"

definition exAtStart2 :: Enemy2 where
  "exAtStart2 = \<lparr>enemy2_id = EnemyId 1 0, enemy2_x = 0, enemy2_y = 200, health2 = 30,
     maxHealth2 = 30, speed2 = 1.1, pathIndex2 = 0, reward2 = 12\<rparr>"

definition exAtCorner2 :: Enemy2 where
  "exAtCorner2 = \<lparr>enemy2_id = EnemyId 1 1, enemy2_x = 150, enemy2_y = 200, health2 = 30,
     maxHealth2 = 30, speed2 = 1.1, pathIndex2 = 1, reward2 = 12\<rparr>"

definition exFrame2 :: "Enemy2 list \<Rightarrow> GameState2" where
  "exFrame2 es = (initialState2 None)\<lparr>isPlaying2 := True, wave2 := 1, towers2 := [exTower2],
     enemies2 := es\<rparr>"

definition exWeak :: Enemy where
  "exWeak = \<lparr>enemy_id = EnemyId 10 0, enemy_type = goblin, enemy_x = 120, enemy_y = 180,
     health = 5, maxHealth = 130, speed = 2, pathIndex = 1, reward = 30, armor = 0\<rparr>"

definition exFinal :: "map_key list \<Rightarrow> GameState" where
  "exFinal ms =
     (initialState None)\<lparr>isPlaying := True, wave := 10, xpEarned := 35, towers := [exTower],
        enemies := [exWeak], unlockedMaps := ms\<rparr>"

definition exWeak2 :: Enemy2 where
  "exWeak2 = \<lparr>enemy2_id = EnemyId 10 0, enemy2_x = 150, enemy2_y = 200, health2 = 5,
     maxHealth2 = 120, speed2 = 2, pathIndex2 = 1, reward2 = 30\<rparr>"

definition exFinal2 :: GameState2 where
  "exFinal2 =
     (initialState2 None)\<lparr>isPlaying2 := True, wave2 := 10, xpEarned2 := 35,
        towers2 := [exTower2], enemies2 := [exWeak2]\<rparr>"

section \<open>Properties of the spawner\<close>

lemma paths_nonempty: "path (MAPS m) \<noteq> []"
  by (cases m) simp_all

lemma length_spawnWave: "length (spawnWave w p rnd) = w * 2 + 5"
  by (simp add: spawnWave_def)

lemma nth_spawnWave:
  "i < w * 2 + 5 \<Longrightarrow> spawnWave w p rnd ! i = spawnEnemy w p rnd i"
  by (simp add: spawnWave_def del: upt_Suc)

lemma spawnEnemy_health:
  "health (spawnEnemy w p rnd i) = base_health (baseStats (enemy_type (spawnEnemy w p rnd i))) + int w * 10"
  by (simp add: spawnEnemy_def Let_def)

text \<open>
  C9. For every wave number \<open>w\<close> (in particular \<open>w \<ge> 1\<close>) the spawner of the primary
  implementation produces exactly \<open>w * 2 + 5\<close> enemies and the one of the second
  implementation exactly \<open>w * 2 + 3\<close>; every enemy has health
  \<open>baseHealth(type) + w * 10\<close> (base health 20 in the second implementation, whose enemies
  have no type); the \<open>i\<close>-th enemy stands at the height of the first waypoint of the path
  with \<open>x = firstWaypoint.x - i * offset\<close> (offset 50, respectively 40) and approaches
  waypoint 0.
\<close>

theorem spawnWave_roster:
  "length (spawnWave w (path (MAPS m)) rnd) = w * 2 + 5
   \<and> map health (spawnWave w (path (MAPS m)) rnd)
       = map (\<lambda>e. base_health (baseStats (enemy_type e)) + int w * 10)
           (spawnWave w (path (MAPS m)) rnd)
   \<and> map enemy_x (spawnWave w (path (MAPS m)) rnd)
       = map (\<lambda>i. px (path (MAPS m) ! 0) - real i * 50) [0..<w * 2 + 5]
   \<and> map enemy_y (spawnWave w (path (MAPS m)) rnd)
       = map (\<lambda>i. py (path (MAPS m) ! 0)) [0..<w * 2 + 5]
   \<and> map pathIndex (spawnWave w (path (MAPS m)) rnd) = map (\<lambda>i. 0) [0..<w * 2 + 5]
   \<and> length (spawnWave2 w) = w * 2 + 3
   \<and> map health2 (spawnWave2 w) = map (\<lambda>i. 20 + int w * 10) [0..<w * 2 + 3]
   \<and> map enemy2_x (spawnWave2 w) = map (\<lambda>i. px (ENEMY_PATH ! 0) - real i * 40) [0..<w * 2 + 3]
   \<and> map enemy2_y (spawnWave2 w) = map (\<lambda>i. py (ENEMY_PATH ! 0)) [0..<w * 2 + 3]
   \<and> map pathIndex2 (spawnWave2 w) = map (\<lambda>i. 0) [0..<w * 2 + 3]"
proof -
  have hd0: "hd (path (MAPS m)) = path (MAPS m) ! 0"
    using paths_nonempty [of m] by (simp add: hd_conv_nth)
  have a: "map health (spawnWave w (path (MAPS m)) rnd)
       = map (\<lambda>e. base_health (baseStats (enemy_type e)) + int w * 10)
           (spawnWave w (path (MAPS m)) rnd)"
    by (simp add: spawnWave_def spawnEnemy_health del: upt_Suc)
  have b: "map enemy_x (spawnWave w (path (MAPS m)) rnd)
       = map (\<lambda>i. px (path (MAPS m) ! 0) - real i * 50) [0..<w * 2 + 5]"
    by (simp add: spawnWave_def spawnEnemy_def Let_def hd0 del: upt_Suc)
  have c: "map enemy_y (spawnWave w (path (MAPS m)) rnd)
       = map (\<lambda>i. py (path (MAPS m) ! 0)) [0..<w * 2 + 5]"
    by (simp add: spawnWave_def spawnEnemy_def Let_def hd0 del: upt_Suc)
  have d: "map pathIndex (spawnWave w (path (MAPS m)) rnd) = map (\<lambda>i. 0) [0..<w * 2 + 5]"
    by (simp add: spawnWave_def spawnEnemy_def Let_def del: upt_Suc)
  have e: "map health2 (spawnWave2 w) = map (\<lambda>i. 20 + int w * 10) [0..<w * 2 + 3]"
    by (simp add: spawnWave2_def spawnEnemy2_def del: upt_Suc)
  have f: "map enemy2_x (spawnWave2 w) = map (\<lambda>i. px (ENEMY_PATH ! 0) - real i * 40) [0..<w * 2 + 3]"
    by (simp add: spawnWave2_def spawnEnemy2_def ENEMY_PATH_def del: upt_Suc)
  have g: "map enemy2_y (spawnWave2 w) = map (\<lambda>i. py (ENEMY_PATH ! 0)) [0..<w * 2 + 3]"
    by (simp add: spawnWave2_def spawnEnemy2_def ENEMY_PATH_def del: upt_Suc)
  have h: "map pathIndex2 (spawnWave2 w) = map (\<lambda>i. 0) [0..<w * 2 + 3]"
    by (simp add: spawnWave2_def spawnEnemy2_def del: upt_Suc)
  show ?thesis
    using a b c d e f g h by (simp add: spawnWave_def spawnWave2_def)
qed

section \<open>Square roots on concrete numbers\<close>

lemma sqrt_le_iff_sq: "0 \<le> a \<Longrightarrow> sqrt a \<le> r \<longleftrightarrow> 0 \<le> r \<and> a \<le> r * r"
proof -
  assume a: "0 \<le> a"
  show ?thesis
  proof (cases "0 \<le> r")
    case True
    then have "sqrt (r * r) = r" by simp
    then have "sqrt a \<le> r \<longleftrightarrow> sqrt a \<le> sqrt (r * r)" by simp
    also have "\<dots> \<longleftrightarrow> a \<le> r * r" by (rule real_sqrt_le_iff)
    finally show ?thesis using True by simp
  next
    case False
    moreover have "0 \<le> sqrt a" using a by simp
    ultimately show ?thesis by linarith
  qed
qed

lemma sqrt_less_iff_sq: "0 \<le> a \<Longrightarrow> sqrt a < r \<longleftrightarrow> 0 < r \<and> a < r * r"
proof -
  assume a: "0 \<le> a"
  show ?thesis
  proof (cases "0 < r")
    case True
    then have "sqrt (r * r) = r" by simp
    then have "sqrt a < r \<longleftrightarrow> sqrt a < sqrt (r * r)" by simp
    also have "\<dots> \<longleftrightarrow> a < r * r" by (rule real_sqrt_less_iff)
    finally show ?thesis using True by simp
  next
    case False
    moreover have "0 \<le> sqrt a" using a by simp
    ultimately show ?thesis by linarith
  qed
qed

lemma inRange_sq:
  "inRange tower enemy \<longleftrightarrow>
     0 \<le> tower_range tower \<and>
     (enemy_x enemy - tower_x tower) * (enemy_x enemy - tower_x tower)
       + (enemy_y enemy - tower_y tower) * (enemy_y enemy - tower_y tower)
     \<le> tower_range tower * tower_range tower"
  by (simp add: inRange_def Let_def sqrt_le_iff_sq)

lemma inRange2_sq:
  "inRange2 tower enemy \<longleftrightarrow>
     0 \<le> tower_range tower \<and>
     (enemy2_x enemy - tower_x tower) * (enemy2_x enemy - tower_x tower)
       + (enemy2_y enemy - tower_y tower) * (enemy2_y enemy - tower_y tower)
     \<le> tower_range tower * tower_range tower"
  by (simp add: inRange2_def Let_def sqrt_le_iff_sq)

lemma tooCloseToPath_sq:
  "tooCloseToPath p x y \<longleftrightarrow>
     list_ex (\<lambda>point. (px point - x) * (px point - x) + (py point - y) * (py point - y) < 900) p"
  by (simp add: tooCloseToPath_def Let_def sqrt_less_iff_sq)

section \<open>Tower attacks\<close>

lemma attackMap_fst: "fst (attackMap tower tid es s) = map (hitBy tower tid) es"
  by (induction es arbitrary: s) (simp_all add: hitBy_def Let_def case_prod_beta)

lemma attackMap_snd: "snd (attackMap tower tid es s) = foldl creditKill s (killedBy tower tid es)"
  by (induction es arbitrary: s) (simp_all add: killedBy_def Let_def case_prod_beta)

lemma attackMap2_fst: "fst (attackMap2 tower tid es s) = map (hitBy2 tower tid) es"
  by (induction es arbitrary: s) (simp_all add: hitBy2_def Let_def case_prod_beta)

lemma attackMap2_snd: "snd (attackMap2 tower tid es s) = foldl creditKill2 s (killedBy2 tower tid es)"
  by (induction es arbitrary: s) (simp_all add: killedBy2_def Let_def case_prod_beta)

lemma foldl_creditKill:
  "foldl creditKill s ks =
     s\<lparr>gold := gold s + sum_list (map reward ks), xpEarned := xpEarned s + 5 * int (length ks),
       killCount := killCount s + length ks, totalKills := totalKills s + length ks\<rparr>"
  by (induction ks arbitrary: s) (simp_all add: creditKill_def algebra_simps)

lemma foldl_creditKill2:
  "foldl creditKill2 s ks =
     s\<lparr>gold2 := gold2 s + sum_list (map reward2 ks), xpEarned2 := xpEarned2 s + 5 * int (length ks),
       killCount2 := killCount2 s + length ks\<rparr>"
  by (induction ks arbitrary: s) (simp_all add: creditKill2_def algebra_simps)

lemma towerAttack_target:
  "filter (inRange tower) (enemies s) = target # rest \<Longrightarrow>
   towerAttack tower s =
     (foldl creditKill s (killedBy tower (enemy_id target) (enemies s)))
       \<lparr>enemies := filter (\<lambda>e. health e > 0) (map (hitBy tower (enemy_id target)) (enemies s))\<rparr>"
  using attackMap_fst [of tower "enemy_id target" "enemies s" s]
        attackMap_snd [of tower "enemy_id target" "enemies s" s]
  by (simp add: towerAttack_def case_prod_beta)

lemma towerAttack_none:
  "filter (inRange tower) (enemies s) = [] \<Longrightarrow> towerAttack tower s = s"
  by (simp add: towerAttack_def)

lemma towerAttack2_target:
  "filter (inRange2 tower) (enemies2 s) = target # rest \<Longrightarrow>
   towerAttack2 tower s =
     (foldl creditKill2 s (killedBy2 tower (enemy2_id target) (enemies2 s)))
       \<lparr>enemies2 := filter (\<lambda>e. health2 e > 0) (map (hitBy2 tower (enemy2_id target)) (enemies2 s))\<rparr>"
  using attackMap2_fst [of tower "enemy2_id target" "enemies2 s" s]
        attackMap2_snd [of tower "enemy2_id target" "enemies2 s" s]
  by (simp add: towerAttack2_def case_prod_beta)

lemma towerAttack2_none:
  "filter (inRange2 tower) (enemies2 s) = [] \<Longrightarrow> towerAttack2 tower s = s"
  by (simp add: towerAttack2_def)

lemma filter_first:
  "\<forall>e\<in>set before. \<not> P e \<Longrightarrow> P t \<Longrightarrow> filter P (before @ t # after) = t # filter P after"
  by (induction before) simp_all

lemma catalog2_damage: "5 \<le> def_damage (TOWER_TYPES2 k)"
  by (cases k) simp_all

section \<open>Unlocking tower types\<close>

text \<open>
  C10. The unlock operation changes nothing when gold is below the unlock cost (three
  times the catalog cost in the primary implementation, five times in the second); when
  gold suffices it deducts the unlock cost and appends the type to the unlocked list
  without looking at the list, so that a second call for the same type deducts the gold
  again and appends the type again.
\<close>

theorem unlockTower_no_check:
  "(gold s < def_cost (TOWER_TYPES k) * 3 \<longrightarrow> unlockTower k s = s)
   \<and> (gold s \<ge> def_cost (TOWER_TYPES k) * 3 \<longrightarrow>
        unlockTower k s = s\<lparr>gold := gold s - def_cost (TOWER_TYPES k) * 3,
                             unlockedTowers := unlockedTowers s @ [k]\<rparr>)
   \<and> (gold s \<ge> 2 * (def_cost (TOWER_TYPES k) * 3) \<longrightarrow>
        gold (unlockTower k (unlockTower k s)) = gold s - 2 * (def_cost (TOWER_TYPES k) * 3)
        \<and> unlockedTowers (unlockTower k (unlockTower k s)) = unlockedTowers s @ [k, k])
   \<and> (gold2 s2 < def_cost (TOWER_TYPES2 k2) * 5 \<longrightarrow> unlockTower2 k2 s2 = s2)
   \<and> (gold2 s2 \<ge> def_cost (TOWER_TYPES2 k2) * 5 \<longrightarrow>
        unlockTower2 k2 s2 = s2\<lparr>gold2 := gold2 s2 - def_cost (TOWER_TYPES2 k2) * 5,
                                unlockedTowers2 := unlockedTowers2 s2 @ [k2]\<rparr>)
   \<and> (gold2 s2 \<ge> 2 * (def_cost (TOWER_TYPES2 k2) * 5) \<longrightarrow>
        gold2 (unlockTower2 k2 (unlockTower2 k2 s2)) = gold2 s2 - 2 * (def_cost (TOWER_TYPES2 k2) * 5)
        \<and> unlockedTowers2 (unlockTower2 k2 (unlockTower2 k2 s2)) = unlockedTowers2 s2 @ [k2, k2])"
proof -
  have pos: "0 \<le> def_cost (TOWER_TYPES k)" by (cases k) simp_all
  have pos2: "0 \<le> def_cost (TOWER_TYPES2 k2)" by (cases k2) simp_all
  show ?thesis
    using pos pos2 by (simp add: unlockTower_def unlockTower2_def Let_def)
qed

theorem unlockTower_no_check_witness:
  "gold (unlockTower cannon (initialState None)) = 250
   \<and> unlockedTowers (unlockTower cannon (initialState None)) = [archer, cannon]
   \<and> gold (unlockTower cannon ((initialState None)\<lparr>gold := 700\<rparr>)) = 400
   \<and> unlockedTowers (unlockTower cannon ((initialState None)\<lparr>gold := 700\<rparr>)) = [archer, cannon, cannon]
   \<and> gold (unlockTower cannon (unlockTower cannon ((initialState None)\<lparr>gold := 700\<rparr>))) = 100
   \<and> gold2 (unlockTower2 sniper (initialState2 None)) = 200
   \<and> unlockedTowers2 (unlockTower2 basic ((initialState2 None)\<lparr>gold2 := 600\<rparr>)) = [basic, basic]
   \<and> gold2 (unlockTower2 basic (unlockTower2 basic ((initialState2 None)\<lparr>gold2 := 600\<rparr>))) = 100"
  using unlockTower_no_check [of "initialState None" cannon "initialState2 None" sniper]
    unlockTower_no_check [of "(initialState None)\<lparr>gold := 700\<rparr>" cannon
       "(initialState2 None)\<lparr>gold2 := 600\<rparr>" basic]
  by (simp add: initialState_def initialState2_def unlockTower_def unlockTower2_def)

section \<open>Victory\<close>

lemma indexOf_mapKeys:
  "indexOf mapKeys greenlands = 0" "indexOf mapKeys volcano = 1"
  "indexOf mapKeys crystalCave = 2" "indexOf mapKeys darkCastle = 3"
  by (simp_all add: mapKeys_def)

lemma handleVictory_unlockedMaps:
  "unlockedMaps (handleVictory s) =
     (case nextMapOf (currentMap s) of
        None \<Rightarrow> unlockedMaps s
      | Some n \<Rightarrow> if n \<in> set (unlockedMaps s) then unlockedMaps s else unlockedMaps s @ [n])"
  by (cases "currentMap s")
     (auto simp add: handleVictory_def Let_def indexOf_mapKeys mapKeys_def
           split: option.splits)

lemma handleVictory_fields:
  "isPlaying (handleVictory s) = False" "gameOver (handleVictory s) = True"
  "victory (handleVictory s) = True"
  "xpEarned (handleVictory s) = 150 + int (wave s) * 15 + xpEarned s"
  "currentMap (handleVictory s) = currentMap s"
  by (simp_all add: handleVictory_def Let_def split: option.splits)

lemma handleVictory2_fields:
  "isPlaying2 (handleVictory2 s) = False" "gameOver2 (handleVictory2 s) = True"
  "xpEarned2 (handleVictory2 s) = 100 + int (wave2 s) * 10 + xpEarned2 s"
  by (simp_all add: handleVictory2_def Let_def split: option.splits)

lemma nextMapOf_distinct:
  "distinct ms \<Longrightarrow> distinct (case nextMapOf k of None \<Rightarrow> ms
      | Some n \<Rightarrow> if n \<in> set ms then ms else ms @ [n])"
  by (simp split: option.splits)

section \<open>Movement phase\<close>

lemma moveEnemy_atEnd: "snd (moveEnemy p e) = completesPath p e"
proof (cases "pathIndex e < length p")
  case False
  then show ?thesis
    by (cases "p = []") (auto simp add: moveEnemy_def completesPath_def)
next
  case inside: True
  then have ne: "p \<noteq> []" by auto
  show ?thesis
  proof (cases "pathIndex e < length p - 1")
    case True
    then show ?thesis
      using inside by (simp add: moveEnemy_def completesPath_def Let_def)
  next
    case False
    with inside have idx: "pathIndex e = length p - 1" by linarith
    then have "p ! pathIndex e = last p"
      using ne by (simp add: last_conv_nth)
    moreover have "\<not> length p \<le> length p - Suc 0"
      using ne by (cases p) simp_all
    ultimately show ?thesis
      using idx ne by (simp add: moveEnemy_def completesPath_def Let_def)
  qed
qed

lemma moveEnemies_fst: "fst (moveEnemies p es s) = map (\<lambda>e. fst (moveEnemy p e)) es"
  by (induction es arbitrary: s) (simp_all add: case_prod_beta Let_def)

lemma moveEnemies_snd:
  "snd (moveEnemies p es s) = (loseLife ^^ length (filter (completesPath p) es)) s"
  by (induction es arbitrary: s)
     (simp_all add: case_prod_beta Let_def moveEnemy_atEnd funpow_swap1)

lemma loseLife_funpow:
  "(loseLife ^^ k) s =
     (if k = 0 then s
      else (if lives s - int k \<le> 0 then s\<lparr>gameOver := True, isPlaying := False\<rparr> else s)
             \<lparr>lives := lives s - int k\<rparr>)"
proof (induction k)
  case 0
  then show ?case by simp
next
  case (Suc k)
  then show ?case by (cases "k = 0") (auto simp add: loseLife_def Let_def)
qed

lemma movePhase_eq:
  "movePhase s =
     ((loseLife ^^ length (filter (completesPath (currentPath s)) (enemies s))) s)
       \<lparr>enemies := filter (\<lambda>e. health e > 0)
                     (map (\<lambda>e. fst (moveEnemy (currentPath s) e)) (enemies s))\<rparr>"
  using moveEnemies_fst [of "currentPath s" "enemies s" s]
        moveEnemies_snd [of "currentPath s" "enemies s" s]
  by (simp add: movePhase_def case_prod_beta)

lemma movePhase_towers: "towers (movePhase s) = towers s"
  by (simp add: movePhase_eq loseLife_funpow)

lemma fireTowers_fst:
  "fst (fireTowers now ts s) =
     map (\<lambda>t. if now - lastFired t < fireRate t then t else t\<lparr>lastFired := now\<rparr>) ts"
  by (induction ts arbitrary: s) (simp_all add: fireTower_def case_prod_beta Let_def)

lemma gameLoop_towers:
  "isPlaying s \<Longrightarrow> \<not> gameOver s \<Longrightarrow>
   towers (gameLoop now s) =
     map (\<lambda>t. if now - lastFired t < fireRate t then t else t\<lparr>lastFired := now\<rparr>) (towers s)"
  using fireTowers_fst [of now "towers (movePhase s)" "movePhase s"]
  by (simp add: gameLoop_def case_prod_beta Let_def movePhase_towers)

section \<open>Fire-rate gate and targeting\<close>

lemma hit_only_target:
  "\<forall>e\<in>set es. enemy_id e \<noteq> tid \<Longrightarrow> map (hitBy tower tid) es = es"
  by (induction es) (simp_all add: hitBy_def)

lemma hit2_only_target:
  "\<forall>e\<in>set es. enemy2_id e \<noteq> tid \<Longrightarrow> map (hitBy2 tower tid) es = es"
  by (induction es) (simp_all add: hitBy2_def)

lemma fireTower_first_in_range:
  "(now - lastFired tower < fireRate tower \<longrightarrow> fireTower now tower s = (tower, s))
   \<and> (now - lastFired tower \<ge> fireRate tower \<longrightarrow>
        fst (fireTower now tower s) = tower\<lparr>lastFired := now\<rparr>)
   \<and> (now - lastFired tower \<ge> fireRate tower \<and> (\<forall>e\<in>set (enemies s). \<not> inRange tower e) \<longrightarrow>
        snd (fireTower now tower s) = s)
   \<and> (now - lastFired tower \<ge> fireRate tower \<and> enemies s = before @ t # after
        \<and> (\<forall>e\<in>set before. \<not> inRange tower e) \<and> inRange tower t \<longrightarrow>
        enemies (snd (fireTower now tower s)) =
          filter (\<lambda>e. health e > 0) (map (hitBy tower (enemy_id t)) (enemies s)))
   \<and> (now - lastFired tower \<ge> fireRate tower \<and> enemies s = before @ t # after
        \<and> (\<forall>e\<in>set before. \<not> inRange tower e) \<and> inRange tower t
        \<and> (\<forall>e\<in>set (before @ after). enemy_id e \<noteq> enemy_id t) \<longrightarrow>
        enemies (snd (fireTower now tower s)) =
          filter (\<lambda>e. health e > 0)
            (before @ t\<lparr>health := health t - max (damage tower - armor t) 5\<rparr> # after))"
proof -
  have g1: "now - lastFired tower < fireRate tower \<longrightarrow> fireTower now tower s = (tower, s)"
    by (simp add: fireTower_def)
  have g2: "now - lastFired tower \<ge> fireRate tower \<longrightarrow>
        fst (fireTower now tower s) = tower\<lparr>lastFired := now\<rparr>"
    by (simp add: fireTower_def)
  have g3: "now - lastFired tower \<ge> fireRate tower \<and> (\<forall>e\<in>set (enemies s). \<not> inRange tower e) \<longrightarrow>
        snd (fireTower now tower s) = s"
    by (simp add: fireTower_def towerAttack_none)
  have tgt: "filter (inRange tower) (enemies s) = t # filter (inRange tower) after"
    if "enemies s = before @ t # after" "\<forall>e\<in>set before. \<not> inRange tower e" "inRange tower t"
    using that filter_first [of before "inRange tower" t after] by simp
  have g4: "now - lastFired tower \<ge> fireRate tower \<and> enemies s = before @ t # after
        \<and> (\<forall>e\<in>set before. \<not> inRange tower e) \<and> inRange tower t \<longrightarrow>
        enemies (snd (fireTower now tower s)) =
          filter (\<lambda>e. health e > 0) (map (hitBy tower (enemy_id t)) (enemies s))"
  proof (intro impI, elim conjE)
    assume a: "now - lastFired tower \<ge> fireRate tower" "enemies s = before @ t # after"
      "\<forall>e\<in>set before. \<not> inRange tower e" "inRange tower t"
    show "enemies (snd (fireTower now tower s)) =
          filter (\<lambda>e. health e > 0) (map (hitBy tower (enemy_id t)) (enemies s))"
      using a(1) by (simp add: fireTower_def towerAttack_target [OF tgt [OF a(2) a(3) a(4)]])
  qed
  have g5: "now - lastFired tower \<ge> fireRate tower \<and> enemies s = before @ t # after
        \<and> (\<forall>e\<in>set before. \<not> inRange tower e) \<and> inRange tower t
        \<and> (\<forall>e\<in>set (before @ after). enemy_id e \<noteq> enemy_id t) \<longrightarrow>
        enemies (snd (fireTower now tower s)) =
          filter (\<lambda>e. health e > 0)
            (before @ t\<lparr>health := health t - max (damage tower - armor t) 5\<rparr> # after)"
  proof (intro impI, elim conjE)
    assume a: "now - lastFired tower \<ge> fireRate tower" "enemies s = before @ t # after"
      "\<forall>e\<in>set before. \<not> inRange tower e" "inRange tower t"
      "\<forall>e\<in>set (before @ after). enemy_id e \<noteq> enemy_id t"
    have "map (hitBy tower (enemy_id t)) (enemies s) =
            before @ t\<lparr>health := health t - max (damage tower - armor t) 5\<rparr> # after"
      using a(2) a(5) hit_only_target [of before "enemy_id t" tower]
        hit_only_target [of after "enemy_id t" tower]
      by (simp add: hitBy_def)
    then show "enemies (snd (fireTower now tower s)) =
          filter (\<lambda>e. health e > 0)
            (before @ t\<lparr>health := health t - max (damage tower - armor t) 5\<rparr> # after)"
      using g4 a by simp
  qed
  show ?thesis
    by (intro conjI; fact)
qed

lemma fireTower2_first_in_range:
  "(now - lastFired tower < fireRate tower \<longrightarrow> fireTower2 now tower s = (tower, s))
   \<and> (now - lastFired tower \<ge> fireRate tower \<longrightarrow>
        fst (fireTower2 now tower s) = tower\<lparr>lastFired := now\<rparr>)
   \<and> (now - lastFired tower \<ge> fireRate tower \<and> (\<forall>e\<in>set (enemies2 s). \<not> inRange2 tower e) \<longrightarrow>
        snd (fireTower2 now tower s) = s)
   \<and> (now - lastFired tower \<ge> fireRate tower \<and> enemies2 s = before @ t # after
        \<and> (\<forall>e\<in>set before. \<not> inRange2 tower e) \<and> inRange2 tower t \<longrightarrow>
        enemies2 (snd (fireTower2 now tower s)) =
          filter (\<lambda>e. health2 e > 0) (map (hitBy2 tower (enemy2_id t)) (enemies2 s)))
   \<and> (now - lastFired tower \<ge> fireRate tower \<and> enemies2 s = before @ t # after
        \<and> (\<forall>e\<in>set before. \<not> inRange2 tower e) \<and> inRange2 tower t
        \<and> (\<forall>e\<in>set (before @ after). enemy2_id e \<noteq> enemy2_id t) \<longrightarrow>
        enemies2 (snd (fireTower2 now tower s)) =
          filter (\<lambda>e. health2 e > 0)
            (before @ t\<lparr>health2 := health2 t - damage tower\<rparr> # after))"
proof -
  have g1: "now - lastFired tower < fireRate tower \<longrightarrow> fireTower2 now tower s = (tower, s)"
    by (simp add: fireTower2_def)
  have g2: "now - lastFired tower \<ge> fireRate tower \<longrightarrow>
        fst (fireTower2 now tower s) = tower\<lparr>lastFired := now\<rparr>"
    by (simp add: fireTower2_def)
  have g3: "now - lastFired tower \<ge> fireRate tower \<and> (\<forall>e\<in>set (enemies2 s). \<not> inRange2 tower e) \<longrightarrow>
        snd (fireTower2 now tower s) = s"
    by (simp add: fireTower2_def towerAttack2_none)
  have tgt: "filter (inRange2 tower) (enemies2 s) = t # filter (inRange2 tower) after"
    if "enemies2 s = before @ t # after" "\<forall>e\<in>set before. \<not> inRange2 tower e" "inRange2 tower t"
    using that filter_first [of before "inRange2 tower" t after] by simp
  have g4: "now - lastFired tower \<ge> fireRate tower \<and> enemies2 s = before @ t # after
        \<and> (\<forall>e\<in>set before. \<not> inRange2 tower e) \<and> inRange2 tower t \<longrightarrow>
        enemies2 (snd (fireTower2 now tower s)) =
          filter (\<lambda>e. health2 e > 0) (map (hitBy2 tower (enemy2_id t)) (enemies2 s))"
  proof (intro impI, elim conjE)
    assume a: "now - lastFired tower \<ge> fireRate tower" "enemies2 s = before @ t # after"
      "\<forall>e\<in>set before. \<not> inRange2 tower e" "inRange2 tower t"
    show "enemies2 (snd (fireTower2 now tower s)) =
          filter (\<lambda>e. health2 e > 0) (map (hitBy2 tower (enemy2_id t)) (enemies2 s))"
      using a(1) by (simp add: fireTower2_def towerAttack2_target [OF tgt [OF a(2) a(3) a(4)]])
  qed
  have g5: "now - lastFired tower \<ge> fireRate tower \<and> enemies2 s = before @ t # after
        \<and> (\<forall>e\<in>set before. \<not> inRange2 tower e) \<and> inRange2 tower t
        \<and> (\<forall>e\<in>set (before @ after). enemy2_id e \<noteq> enemy2_id t) \<longrightarrow>
        enemies2 (snd (fireTower2 now tower s)) =
          filter (\<lambda>e. health2 e > 0)
            (before @ t\<lparr>health2 := health2 t - damage tower\<rparr> # after)"
  proof (intro impI, elim conjE)
    assume a: "now - lastFired tower \<ge> fireRate tower" "enemies2 s = before @ t # after"
      "\<forall>e\<in>set before. \<not> inRange2 tower e" "inRange2 tower t"
      "\<forall>e\<in>set (before @ after). enemy2_id e \<noteq> enemy2_id t"
    have "map (hitBy2 tower (enemy2_id t)) (enemies2 s) =
            before @ t\<lparr>health2 := health2 t - damage tower\<rparr> # after"
      using a(2) a(5) hit2_only_target [of before "enemy2_id t" tower]
        hit2_only_target [of after "enemy2_id t" tower]
      by (simp add: hitBy2_def)
    then show "enemies2 (snd (fireTower2 now tower s)) =
          filter (\<lambda>e. health2 e > 0)
            (before @ t\<lparr>health2 := health2 t - damage tower\<rparr> # after)"
      using g4 a by simp
  qed
  show ?thesis
    by (intro conjI; fact)
qed

section \<open>What a frame leaves unchanged\<close>

lemma combatCore_towerAttack: "combatCore (towerAttack tower s) = combatCore s"
proof (cases "filter (inRange tower) (enemies s)")
  case Nil
  then show ?thesis by (simp add: towerAttack_none)
next
  case (Cons target rest)
  then show ?thesis
    by (simp add: towerAttack_target foldl_creditKill combatCore_def)
qed

lemma combatCore_fireTowers: "combatCore (snd (fireTowers now ts s)) = combatCore s"
  by (induction ts arbitrary: s)
     (simp_all add: case_prod_beta Let_def fireTower_def combatCore_towerAttack)

lemma combatCore_fields:
  "lives s = lives (combatCore s)" "isPlaying s = isPlaying (combatCore s)"
  "gameOver s = gameOver (combatCore s)" "wave s = wave (combatCore s)"
  "currentMap s = currentMap (combatCore s)" "towers s = towers (combatCore s)"
  "recorded s = recorded (combatCore s)" "waveTimers s = waveTimers (combatCore s)"
  "unlockedTowers s = unlockedTowers (combatCore s)" "victory s = victory (combatCore s)"
  "unlockedMaps s = unlockedMaps (combatCore s)" "address s = address (combatCore s)"
  "placementMode s = placementMode (combatCore s)" "selectedTower s = selectedTower (combatCore s)"
  by (simp_all add: combatCore_def)

lemma fireTowers_frame:
  "lives (snd (fireTowers now ts s)) = lives s"
  "isPlaying (snd (fireTowers now ts s)) = isPlaying s"
  "gameOver (snd (fireTowers now ts s)) = gameOver s"
  "wave (snd (fireTowers now ts s)) = wave s"
  "currentMap (snd (fireTowers now ts s)) = currentMap s"
  "recorded (snd (fireTowers now ts s)) = recorded s"
  "waveTimers (snd (fireTowers now ts s)) = waveTimers s"
  "unlockedTowers (snd (fireTowers now ts s)) = unlockedTowers s"
  "unlockedMaps (snd (fireTowers now ts s)) = unlockedMaps s"
  "victory (snd (fireTowers now ts s)) = victory s"
  "address (snd (fireTowers now ts s)) = address s"
  "placementMode (snd (fireTowers now ts s)) = placementMode s"
  "selectedTower (snd (fireTowers now ts s)) = selectedTower s"
  using combatCore_fireTowers [of now ts s]
  by (simp_all add: combatCore_fields [of "snd (fireTowers now ts s)"] combatCore_fields [of s, symmetric])

lemma movePhase_lives:
  "lives (movePhase s) = lives s - int (length (filter (completesPath (currentPath s)) (enemies s)))"
  by (simp add: movePhase_eq loseLife_funpow)

lemma movePhase_frame:
  "wave (movePhase s) = wave s" "currentMap (movePhase s) = currentMap s"
  "recorded (movePhase s) = recorded s" "waveTimers (movePhase s) = waveTimers s"
  "gold (movePhase s) = gold s" "unlockedTowers (movePhase s) = unlockedTowers s"
  "unlockedMaps (movePhase s) = unlockedMaps s" "address (movePhase s) = address s"
  "placementMode (movePhase s) = placementMode s" "selectedTower (movePhase s) = selectedTower s"
  "totalKills (movePhase s) = totalKills s" "xpEarned (movePhase s) = xpEarned s"
  "victory (movePhase s) = victory s"
  by (simp_all add: movePhase_eq loseLife_funpow)

lemma movePhase_over:
  "gameOver (movePhase s) =
     (gameOver s \<or> (filter (completesPath (currentPath s)) (enemies s) \<noteq> []
        \<and> lives (movePhase s) \<le> 0))"
  "isPlaying (movePhase s) =
     (isPlaying s \<and> \<not> (filter (completesPath (currentPath s)) (enemies s) \<noteq> []
        \<and> lives (movePhase s) \<le> 0))"
  by (simp_all add: movePhase_eq loseLife_funpow)

lemma gameLoop_lives:
  "lives (gameLoop now s) =
     (if isPlaying s \<and> \<not> gameOver s
      then lives s - int (length (filter (completesPath (currentPath s)) (enemies s)))
      else lives s)"
  by (simp add: gameLoop_def case_prod_beta Let_def fireTowers_frame movePhase_lives)

lemma gameLoop_over:
  "isPlaying s \<Longrightarrow> \<not> gameOver s \<Longrightarrow>
   gameOver (gameLoop now s) =
     (filter (completesPath (currentPath s)) (enemies s) \<noteq> [] \<and> lives (gameLoop now s) \<le> 0)"
  "isPlaying s \<Longrightarrow> \<not> gameOver s \<Longrightarrow>
   isPlaying (gameLoop now s) =
     (\<not> (filter (completesPath (currentPath s)) (enemies s) \<noteq> [] \<and> lives (gameLoop now s) \<le> 0))"
  by (simp_all add: gameLoop_def case_prod_beta Let_def fireTowers_frame movePhase_over movePhase_lives)

lemma gameLoop_frame:
  "wave (gameLoop now s) = wave s" "currentMap (gameLoop now s) = currentMap s"
  "recorded (gameLoop now s) = recorded s" "waveTimers (gameLoop now s) = waveTimers s"
  "unlockedTowers (gameLoop now s) = unlockedTowers s"
  "unlockedMaps (gameLoop now s) = unlockedMaps s" "address (gameLoop now s) = address s"
  "placementMode (gameLoop now s) = placementMode s"
  "selectedTower (gameLoop now s) = selectedTower s"
  "victory (gameLoop now s) = victory s"
  by (simp_all add: gameLoop_def case_prod_beta Let_def fireTowers_frame movePhase_frame)

section \<open>Lives\<close>

lemma handleVictory_frame:
  "lives (handleVictory s) = lives s" "gold (handleVictory s) = gold s"
  "towers (handleVictory s) = towers s" "wave (handleVictory s) = wave s"
  "enemies (handleVictory s) = enemies s" "waveTimers (handleVictory s) = waveTimers s"
  "unlockedTowers (handleVictory s) = unlockedTowers s"
  "totalKills (handleVictory s) = totalKills s" "address (handleVictory s) = address s"
  by (simp_all add: handleVictory_def Let_def split: option.splits)

lemma waveCompletionEffect_frame:
  "lives (waveCompletionEffect s) = lives s" "gold (waveCompletionEffect s) = gold s"
  "towers (waveCompletionEffect s) = towers s" "wave (waveCompletionEffect s) = wave s"
  "enemies (waveCompletionEffect s) = enemies s"
  "currentMap (waveCompletionEffect s) = currentMap s"
  "unlockedTowers (waveCompletionEffect s) = unlockedTowers s"
  "totalKills (waveCompletionEffect s) = totalKills s"
  "address (waveCompletionEffect s) = address s"
  by (simp_all add: waveCompletionEffect_def handleVictory_frame handleVictory_fields)

lemma waveCompletionEffect_over:
  "gameOver (waveCompletionEffect s) =
     (gameOver s \<or> (isPlaying s \<and> enemies s = [] \<and> wave s > 0
        \<and> wave s \<ge> waves (MAPS (currentMap s))))"
  "isPlaying (waveCompletionEffect s) =
     (isPlaying s \<and> \<not> (enemies s = [] \<and> wave s > 0 \<and> wave s \<ge> waves (MAPS (currentMap s))))"
  by (auto simp add: waveCompletionEffect_def handleVictory_fields)

lemma step_lives: "lives (step rnd ev s) = lives (handle ev s)"
  by (simp add: step_def Let_def waveCompletionEffect_frame)

lemma handle_lives:
  "\<not> isReset ev \<Longrightarrow>
   lives (handle ev s) = (case ev of Tick now \<Rightarrow> lives (gameLoop now s) | _ \<Rightarrow> lives s)"
  by (cases ev)
     (simp_all add: placeTower_def unlockTower_def startGame_def waveTimerFires_def Let_def
        split: option.splits)

lemma handle_lives_le: "\<not> isReset ev \<Longrightarrow> lives (handle ev s) \<le> lives s"
  by (simp add: handle_lives gameLoop_lives split: event.splits)

lemma run_lives_le: "\<forall>x\<in>set evs. \<not> isReset (fst x) \<Longrightarrow> lives (run evs s) \<le> lives s"
proof (induction evs arbitrary: s)
  case Nil
  then show ?case by simp
next
  case (Cons x evs)
  obtain ev rnd where x: "x = (ev, rnd)" by (cases x)
  have "lives (run evs (step rnd ev s)) \<le> lives (step rnd ev s)"
    using Cons by simp
  also have "\<dots> \<le> lives s"
    using Cons.prems x by (simp add: step_lives handle_lives_le)
  finally show ?case using x by simp
qed

lemma handle_gameOver:
  "\<not> isReset ev \<Longrightarrow> gameOver s \<Longrightarrow> gameOver (handle ev s) \<and> lives (handle ev s) = lives s"
  by (cases ev)
     (simp_all add: gameLoop_def placeTower_def unlockTower_def startGame_def waveTimerFires_def
        Let_def split: option.splits)

lemma step_gameOver:
  "\<not> isReset ev \<Longrightarrow> gameOver s \<Longrightarrow> gameOver (step rnd ev s) \<and> lives (step rnd ev s) = lives s"
  using handle_gameOver [of ev s]
  by (simp add: step_def Let_def waveCompletionEffect_frame waveCompletionEffect_over)

lemma run_gameOver:
  "\<forall>x\<in>set evs. \<not> isReset (fst x) \<Longrightarrow> gameOver s \<Longrightarrow>
   gameOver (run evs s) \<and> lives (run evs s) = lives s"
proof (induction evs arbitrary: s)
  case Nil
  then show ?case by simp
next
  case (Cons x evs)
  obtain ev rnd where x: "x = (ev, rnd)" by (cases x)
  have a: "gameOver (step rnd ev s) \<and> lives (step rnd ev s) = lives s"
    using Cons.prems x by (simp add: step_gameOver)
  then show ?case
    using Cons.IH [of "step rnd ev s"] Cons.prems(1) x by simp
qed

lemma defeatInv_gameLoop: "defeatInv s \<Longrightarrow> defeatInv (gameLoop now s)"
proof (cases "isPlaying s \<and> \<not> gameOver s")
  case False
  assume "defeatInv s"
  with False show ?thesis by (simp add: gameLoop_def)
next
  case True
  assume "defeatInv s"
  with True have "0 < lives s" by (auto simp add: defeatInv_def)
  with True show ?thesis
    by (auto simp add: defeatInv_def gameLoop_over gameLoop_lives)
qed

lemma defeatInv_handle: "defeatInv s \<Longrightarrow> defeatInv (handle ev s)"
proof (cases ev)
  case (Tick now)
  assume "defeatInv s"
  then show ?thesis using Tick by (simp add: defeatInv_gameLoop)
qed (auto simp add: defeatInv_def placeTower_def unlockTower_def startGame_def resetGame_def
       waveTimerFires_def Let_def split: option.splits)

lemma defeatInv_waveCompletionEffect: "defeatInv s \<Longrightarrow> defeatInv (waveCompletionEffect s)"
  by (auto simp add: defeatInv_def waveCompletionEffect_def handleVictory_fields handleVictory_frame)

lemma defeatInv_step: "defeatInv s \<Longrightarrow> defeatInv (step rnd ev s)"
proof -
  assume "defeatInv s"
  then have h: "defeatInv (handle ev s)" by (rule defeatInv_handle)
  then have w: "defeatInv (waveCompletionEffect (handle ev s))"
    by (rule defeatInv_waveCompletionEffect)
  show ?thesis
    using h w by (auto simp add: step_def Let_def defeatInv_def)
qed

lemma defeatInv_run: "defeatInv s \<Longrightarrow> defeatInv (run evs s)"
proof (induction evs arbitrary: s)
  case Nil
  then show ?case by simp
next
  case (Cons x evs)
  obtain ev rnd where x: "x = (ev, rnd)" by (cases x)
  show ?case using Cons x by (simp add: defeatInv_step)
qed

lemma completesPath_sq:
  "completesPath p e \<longleftrightarrow>
     p \<noteq> [] \<and> pathIndex e = length p - 1
     \<and> (px (last p) - enemy_x e) * (px (last p) - enemy_x e)
         + (py (last p) - enemy_y e) * (py (last p) - enemy_y e) < 25"
  by (simp add: completesPath_def sqrt_less_iff_sq)

lemma exAtEnd:
  "completesPath (path (MAPS greenlands)) exGoblinAtEnd"
  "completesPath (path (MAPS greenlands)) exOrcAtEnd"
  by (simp_all add: completesPath_sq exGoblinAtEnd_def exOrcAtEnd_def pt_def)

lemma exLastLife_fields:
  "isPlaying (exLastLife addr es)" "\<not> gameOver (exLastLife addr es)"
  "lives (exLastLife addr es) = 1" "enemies (exLastLife addr es) = es"
  "currentPath (exLastLife addr es) = path (MAPS greenlands)"
  "recorded (exLastLife addr es) = []" "address (exLastLife addr es) = addr"
  "wave (exLastLife addr es) = 3" "currentMap (exLastLife addr es) = greenlands"
  "towers (exLastLife addr es) = []"
  by (simp_all add: exLastLife_def initialState_def currentPath_def)

text \<open>
  C3, as the code has it. A frame of the running loop lowers lives by exactly the number
  of enemies that complete the path in it, and a frame of a session that is paused or
  over leaves lives alone; nothing but a reset raises lives. When a frame takes lives from
  a positive value to zero or below, the session is over and no longer playing after that
  frame, and once the session is over lives stay as they are until a reset. From a state
  with lives left and the session not over, as the initial state and the state after a
  reset are, every state reached with lives at or below zero is over and not playing.
\<close>

theorem lives_conservation:
  "lives (step rnd (Tick now) s) =
     (if isPlaying s \<and> \<not> gameOver s
      then lives s - int (length (filter (completesPath (currentPath s)) (enemies s)))
      else lives s)
   \<and> ((\<forall>x\<in>set evs. \<not> isReset (fst x)) \<longrightarrow> lives (run evs s) \<le> lives s)
   \<and> (isPlaying s \<and> \<not> gameOver s \<and> 0 < lives s \<and> lives (step rnd (Tick now) s) \<le> 0 \<longrightarrow>
        gameOver (step rnd (Tick now) s) \<and> \<not> isPlaying (step rnd (Tick now) s))
   \<and> (gameOver s \<and> (\<forall>x\<in>set evs. \<not> isReset (fst x)) \<longrightarrow>
        gameOver (run evs s) \<and> lives (run evs s) = lives s)
   \<and> (0 < lives s0 \<and> \<not> gameOver s0 \<and> lives (run evs' s0) \<le> 0 \<longrightarrow>
        gameOver (run evs' s0) \<and> \<not> isPlaying (run evs' s0))"
proof -
  have a: "lives (step rnd (Tick now) s) =
     (if isPlaying s \<and> \<not> gameOver s
      then lives s - int (length (filter (completesPath (currentPath s)) (enemies s)))
      else lives s)"
    by (simp add: step_lives gameLoop_lives)
  have b: "(\<forall>x\<in>set evs. \<not> isReset (fst x)) \<longrightarrow> lives (run evs s) \<le> lives s"
    by (simp add: run_lives_le)
  have c: "isPlaying s \<and> \<not> gameOver s \<and> 0 < lives s \<and> lives (step rnd (Tick now) s) \<le> 0 \<longrightarrow>
        gameOver (step rnd (Tick now) s) \<and> \<not> isPlaying (step rnd (Tick now) s)"
  proof (intro impI, elim conjE)
    assume h: "isPlaying s" "\<not> gameOver s" "0 < lives s" "lives (step rnd (Tick now) s) \<le> 0"
    then have l: "lives (gameLoop now s) \<le> 0" by (simp add: step_lives)
    with h have ne: "filter (completesPath (currentPath s)) (enemies s) \<noteq> []"
      by (auto simp add: gameLoop_lives)
    have g: "gameOver (gameLoop now s)" "\<not> isPlaying (gameLoop now s)"
      using h l ne by (simp_all add: gameLoop_over)
    then show "gameOver (step rnd (Tick now) s) \<and> \<not> isPlaying (step rnd (Tick now) s)"
      by (simp add: step_def Let_def waveCompletionEffect_over)
  qed
  have d: "gameOver s \<and> (\<forall>x\<in>set evs. \<not> isReset (fst x)) \<longrightarrow>
        gameOver (run evs s) \<and> lives (run evs s) = lives s"
    using run_gameOver [of evs s] by blast
  have e: "0 < lives s0 \<and> \<not> gameOver s0 \<and> lives (run evs' s0) \<le> 0 \<longrightarrow>
        gameOver (run evs' s0) \<and> \<not> isPlaying (run evs' s0)"
  proof (intro impI, elim conjE)
    assume h: "0 < lives s0" "\<not> gameOver s0" "lives (run evs' s0) \<le> 0"
    then have "defeatInv s0"
      by (simp add: defeatInv_def)
    then have "defeatInv (run evs' s0)"
      by (rule defeatInv_run)
    with h(3) show "gameOver (run evs' s0) \<and> \<not> isPlaying (run evs' s0)"
      by (simp add: defeatInv_def)
  qed
  show ?thesis
    by (intro conjI; fact)
qed

theorem lives_conservation_witness:
  "lives (step noDraws (Tick 0) (exLastLife None [exGoblinAtEnd])) = 0
   \<and> gameOver (step noDraws (Tick 0) (exLastLife None [exGoblinAtEnd]))
   \<and> \<not> isPlaying (step noDraws (Tick 0) (exLastLife None [exGoblinAtEnd]))
   \<and> lives (run [(Tick 0, noDraws), (ClickPause, noDraws)] (exLastLife None [exGoblinAtEnd])) \<le> 1
   \<and> lives (run [(Tick 0, noDraws), (ClickPause, noDraws)]
        ((exLastLife None [exGoblinAtEnd])\<lparr>gameOver := True\<rparr>)) = 1
   \<and> gameOver (run [(Tick 0, noDraws)] (exLastLife None [exGoblinAtEnd]))"
  using lives_conservation [of noDraws 0 "exLastLife None [exGoblinAtEnd]"
          "[(Tick 0, noDraws), (ClickPause, noDraws)]" "exLastLife None [exGoblinAtEnd]"
          "[(Tick 0, noDraws)]"]
        lives_conservation [of noDraws 0 "(exLastLife None [exGoblinAtEnd])\<lparr>gameOver := True\<rparr>"
          "[(Tick 0, noDraws), (ClickPause, noDraws)]" "exLastLife None [exGoblinAtEnd]"
          "[(Tick 0, noDraws)]"]
  by (simp add: exLastLife_fields exAtEnd [simplified])

text \<open>
  C3 as stated fails in "never becomes negative": with one life left and two enemies
  completing the path in the same frame, lives become \<open>-1\<close>.
\<close>

theorem lives_negative_counterexample:
  "lives (exLastLife None [exGoblinAtEnd, exOrcAtEnd]) = 1
   \<and> lives (step noDraws (Tick 0) (exLastLife None [exGoblinAtEnd, exOrcAtEnd])) = - 1"
  by (simp add: step_lives gameLoop_lives exLastLife_fields exAtEnd [simplified])

section \<open>Gold\<close>

lemma towerAttack_gold:
  "filter (inRange tower) (enemies s) = target # rest \<Longrightarrow>
   gold (towerAttack tower s)
     = gold s + sum_list (map reward (killedBy tower (enemy_id target) (enemies s)))"
  "filter (inRange tower) (enemies s) = target # rest \<Longrightarrow>
   totalKills (towerAttack tower s)
     = totalKills s + length (killedBy tower (enemy_id target) (enemies s))"
  by (simp_all add: towerAttack_target foldl_creditKill)

lemma fireTowers_gold:
  "gold (snd (fireTowers now ts s)) = gold s + sum_list (map reward (towerKills now ts s))"
proof (induction ts arbitrary: s)
  case Nil
  then show ?case by simp
next
  case (Cons tower ts)
  show ?case
  proof (cases "now - lastFired tower < fireRate tower")
    case True
    then show ?thesis using Cons [of s] by (simp add: fireTower_def case_prod_beta)
  next
    case gate: False
    show ?thesis
    proof (cases "filter (inRange tower) (enemies s)")
      case Nil
      then show ?thesis
        using gate Cons [of s] by (simp add: fireTower_def case_prod_beta towerAttack_none)
    next
      case (Cons target rest)
      then show ?thesis
        using gate Cons.IH [of "towerAttack tower s"]
        by (simp add: fireTower_def case_prod_beta towerAttack_gold)
    qed
  qed
qed

lemma fireTowers_totalKills:
  "totalKills (snd (fireTowers now ts s)) = totalKills s + length (towerKills now ts s)"
proof (induction ts arbitrary: s)
  case Nil
  then show ?case by simp
next
  case (Cons tower ts)
  show ?case
  proof (cases "now - lastFired tower < fireRate tower")
    case True
    then show ?thesis using Cons [of s] by (simp add: fireTower_def case_prod_beta)
  next
    case gate: False
    show ?thesis
    proof (cases "filter (inRange tower) (enemies s)")
      case Nil
      then show ?thesis
        using gate Cons [of s] by (simp add: fireTower_def case_prod_beta towerAttack_none)
    next
      case (Cons target rest)
      then show ?thesis
        using gate Cons.IH [of "towerAttack tower s"]
        by (simp add: fireTower_def case_prod_beta towerAttack_gold)
    qed
  qed
qed

lemma gameLoop_gold:
  "gold (gameLoop now s) = gold s + sum_list (map reward (killedInFrame now s))"
  by (simp add: gameLoop_def killedInFrame_def case_prod_beta Let_def fireTowers_gold
        movePhase_frame)

lemma gameLoop_totalKills:
  "totalKills (gameLoop now s) = totalKills s + length (killedInFrame now s)"
  by (simp add: gameLoop_def killedInFrame_def case_prod_beta Let_def fireTowers_totalKills
        movePhase_frame)

lemma towerCosts_lastFired:
  "towerCosts (map (\<lambda>t. if now - lastFired t < fireRate t then t else t\<lparr>lastFired := now\<rparr>) ts)
     = towerCosts ts"
  by (induction ts) (simp_all add: towerCosts_def)

lemma gameLoop_towerCosts: "towerCosts (towers (gameLoop now s)) = towerCosts (towers s)"
proof (cases "isPlaying s \<and> \<not> gameOver s")
  case True
  then show ?thesis by (simp add: gameLoop_towers towerCosts_lastFired)
next
  case False
  then show ?thesis by (simp add: gameLoop_def)
qed

lemma ledger_handle:
  "\<not> isReset ev \<Longrightarrow>
   ledger (handle ev s)
     = ledger s + (case ev of Tick now \<Rightarrow> sum_list (map reward (killedInFrame now s)) | _ \<Rightarrow> 0)"
proof (cases ev)
  case (Tick now)
  then show ?thesis
    by (simp add: ledger_def gameLoop_gold gameLoop_towerCosts gameLoop_frame)
next
  case (ClickBoard x y now)
  then show ?thesis
    by (simp add: ledger_def placeTower_def Let_def towerCosts_def newTower_def
          split: option.splits)
next
  case (ClickUnlock k)
  then show ?thesis
    by (simp add: ledger_def unlockTower_def Let_def unlockCosts_def)
qed (simp_all add: ledger_def startGame_def waveTimerFires_def)

lemma ledger_step:
  "\<not> isReset ev \<Longrightarrow>
   ledger (step rnd ev s)
     = ledger s + (case ev of Tick now \<Rightarrow> sum_list (map reward (killedInFrame now s)) | _ \<Rightarrow> 0)"
  using ledger_handle [of ev s]
  by (simp add: step_def Let_def ledger_def waveCompletionEffect_frame)

lemma ledger_run:
  "\<forall>x\<in>set evs. \<not> isReset (fst x) \<Longrightarrow> ledger (run evs s) = ledger s + rewardsOfKills evs s"
proof (induction evs arbitrary: s)
  case Nil
  then show ?case by simp
next
  case (Cons x evs)
  obtain ev rnd where x: "x = (ev, rnd)" by (cases x)
  have "ledger (run evs (step rnd ev s)) = ledger (step rnd ev s) + rewardsOfKills evs (step rnd ev s)"
    using Cons by simp
  then show ?case
    using Cons.prems x by (simp add: ledger_step)
qed

lemma handle_unlockedTowers: "\<exists>ks. unlockedTowers (handle ev s) = unlockedTowers s @ ks"
  by (cases ev)
     (simp_all add: gameLoop_frame placeTower_def unlockTower_def startGame_def resetGame_def
        waveTimerFires_def Let_def split: option.splits)

lemma step_unlockedTowers: "\<exists>ks. unlockedTowers (step rnd ev s) = unlockedTowers s @ ks"
  using handle_unlockedTowers [of ev s]
  by (simp add: step_def Let_def waveCompletionEffect_frame)

lemma run_unlockedTowers: "\<exists>ks. unlockedTowers (run evs s) = unlockedTowers s @ ks"
proof (induction evs arbitrary: s)
  case Nil
  then show ?case by simp
next
  case (Cons x evs)
  obtain ev rnd where x: "x = (ev, rnd)" by (cases x)
  obtain ks where a: "unlockedTowers (step rnd ev s) = unlockedTowers s @ ks"
    using step_unlockedTowers by blast
  obtain ks' where "unlockedTowers (run evs (step rnd ev s)) = unlockedTowers (step rnd ev s) @ ks'"
    using Cons by blast
  then show ?case using a x by simp
qed

lemma unlockCosts_append: "unlockCosts (ks @ ks') = unlockCosts ks + unlockCosts ks'"
  by (simp add: unlockCosts_def)

lemma step_rejected:
  "handle ev s = s \<Longrightarrow> \<not> newEnemiesArray ev s \<Longrightarrow> step rnd ev s = s"
  by (simp add: step_def Let_def waveDepsChanged_def spawnDepsChanged_def)

lemma placeTower_Inr:
  "placeTower x y now s = Inr s' \<Longrightarrow>
   \<exists>k. selectedTower s = Some k \<and> placementMode s \<and> def_cost (TOWER_TYPES k) \<le> gold s
       \<and> \<not> tooCloseToPath (currentPath s) x y
       \<and> s' = s\<lparr>towers := towers s @ [newTower k (TOWER_TYPES k) x y now],
                  gold := gold s - def_cost (TOWER_TYPES k), placementMode := False\<rparr>"
  by (auto simp add: placeTower_def Let_def split: option.splits if_splits)

lemma exArmed_place:
  "placeTower 60 60 7 (exArmed 250) =
     Inr ((exArmed 250)\<lparr>towers := [newTower archer (TOWER_TYPES archer) 60 60 7],
            gold := 200, placementMode := False\<rparr>)"
  by (simp add: placeTower_def exArmed_def initialState_def currentPath_def tooCloseToPath_sq
        pt_def Let_def)

lemma exPurchase_run:
  "run exPurchase (initialState None) =
     (initialState None)\<lparr>towers := [newTower archer (TOWER_TYPES archer) 60 60 7], gold := 200\<rparr>"
  using exArmed_place
  by (simp add: exPurchase_def step_def Let_def waveDepsChanged_def spawnDepsChanged_def
        exArmed_def initialState_def)

text \<open>
  C4, as the code has it. Over every session without a reset, gold equals the gold at the
  start, minus the catalog costs of the towers bought, minus the costs paid for unlocking
  tower types, plus the rewards of the enemies killed; from the initial state that is
  \<open>250\<close> minus the costs of the towers on the board, minus the unlock costs of the types
  unlocked beyond the two initial ones, plus the rewards. A frame adds exactly the rewards
  of the enemies it kills, which are as many as the kill counter counts. A placement
  whose cost exceeds the current gold is rejected and changes nothing, and a placement
  that succeeds deducts the catalog cost and leaves gold at zero or above.
\<close>

theorem gold_conservation:
  "((\<forall>x\<in>set evs. \<not> isReset (fst x)) \<longrightarrow>
      gold (run evs s) =
        gold s - (towerCosts (towers (run evs s)) - towerCosts (towers s))
               - (unlockCosts (unlockedTowers (run evs s)) - unlockCosts (unlockedTowers s))
               + rewardsOfKills evs s)
   \<and> ((\<forall>x\<in>set evs. \<not> isReset (fst x)) \<longrightarrow>
      gold (run evs (initialState addr)) =
        250 - towerCosts (towers (run evs (initialState addr)))
            - unlockCosts (drop 2 (unlockedTowers (run evs (initialState addr))))
            + rewardsOfKills evs (initialState addr))
   \<and> gold (step rnd (Tick now) s) = gold s + sum_list (map reward (killedInFrame now s))
   \<and> totalKills (step rnd (Tick now) s) = totalKills s + length (killedInFrame now s)
   \<and> (selectedTower s = Some k \<and> placementMode s \<and> gold s < def_cost (TOWER_TYPES k) \<longrightarrow>
        placeTower x y now s = Inl NotEnoughGold \<and> step rnd (ClickBoard x y now) s = s)
   \<and> (placeTower x y now s = Inr s' \<longrightarrow>
        0 \<le> gold s'
        \<and> (\<exists>k. selectedTower s = Some k \<and> gold s' = gold s - def_cost (TOWER_TYPES k)))"
proof -
  have a: "(\<forall>x\<in>set evs. \<not> isReset (fst x)) \<longrightarrow>
      gold (run evs s) =
        gold s - (towerCosts (towers (run evs s)) - towerCosts (towers s))
               - (unlockCosts (unlockedTowers (run evs s)) - unlockCosts (unlockedTowers s))
               + rewardsOfKills evs s" for s
    using ledger_run [of evs s] by (auto simp add: ledger_def)
  have b: "(\<forall>x\<in>set evs. \<not> isReset (fst x)) \<longrightarrow>
      gold (run evs (initialState addr)) =
        250 - towerCosts (towers (run evs (initialState addr)))
            - unlockCosts (drop 2 (unlockedTowers (run evs (initialState addr))))
            + rewardsOfKills evs (initialState addr)"
  proof
    assume n: "\<forall>x\<in>set evs. \<not> isReset (fst x)"
    obtain ks where ks: "unlockedTowers (run evs (initialState addr)) = [archer, cannon] @ ks"
      using run_unlockedTowers [of evs "initialState addr"] by (auto simp add: initialState_def)
    have i: "gold (initialState addr) = 250" "towers (initialState addr) = []"
      "unlockedTowers (initialState addr) = [archer, cannon]"
      by (simp_all add: initialState_def)
    have "unlockCosts (unlockedTowers (run evs (initialState addr)))
            - unlockCosts (unlockedTowers (initialState addr))
          = unlockCosts (drop 2 (unlockedTowers (run evs (initialState addr))))"
      using ks i by (simp add: unlockCosts_def)
    then show "gold (run evs (initialState addr)) =
        250 - towerCosts (towers (run evs (initialState addr)))
            - unlockCosts (drop 2 (unlockedTowers (run evs (initialState addr))))
            + rewardsOfKills evs (initialState addr)"
      using a [of "initialState addr"] n i by (simp add: towerCosts_def)
  qed
  have c: "gold (step rnd (Tick now) s) = gold s + sum_list (map reward (killedInFrame now s))"
    using gameLoop_gold [of now s] by (simp add: step_def Let_def waveCompletionEffect_frame)
  have d: "totalKills (step rnd (Tick now) s) = totalKills s + length (killedInFrame now s)"
    using gameLoop_totalKills [of now s]
    by (simp add: step_def Let_def waveCompletionEffect_frame)
  have e: "selectedTower s = Some k \<and> placementMode s \<and> gold s < def_cost (TOWER_TYPES k) \<longrightarrow>
        placeTower x y now s = Inl NotEnoughGold \<and> step rnd (ClickBoard x y now) s = s"
  proof (intro impI, elim conjE)
    assume h: "selectedTower s = Some k" "placementMode s" "gold s < def_cost (TOWER_TYPES k)"
    then have p: "placeTower x y now s = Inl NotEnoughGold"
      by (simp add: placeTower_def Let_def)
    then have "handle (ClickBoard x y now) s = s" by simp
    then have "step rnd (ClickBoard x y now) s = s"
      by (rule step_rejected) simp
    with p show "placeTower x y now s = Inl NotEnoughGold \<and> step rnd (ClickBoard x y now) s = s"
      by simp
  qed
  have f: "placeTower x y now s = Inr s' \<longrightarrow>
        0 \<le> gold s'
        \<and> (\<exists>k. selectedTower s = Some k \<and> gold s' = gold s - def_cost (TOWER_TYPES k))"
    using placeTower_Inr [of x y now s s'] by auto
  note a' = a [of s]
  show ?thesis
    by (intro conjI; fact)
qed

theorem gold_conservation_witness:
  "gold (run exPurchase (initialState None)) = 200
   \<and> towerCosts (towers (run exPurchase (initialState None))) = 50
   \<and> unlockCosts (drop 2 (unlockedTowers (run exPurchase (initialState None)))) = 0
   \<and> rewardsOfKills exPurchase (initialState None) = 0
   \<and> placeTower 60 60 7 (exArmed 30) = Inl NotEnoughGold
   \<and> step noDraws (ClickBoard 60 60 7) (exArmed 30) = exArmed 30
   \<and> gold ((exArmed 250)\<lparr>towers := [newTower archer (TOWER_TYPES archer) 60 60 7],
            gold := 200, placementMode := False\<rparr>) = gold (exArmed 250) - 50"
  using gold_conservation [of exPurchase "exArmed 30" None noDraws 7 archer 60 60 "exArmed 30"]
    gold_conservation [of exPurchase "exArmed 250" None noDraws 7 archer 60 60
      "(exArmed 250)\<lparr>towers := [newTower archer (TOWER_TYPES archer) 60 60 7],
            gold := 200, placementMode := False\<rparr>"]
  by (simp add: exPurchase_run exArmed_place towerCosts_def unlockCosts_def newTower_def)
     (simp add: exPurchase_def exArmed_def initialState_def)

text \<open>
  C4 as stated leaves out the gold spent on unlocking: in the session in which the player
  only unlocks the barracks, no tower is bought and no enemy killed, and gold is 10.
\<close>

theorem gold_unlock_counterexample:
  "gold (run [(ClickUnlock barracks, noDraws)] (initialState None)) = 10
   \<and> towers (run [(ClickUnlock barracks, noDraws)] (initialState None)) = []
   \<and> rewardsOfKills [(ClickUnlock barracks, noDraws)] (initialState None) = 0
   \<and> gold (run [(ClickUnlock barracks, noDraws)] (initialState None))
       \<noteq> 250 - towerCosts (towers (run [(ClickUnlock barracks, noDraws)] (initialState None)))
             + rewardsOfKills [(ClickUnlock barracks, noDraws)] (initialState None)"
  by (simp add: step_def Let_def waveDepsChanged_def spawnDepsChanged_def unlockTower_def
        initialState_def towerCosts_def)

section \<open>Placement\<close>


lemma exOnPath_run:
  "run exOnPath (initialState None) =
     (initialState None)\<lparr>towers := [newTower archer (TOWER_TYPES archer) 60 180 7], gold := 200\<rparr>"
  by (simp add: exOnPath_def step_def Let_def waveDepsChanged_def spawnDepsChanged_def
        initialState_def placeTower_def currentPath_def tooCloseToPath_sq pt_def)



text \<open>
  The test of the primary implementation against the path looks at the waypoints only,
  although its comment reads \<^verbatim>\<open>Check if too close to path\<close> and its message
  \<^verbatim>\<open>Too close to the path!\<close>: a click on \<open>(60, 180)\<close>, the midpoint of the first segment of
  the Greenlands path, places the tower.
\<close>

lemma placeTower_on_segment:
  "towers (run exOnPath (initialState None)) = [newTower archer (TOWER_TYPES archer) 60 180 7]
   \<and> segPoint (path (MAPS greenlands) ! 0) (path (MAPS greenlands) ! 1) (1 / 2) = pt 60 180"
  unfolding exOnPath_run
  by (simp add: segPoint_def pt_def initialState_def)




section \<open>Session recorder\<close>

text \<open>
  The recorder is called from \<^verbatim>\<open>handleVictory\<close> only: once per victory when a wallet address
  is present, not at all when it is absent, and every summary a session records is a win.
\<close>

lemma handle_recorded: "recorded (handle ev s) = recorded s"
  by (cases ev)
     (simp_all add: gameLoop_frame placeTower_def unlockTower_def startGame_def resetGame_def
        waveTimerFires_def Let_def split: option.splits)

lemma handleVictory_recorded:
  "recorded (handleVictory s) =
     (case address s of
        None \<Rightarrow> recorded s
      | Some w \<Rightarrow>
          if w = [] then recorded s
          else recorded s @
                 [\<lparr>wallet_address = w, difficulty = currentMap s,
                   xp_earned = xpEarned s + 150 + int (wave s) * 15, sum_result = ''win'',
                   sum_wave = wave s, sum_gold = gold s, sum_kills = Some (totalKills s)\<rparr>])"
  by (simp add: handleVictory_def Let_def split: option.splits)

lemma step_recorded_wins:
  "list_all (\<lambda>r. sum_result r = ''win'') (recorded s) \<Longrightarrow>
   list_all (\<lambda>r. sum_result r = ''win'') (recorded (step rnd ev s))"
  by (simp add: step_def Let_def waveCompletionEffect_def handle_recorded handleVictory_recorded
        split: option.splits)

lemma run_recorded_wins:
  "list_all (\<lambda>r. sum_result r = ''win'') (recorded s) \<Longrightarrow>
   list_all (\<lambda>r. sum_result r = ''win'') (recorded (run evs s))"
proof (induction evs arbitrary: s)
  case Nil
  then show ?case by simp
next
  case (Cons x evs)
  obtain ev rnd where x: "x = (ev, rnd)" by (cases x)
  show ?case using Cons x by (simp add: step_recorded_wins)
qed

lemma no_loss_recorded:
  "list_all (\<lambda>r. sum_result r = ''win'') (recorded (run evs (initialState addr)))"
  by (rule run_recorded_wins) (simp add: initialState_def)

text \<open>
  C2 at a defeat. With a wallet connected, one life left and an enemy completing the path,
  the frame ends the session in defeat (no lives, over, not playing, no victory) and the
  recorder is not called: no summary with result \<^verbatim>\<open>loss\<close> is recorded.
\<close>

theorem defeat_not_recorded:
  "address (exLastLife (Some ''0xA1'') [exGoblinAtEnd]) = Some ''0xA1''
   \<and> lives (exLastLife (Some ''0xA1'') [exGoblinAtEnd]) = 1
   \<and> lives (step noDraws (Tick 0) (exLastLife (Some ''0xA1'') [exGoblinAtEnd])) = 0
   \<and> gameOver (step noDraws (Tick 0) (exLastLife (Some ''0xA1'') [exGoblinAtEnd]))
   \<and> \<not> isPlaying (step noDraws (Tick 0) (exLastLife (Some ''0xA1'') [exGoblinAtEnd]))
   \<and> \<not> victory (step noDraws (Tick 0) (exLastLife (Some ''0xA1'') [exGoblinAtEnd]))
   \<and> recorded (step noDraws (Tick 0) (exLastLife (Some ''0xA1'') [exGoblinAtEnd])) = []"
proof -
  let ?s = "exLastLife (Some ''0xA1'') [exGoblinAtEnd]"
  have l: "lives (gameLoop 0 ?s) = 0"
    by (simp add: gameLoop_lives exLastLife_fields exAtEnd [simplified])
  have o: "gameOver (gameLoop 0 ?s)" "\<not> isPlaying (gameLoop 0 ?s)"
    using l by (simp_all add: gameLoop_over exLastLife_fields exAtEnd [simplified])
  have v: "\<not> victory (gameLoop 0 ?s)" "recorded (gameLoop 0 ?s) = []"
    by (simp_all add: gameLoop_frame exLastLife_def initialState_def)
  have st: "step noDraws (Tick 0) ?s = gameLoop 0 ?s"
    using o by (simp add: step_def Let_def waveCompletionEffect_def)
  show ?thesis
    unfolding st using l o v by (simp add: exLastLife_fields)
qed

section \<open>Wave timer and reset\<close>

lemma exStartReset_run:
  "wave (run exStartReset (initialState None)) = 0"
  "waveTimers (run exStartReset (initialState None)) = 1"
  "isPlaying (run exStartReset (initialState None)) = False"
  "enemies (run exStartReset (initialState None)) = []"
  by (simp_all add: exStartReset_def step_def Let_def waveDepsChanged_def spawnDepsChanged_def
        waveCompletionEffect_def startGame_def resetGame_def initialState_def)

text \<open>
  C7 at a reset. Starting the game schedules a wave-advance callback (the wave-completion
  effect runs on the render with wave 1 and no enemy yet). A reset before it fires returns
  the session to wave 0, not playing, and leaves the callback pending; when it fires, the
  wave becomes 1.
\<close>

theorem stale_wave_timer_after_reset:
  "wave (run exStartReset (initialState None)) = 0
   \<and> \<not> isPlaying (run exStartReset (initialState None))
   \<and> waveTimers (run exStartReset (initialState None)) = 1
   \<and> wave (step noDraws WaveTimer (run exStartReset (initialState None))) = 1"
  by (simp add: exStartReset_run step_def Let_def waveDepsChanged_def spawnDepsChanged_def
        waveCompletionEffect_def waveTimerFires_def)

section \<open>The combat step of a frame\<close>

lemma find_filter_Nil: "find P xs = None \<Longrightarrow> filter P xs = []"
  by (induction xs) (simp_all split: if_splits)

lemma find_filter_Cons: "find P xs = Some x \<Longrightarrow> filter P xs = x # tl (filter P xs)"
  by (induction xs) (simp_all split: if_splits)

lemma find_first:
  "\<forall>e\<in>set before. \<not> P e \<Longrightarrow> P t \<Longrightarrow> find P (before @ t # after) = Some t"
  by (induction before) simp_all

lemma find_none: "\<forall>e\<in>set es. \<not> P e \<Longrightarrow> find P es = None"
  by (induction es) simp_all

lemma towerAttack_enemies:
  "enemies (towerAttack tower s) =
     (case find (inRange tower) (enemies s) of
        None \<Rightarrow> enemies s
      | Some target \<Rightarrow>
          filter (\<lambda>e. health e > 0) (map (hitBy tower (enemy_id target)) (enemies s)))"
proof (cases "find (inRange tower) (enemies s)")
  case None
  then show ?thesis by (simp add: towerAttack_none find_filter_Nil)
next
  case (Some target)
  then show ?thesis
    by (simp add: towerAttack_target [OF find_filter_Cons [OF Some]])
qed

lemma towerAttack2_enemies:
  "enemies2 (towerAttack2 tower s) =
     (case find (inRange2 tower) (enemies2 s) of
        None \<Rightarrow> enemies2 s
      | Some target \<Rightarrow>
          filter (\<lambda>e. health2 e > 0) (map (hitBy2 tower (enemy2_id target)) (enemies2 s)))"
proof (cases "find (inRange2 tower) (enemies2 s)")
  case None
  then show ?thesis by (simp add: towerAttack2_none find_filter_Nil)
next
  case (Some target)
  then show ?thesis
    by (simp add: towerAttack2_target [OF find_filter_Cons [OF Some]])
qed

lemma fireTowers_enemies:
  "enemies (snd (fireTowers now ts s)) = volley now ts (enemies s)"
proof (induction ts arbitrary: s)
  case Nil
  then show ?case by simp
next
  case (Cons tower ts)
  show ?case
    using Cons [of "snd (fireTower now tower s)"]
    by (simp add: case_prod_beta fireTower_def towerAttack_enemies)
qed

lemma fireTowers2_enemies:
  "enemies2 (snd (fireTowers2 now ts s)) = volley2 now ts (enemies2 s)"
proof (induction ts arbitrary: s)
  case Nil
  then show ?case by simp
next
  case (Cons tower ts)
  show ?case
    using Cons [of "snd (fireTower2 now tower s)"]
    by (simp add: case_prod_beta fireTower2_def towerAttack2_enemies)
qed

lemma fireTowers2_fst:
  "fst (fireTowers2 now ts s) =
     map (\<lambda>t. if now - lastFired t < fireRate t then t else t\<lparr>lastFired := now\<rparr>) ts"
  by (induction ts arbitrary: s) (simp_all add: fireTower2_def case_prod_beta Let_def)

lemma gameLoop_enemies:
  "isPlaying s \<Longrightarrow> \<not> gameOver s \<Longrightarrow>
   enemies (gameLoop now s) = volley now (towers s) (enemies (movePhase s))"
  by (simp add: gameLoop_def case_prod_beta Let_def fireTowers_enemies movePhase_towers)

lemma moveEnemies2_fst: "fst (moveEnemies2 es s) = map (\<lambda>e. fst (moveEnemy2 e)) es"
  by (induction es arbitrary: s) (simp_all add: case_prod_beta Let_def)

lemma moveEnemies2_snd:
  "snd (moveEnemies2 es s) = (loseLife2 ^^ length (filter (\<lambda>e. snd (moveEnemy2 e)) es)) s"
  by (induction es arbitrary: s) (simp_all add: case_prod_beta Let_def funpow_swap1)

lemma loseLife2_funpow:
  "(loseLife2 ^^ k) s =
     (if k = 0 then s
      else (if lives2 s - int k \<le> 0 then s\<lparr>gameOver2 := True, isPlaying2 := False\<rparr> else s)
             \<lparr>lives2 := lives2 s - int k\<rparr>)"
proof (induction k)
  case 0
  then show ?case by simp
next
  case (Suc k)
  then show ?case by (cases "k = 0") (auto simp add: loseLife2_def Let_def)
qed

lemma movePhase2_eq:
  "movePhase2 s =
     ((loseLife2 ^^ length (filter (\<lambda>e. snd (moveEnemy2 e)) (enemies2 s))) s)
       \<lparr>enemies2 := filter (\<lambda>e. health2 e > 0) (map (\<lambda>e. fst (moveEnemy2 e)) (enemies2 s))\<rparr>"
  using moveEnemies2_fst [of "enemies2 s" s] moveEnemies2_snd [of "enemies2 s" s]
  by (simp add: movePhase2_def case_prod_beta)

lemma movePhase2_frame:
  "towers2 (movePhase2 s) = towers2 s" "wave2 (movePhase2 s) = wave2 s"
  "currentMap2 (movePhase2 s) = currentMap2 s" "xpEarned2 (movePhase2 s) = xpEarned2 s"
  "killCount2 (movePhase2 s) = killCount2 s" "gold2 (movePhase2 s) = gold2 s"
  "address2 (movePhase2 s) = address2 s" "recorded2 (movePhase2 s) = recorded2 s"
  by (simp_all add: movePhase2_eq loseLife2_funpow)

lemma combatCore2_towerAttack2: "combatCore2 (towerAttack2 tower s) = combatCore2 s"
proof (cases "filter (inRange2 tower) (enemies2 s)")
  case Nil
  then show ?thesis by (simp add: towerAttack2_none)
next
  case (Cons target rest)
  then show ?thesis
    by (simp add: towerAttack2_target foldl_creditKill2 combatCore2_def)
qed

lemma combatCore2_fireTowers2: "combatCore2 (snd (fireTowers2 now ts s)) = combatCore2 s"
  by (induction ts arbitrary: s)
     (simp_all add: case_prod_beta Let_def fireTower2_def combatCore2_towerAttack2)

lemma combatCore2_fields:
  "lives2 s = lives2 (combatCore2 s)" "isPlaying2 s = isPlaying2 (combatCore2 s)"
  "gameOver2 s = gameOver2 (combatCore2 s)" "wave2 s = wave2 (combatCore2 s)"
  "currentMap2 s = currentMap2 (combatCore2 s)" "address2 s = address2 (combatCore2 s)"
  "recorded2 s = recorded2 (combatCore2 s)"
  by (simp_all add: combatCore2_def)

lemma fireTowers2_frame:
  "lives2 (snd (fireTowers2 now ts s)) = lives2 s"
  "isPlaying2 (snd (fireTowers2 now ts s)) = isPlaying2 s"
  "gameOver2 (snd (fireTowers2 now ts s)) = gameOver2 s"
  "wave2 (snd (fireTowers2 now ts s)) = wave2 s"
  "currentMap2 (snd (fireTowers2 now ts s)) = currentMap2 s"
  "address2 (snd (fireTowers2 now ts s)) = address2 s"
  "recorded2 (snd (fireTowers2 now ts s)) = recorded2 s"
  using combatCore2_fireTowers2 [of now ts s]
  by (simp_all add: combatCore2_fields [of "snd (fireTowers2 now ts s)"]
        combatCore2_fields [of s, symmetric])

lemma gameLoop2_enemies:
  "isPlaying2 s \<Longrightarrow> \<not> gameOver2 s \<Longrightarrow>
   enemies2 (gameLoop2 now s) = volley2 now (towers2 s) (enemies2 (movePhase2 s))"
  by (simp add: gameLoop2_def case_prod_beta Let_def fireTowers2_enemies movePhase2_frame)

lemma gameLoop2_towers:
  "isPlaying2 s \<Longrightarrow> \<not> gameOver2 s \<Longrightarrow>
   towers2 (gameLoop2 now s) =
     map (\<lambda>t. if now - lastFired t < fireRate t then t else t\<lparr>lastFired := now\<rparr>) (towers2 s)"
  using fireTowers2_fst [of now "towers2 (movePhase2 s)" "movePhase2 s"]
  by (simp add: gameLoop2_def case_prod_beta Let_def movePhase2_frame)

lemma gameLoop2_frame:
  "wave2 (gameLoop2 now s) = wave2 s" "currentMap2 (gameLoop2 now s) = currentMap2 s"
  "address2 (gameLoop2 now s) = address2 s" "recorded2 (gameLoop2 now s) = recorded2 s"
  by (simp_all add: gameLoop2_def case_prod_beta Let_def fireTowers2_frame movePhase2_frame)

lemma fireTowers_xp:
  "xpEarned (snd (fireTowers now ts s)) = xpEarned s + 5 * int (length (towerKills now ts s))"
proof (induction ts arbitrary: s)
  case Nil
  then show ?case by simp
next
  case (Cons tower ts)
  show ?case
  proof (cases "now - lastFired tower < fireRate tower")
    case True
    then show ?thesis using Cons [of s] by (simp add: fireTower_def case_prod_beta)
  next
    case gate: False
    show ?thesis
    proof (cases "filter (inRange tower) (enemies s)")
      case Nil
      then show ?thesis
        using gate Cons [of s] by (simp add: fireTower_def case_prod_beta towerAttack_none)
    next
      case (Cons target rest)
      then show ?thesis
        using gate Cons.IH [of "towerAttack tower s"]
        by (simp add: fireTower_def case_prod_beta towerAttack_target foldl_creditKill)
    qed
  qed
qed

lemma gameLoop_xp:
  "xpEarned (gameLoop now s) = xpEarned s + 5 * (int (totalKills (gameLoop now s)) - int (totalKills s))"
proof -
  have "xpEarned (gameLoop now s) = xpEarned s + 5 * int (length (killedInFrame now s))"
    by (simp add: gameLoop_def killedInFrame_def case_prod_beta Let_def fireTowers_xp
          movePhase_frame)
  then show ?thesis by (simp add: gameLoop_totalKills)
qed

lemma waves_ge: "10 \<le> waves (MAPS m)" "10 \<le> waves2 (MAPS2 m2)"
  by (cases m, simp_all) (cases m2, simp_all)

lemma volley_append: "volley now (xs @ ys) es = volley now ys (volley now xs es)"
  by (induction xs arbitrary: es) simp_all

lemma volley2_append: "volley2 now (xs @ ys) es = volley2 now ys (volley2 now xs es)"
  by (induction xs arbitrary: es) simp_all

lemma volley_one:
  "fireRate tower \<le> now - lastFired tower \<Longrightarrow> find (inRange tower) es = Some target \<Longrightarrow>
   volley now [tower] es = filter (\<lambda>e. health e > 0) (map (hitBy tower (enemy_id target)) es)"
  by simp

lemma volley2_one:
  "fireRate tower \<le> now - lastFired tower \<Longrightarrow> find (inRange2 tower) es = Some target \<Longrightarrow>
   volley2 now [tower] es = filter (\<lambda>e. health2 e > 0) (map (hitBy2 tower (enemy2_id target)) es)"
  by simp

lemma volley_one_hit:
  assumes "now - lastFired tower \<ge> fireRate tower"
    and "\<forall>e\<in>set before. \<not> inRange tower e" and "inRange tower t"
    and "\<forall>e\<in>set (before @ after). enemy_id e \<noteq> enemy_id t"
  shows "volley now [tower] (before @ t # after) =
     filter (\<lambda>e. health e > 0)
       (before @ t\<lparr>health := health t - max (damage tower - armor t) 5\<rparr> # after)"
proof -
  have f: "find (inRange tower) (before @ t # after) = Some t"
    using assms(2,3) by (rule find_first)
  have m: "map (hitBy tower (enemy_id t)) (before @ t # after) =
      before @ t\<lparr>health := health t - max (damage tower - armor t) 5\<rparr> # after"
    using assms(4) hit_only_target [of before "enemy_id t" tower]
      hit_only_target [of after "enemy_id t" tower]
    by (simp add: hitBy_def)
  show ?thesis
    unfolding volley_one [OF assms(1) f] m by (rule refl)
qed

lemma volley2_one_hit:
  assumes "now - lastFired tower \<ge> fireRate tower"
    and "\<forall>e\<in>set before. \<not> inRange2 tower e" and "inRange2 tower t"
    and "\<forall>e\<in>set (before @ after). enemy2_id e \<noteq> enemy2_id t"
  shows "volley2 now [tower] (before @ t # after) =
     filter (\<lambda>e. health2 e > 0) (before @ t\<lparr>health2 := health2 t - damage tower\<rparr> # after)"
proof -
  have f: "find (inRange2 tower) (before @ t # after) = Some t"
    using assms(2,3) by (rule find_first)
  have m: "map (hitBy2 tower (enemy2_id t)) (before @ t # after) =
      before @ t\<lparr>health2 := health2 t - damage tower\<rparr> # after"
    using assms(4) hit2_only_target [of before "enemy2_id t" tower]
      hit2_only_target [of after "enemy2_id t" tower]
    by (simp add: hitBy2_def)
  show ?thesis
    unfolding volley2_one [OF assms(1) f] m by (rule refl)
qed

lemma gameLoop_tower:
  "isPlaying g \<Longrightarrow> \<not> gameOver g \<Longrightarrow> towers g = pre @ tower # post \<Longrightarrow>
   enemies (gameLoop now g) =
     volley now post (volley now [tower] (volley now pre (enemies (movePhase g))))"
  using volley_append [of now pre "tower # post" "enemies (movePhase g)"]
    volley_append [of now "[tower]" post "volley now pre (enemies (movePhase g))"]
  by (simp add: gameLoop_enemies del: volley.simps)

lemma gameLoop2_tower:
  "isPlaying2 g \<Longrightarrow> \<not> gameOver2 g \<Longrightarrow> towers2 g = pre @ tower # post \<Longrightarrow>
   enemies2 (gameLoop2 now g) =
     volley2 now post (volley2 now [tower] (volley2 now pre (enemies2 (movePhase2 g))))"
  using volley2_append [of now pre "tower # post" "enemies2 (movePhase2 g)"]
    volley2_append [of now "[tower]" post "volley2 now pre (enemies2 (movePhase2 g))"]
  by (simp add: gameLoop2_enemies del: volley2.simps)

lemma gameLoop_combat:
  "(isPlaying g \<and> \<not> gameOver g \<longrightarrow>
        enemies (gameLoop now g) = volley now (towers g) (enemies (movePhase g)))
   \<and> (\<not> (isPlaying g \<and> \<not> gameOver g) \<longrightarrow> gameLoop now g = g)
   \<and> (isPlaying g \<and> \<not> gameOver g \<and> towers g = pre @ tower # post
        \<and> now - lastFired tower < fireRate tower \<longrightarrow>
        enemies (gameLoop now g) = volley now post (volley now pre (enemies (movePhase g))))
   \<and> (isPlaying g \<and> \<not> gameOver g \<and> towers g = pre @ tower # post
        \<and> now - lastFired tower \<ge> fireRate tower
        \<and> (\<forall>e\<in>set (volley now pre (enemies (movePhase g))). \<not> inRange tower e) \<longrightarrow>
        enemies (gameLoop now g) = volley now post (volley now pre (enemies (movePhase g))))
   \<and> (isPlaying g \<and> \<not> gameOver g \<and> towers g = pre @ tower # post
        \<and> now - lastFired tower \<ge> fireRate tower
        \<and> volley now pre (enemies (movePhase g)) = before @ t # after
        \<and> (\<forall>e\<in>set before. \<not> inRange tower e) \<and> inRange tower t
        \<and> (\<forall>e\<in>set (before @ after). enemy_id e \<noteq> enemy_id t) \<longrightarrow>
        enemies (gameLoop now g) =
          volley now post
            (filter (\<lambda>e. health e > 0)
               (before @ t\<lparr>health := health t - max (damage tower - armor t) 5\<rparr> # after)))"
proof -
  have a: "isPlaying g \<and> \<not> gameOver g \<longrightarrow>
        enemies (gameLoop now g) = volley now (towers g) (enemies (movePhase g))"
    by (simp add: gameLoop_enemies)
  have b: "\<not> (isPlaying g \<and> \<not> gameOver g) \<longrightarrow> gameLoop now g = g"
    by (auto simp add: gameLoop_def)
  have c: "isPlaying g \<and> \<not> gameOver g \<and> towers g = pre @ tower # post
        \<and> now - lastFired tower < fireRate tower \<longrightarrow>
        enemies (gameLoop now g) = volley now post (volley now pre (enemies (movePhase g)))"
    by (simp add: gameLoop_tower)
  have d: "isPlaying g \<and> \<not> gameOver g \<and> towers g = pre @ tower # post
        \<and> now - lastFired tower \<ge> fireRate tower
        \<and> (\<forall>e\<in>set (volley now pre (enemies (movePhase g))). \<not> inRange tower e) \<longrightarrow>
        enemies (gameLoop now g) = volley now post (volley now pre (enemies (movePhase g)))"
    by (simp add: gameLoop_tower find_none)
  have e: "isPlaying g \<and> \<not> gameOver g \<and> towers g = pre @ tower # post
        \<and> now - lastFired tower \<ge> fireRate tower
        \<and> volley now pre (enemies (movePhase g)) = before @ t # after
        \<and> (\<forall>e\<in>set before. \<not> inRange tower e) \<and> inRange tower t
        \<and> (\<forall>e\<in>set (before @ after). enemy_id e \<noteq> enemy_id t) \<longrightarrow>
        enemies (gameLoop now g) =
          volley now post
            (filter (\<lambda>e. health e > 0)
               (before @ t\<lparr>health := health t - max (damage tower - armor t) 5\<rparr> # after))"
  proof (intro impI, elim conjE)
    assume h: "isPlaying g" "\<not> gameOver g" "towers g = pre @ tower # post"
      "now - lastFired tower \<ge> fireRate tower"
      "volley now pre (enemies (movePhase g)) = before @ t # after"
      "\<forall>e\<in>set before. \<not> inRange tower e" "inRange tower t"
      "\<forall>e\<in>set (before @ after). enemy_id e \<noteq> enemy_id t"
    show "enemies (gameLoop now g) =
          volley now post
            (filter (\<lambda>e. health e > 0)
               (before @ t\<lparr>health := health t - max (damage tower - armor t) 5\<rparr> # after))"
      unfolding gameLoop_tower [OF h(1) h(2) h(3)] h(5) volley_one_hit [OF h(4) h(6) h(7) h(8)]
      by (rule refl)
  qed
  show ?thesis
    by (intro conjI; fact)
qed

lemma gameLoop2_combat:
  "(isPlaying2 g \<and> \<not> gameOver2 g \<longrightarrow>
        enemies2 (gameLoop2 now g) = volley2 now (towers2 g) (enemies2 (movePhase2 g)))
   \<and> (isPlaying2 g \<and> \<not> gameOver2 g \<longrightarrow>
        towers2 (gameLoop2 now g) =
          map (\<lambda>t. if now - lastFired t < fireRate t then t else t\<lparr>lastFired := now\<rparr>)
            (towers2 g))
   \<and> (\<not> (isPlaying2 g \<and> \<not> gameOver2 g) \<longrightarrow> gameLoop2 now g = g)
   \<and> (isPlaying2 g \<and> \<not> gameOver2 g \<and> towers2 g = pre @ tower # post
        \<and> now - lastFired tower < fireRate tower \<longrightarrow>
        enemies2 (gameLoop2 now g) = volley2 now post (volley2 now pre (enemies2 (movePhase2 g))))
   \<and> (isPlaying2 g \<and> \<not> gameOver2 g \<and> towers2 g = pre @ tower # post
        \<and> now - lastFired tower \<ge> fireRate tower
        \<and> (\<forall>e\<in>set (volley2 now pre (enemies2 (movePhase2 g))). \<not> inRange2 tower e) \<longrightarrow>
        enemies2 (gameLoop2 now g) = volley2 now post (volley2 now pre (enemies2 (movePhase2 g))))
   \<and> (isPlaying2 g \<and> \<not> gameOver2 g \<and> towers2 g = pre @ tower # post
        \<and> now - lastFired tower \<ge> fireRate tower
        \<and> volley2 now pre (enemies2 (movePhase2 g)) = before @ t # after
        \<and> (\<forall>e\<in>set before. \<not> inRange2 tower e) \<and> inRange2 tower t
        \<and> (\<forall>e\<in>set (before @ after). enemy2_id e \<noteq> enemy2_id t) \<longrightarrow>
        enemies2 (gameLoop2 now g) =
          volley2 now post
            (filter (\<lambda>e. health2 e > 0)
               (before @ t\<lparr>health2 := health2 t - damage tower\<rparr> # after)))"
proof -
  have a: "isPlaying2 g \<and> \<not> gameOver2 g \<longrightarrow>
        enemies2 (gameLoop2 now g) = volley2 now (towers2 g) (enemies2 (movePhase2 g))"
    by (simp add: gameLoop2_enemies)
  have a': "isPlaying2 g \<and> \<not> gameOver2 g \<longrightarrow>
        towers2 (gameLoop2 now g) =
          map (\<lambda>t. if now - lastFired t < fireRate t then t else t\<lparr>lastFired := now\<rparr>)
            (towers2 g)"
    by (simp add: gameLoop2_towers)
  have b: "\<not> (isPlaying2 g \<and> \<not> gameOver2 g) \<longrightarrow> gameLoop2 now g = g"
    by (auto simp add: gameLoop2_def)
  have c: "isPlaying2 g \<and> \<not> gameOver2 g \<and> towers2 g = pre @ tower # post
        \<and> now - lastFired tower < fireRate tower \<longrightarrow>
        enemies2 (gameLoop2 now g) = volley2 now post (volley2 now pre (enemies2 (movePhase2 g)))"
    by (simp add: gameLoop2_tower)
  have d: "isPlaying2 g \<and> \<not> gameOver2 g \<and> towers2 g = pre @ tower # post
        \<and> now - lastFired tower \<ge> fireRate tower
        \<and> (\<forall>e\<in>set (volley2 now pre (enemies2 (movePhase2 g))). \<not> inRange2 tower e) \<longrightarrow>
        enemies2 (gameLoop2 now g) = volley2 now post (volley2 now pre (enemies2 (movePhase2 g)))"
    by (simp add: gameLoop2_tower find_none)
  have e: "isPlaying2 g \<and> \<not> gameOver2 g \<and> towers2 g = pre @ tower # post
        \<and> now - lastFired tower \<ge> fireRate tower
        \<and> volley2 now pre (enemies2 (movePhase2 g)) = before @ t # after
        \<and> (\<forall>e\<in>set before. \<not> inRange2 tower e) \<and> inRange2 tower t
        \<and> (\<forall>e\<in>set (before @ after). enemy2_id e \<noteq> enemy2_id t) \<longrightarrow>
        enemies2 (gameLoop2 now g) =
          volley2 now post
            (filter (\<lambda>e. health2 e > 0)
               (before @ t\<lparr>health2 := health2 t - damage tower\<rparr> # after))"
  proof (intro impI, elim conjE)
    assume h: "isPlaying2 g" "\<not> gameOver2 g" "towers2 g = pre @ tower # post"
      "now - lastFired tower \<ge> fireRate tower"
      "volley2 now pre (enemies2 (movePhase2 g)) = before @ t # after"
      "\<forall>e\<in>set before. \<not> inRange2 tower e" "inRange2 tower t"
      "\<forall>e\<in>set (before @ after). enemy2_id e \<noteq> enemy2_id t"
    show "enemies2 (gameLoop2 now g) =
          volley2 now post
            (filter (\<lambda>e. health2 e > 0)
               (before @ t\<lparr>health2 := health2 t - damage tower\<rparr> # after))"
      unfolding gameLoop2_tower [OF h(1) h(2) h(3)] h(5) volley2_one_hit [OF h(4) h(6) h(7) h(8)]
      by (rule refl)
  qed
  show ?thesis
    by (intro conjI; fact)
qed

section \<open>Fire-rate gate and targeting in a frame\<close>

lemma exFrame_move:
  "enemies (movePhase (exFrame [exAtStart, exAtCorner]))
     = [exAtStart\<lparr>pathIndex := 1\<rparr>, exAtCorner\<lparr>pathIndex := 2\<rparr>]"
  "enemies (movePhase (exFrame [exAtStart])) = [exAtStart\<lparr>pathIndex := 1\<rparr>]"
  by (simp_all add: movePhase_def moveEnemy_def exFrame_def exAtStart_def exAtCorner_def
        initialState_def currentPath_def pt_def Let_def)

lemma exFrame2_move:
  "enemies2 (movePhase2 (exFrame2 [exAtStart2, exAtCorner2]))
     = [exAtStart2\<lparr>pathIndex2 := 1\<rparr>, exAtCorner2\<lparr>pathIndex2 := 2\<rparr>]"
  "enemies2 (movePhase2 (exFrame2 [exAtStart2])) = [exAtStart2\<lparr>pathIndex2 := 1\<rparr>]"
  by (simp_all add: movePhase2_def moveEnemy2_def exFrame2_def exAtStart2_def exAtCorner2_def
        initialState2_def ENEMY_PATH_def pt_def Let_def)

lemma exFrame_fields:
  "isPlaying (exFrame es)" "\<not> gameOver (exFrame es)" "towers (exFrame es) = [] @ exTower # []"
  "isPlaying2 (exFrame2 es2)" "\<not> gameOver2 (exFrame2 es2)"
  "towers2 (exFrame2 es2) = [] @ exTower2 # []"
  by (simp_all add: exFrame_def exFrame2_def initialState_def initialState2_def)

lemma exFrame_ranges:
  "\<not> inRange exTower (exAtStart\<lparr>pathIndex := 1\<rparr>)" "inRange exTower (exAtCorner\<lparr>pathIndex := 2\<rparr>)"
  "\<not> inRange2 exTower2 (exAtStart2\<lparr>pathIndex2 := 1\<rparr>)"
  "inRange2 exTower2 (exAtCorner2\<lparr>pathIndex2 := 2\<rparr>)"
  by (simp_all add: inRange_sq inRange2_sq exTower_def exTower2_def exAtStart_def exAtCorner_def
        exAtStart2_def exAtCorner2_def newTower_def)

text \<open>
  C6. In the combat step of a frame the towers act in the order of the list, each on the
  enemies as the movement of the frame and the towers before it left them. A tower whose
  \<open>now - lastFired\<close> is below its fire rate does nothing: it keeps its \<open>lastFired\<close> and the
  enemies pass it unchanged. A tower for which \<open>now - lastFired \<ge> fireRate\<close> gets
  \<open>lastFired = now\<close>, also when no enemy is within its range, in which case the enemies are
  unchanged. Otherwise its target is the first enemy of the list that is within range
  (Euclidean distance at most the range), whatever the distances and strengths of the
  others: the enemies carrying the id of that enemy are hit, and with ids that differ from
  the target's only the target is; the enemies without health left are removed. The
  callback of one tower is stated first, then the frame: the enemies after a frame of the
  running loop are those of the combat step of the specification, every tower has
  \<open>lastFired = now\<close> exactly when it passed the gate, and a loop that is not running
  changes nothing. Both implementations agree on this.
\<close>

theorem fire_rate_gate:
  "((now - lastFired tower < fireRate tower \<longrightarrow> fireTower now tower s = (tower, s))
   \<and> (now - lastFired tower \<ge> fireRate tower \<longrightarrow>
        fst (fireTower now tower s) = tower\<lparr>lastFired := now\<rparr>)
   \<and> (now - lastFired tower \<ge> fireRate tower \<and> (\<forall>e\<in>set (enemies s). \<not> inRange tower e) \<longrightarrow>
        snd (fireTower now tower s) = s)
   \<and> (now - lastFired tower \<ge> fireRate tower \<and> enemies s = before @ t # after
        \<and> (\<forall>e\<in>set before. \<not> inRange tower e) \<and> inRange tower t \<longrightarrow>
        enemies (snd (fireTower now tower s)) =
          filter (\<lambda>e. health e > 0) (map (hitBy tower (enemy_id t)) (enemies s)))
   \<and> (now - lastFired tower \<ge> fireRate tower \<and> enemies s = before @ t # after
        \<and> (\<forall>e\<in>set before. \<not> inRange tower e) \<and> inRange tower t
        \<and> (\<forall>e\<in>set (before @ after). enemy_id e \<noteq> enemy_id t) \<longrightarrow>
        enemies (snd (fireTower now tower s)) =
          filter (\<lambda>e. health e > 0)
            (before @ t\<lparr>health := health t - max (damage tower - armor t) 5\<rparr> # after)))
   \<and> (isPlaying s \<and> \<not> gameOver s \<longrightarrow>
        towers (gameLoop now s) =
          map (\<lambda>t. if now - lastFired t < fireRate t then t else t\<lparr>lastFired := now\<rparr>)
            (towers s))
   \<and> ((now - lastFired tower2 < fireRate tower2 \<longrightarrow> fireTower2 now tower2 s2 = (tower2, s2))
   \<and> (now - lastFired tower2 \<ge> fireRate tower2 \<longrightarrow>
        fst (fireTower2 now tower2 s2) = tower2\<lparr>lastFired := now\<rparr>)
   \<and> (now - lastFired tower2 \<ge> fireRate tower2 \<and> (\<forall>e\<in>set (enemies2 s2). \<not> inRange2 tower2 e) \<longrightarrow>
        snd (fireTower2 now tower2 s2) = s2)
   \<and> (now - lastFired tower2 \<ge> fireRate tower2 \<and> enemies2 s2 = before2 @ t2 # after2
        \<and> (\<forall>e\<in>set before2. \<not> inRange2 tower2 e) \<and> inRange2 tower2 t2 \<longrightarrow>
        enemies2 (snd (fireTower2 now tower2 s2)) =
          filter (\<lambda>e. health2 e > 0) (map (hitBy2 tower2 (enemy2_id t2)) (enemies2 s2)))
   \<and> (now - lastFired tower2 \<ge> fireRate tower2 \<and> enemies2 s2 = before2 @ t2 # after2
        \<and> (\<forall>e\<in>set before2. \<not> inRange2 tower2 e) \<and> inRange2 tower2 t2
        \<and> (\<forall>e\<in>set (before2 @ after2). enemy2_id e \<noteq> enemy2_id t2) \<longrightarrow>
        enemies2 (snd (fireTower2 now tower2 s2)) =
          filter (\<lambda>e. health2 e > 0)
            (before2 @ t2\<lparr>health2 := health2 t2 - damage tower2\<rparr> # after2)))
   \<and> ((isPlaying g \<and> \<not> gameOver g \<longrightarrow>
        enemies (gameLoop now g) = volley now (towers g) (enemies (movePhase g)))
   \<and> (\<not> (isPlaying g \<and> \<not> gameOver g) \<longrightarrow> gameLoop now g = g)
   \<and> (isPlaying g \<and> \<not> gameOver g \<and> towers g = pre @ tower # post
        \<and> now - lastFired tower < fireRate tower \<longrightarrow>
        enemies (gameLoop now g) = volley now post (volley now pre (enemies (movePhase g))))
   \<and> (isPlaying g \<and> \<not> gameOver g \<and> towers g = pre @ tower # post
        \<and> now - lastFired tower \<ge> fireRate tower
        \<and> (\<forall>e\<in>set (volley now pre (enemies (movePhase g))). \<not> inRange tower e) \<longrightarrow>
        enemies (gameLoop now g) = volley now post (volley now pre (enemies (movePhase g))))
   \<and> (isPlaying g \<and> \<not> gameOver g \<and> towers g = pre @ tower # post
        \<and> now - lastFired tower \<ge> fireRate tower
        \<and> volley now pre (enemies (movePhase g)) = before @ t # after
        \<and> (\<forall>e\<in>set before. \<not> inRange tower e) \<and> inRange tower t
        \<and> (\<forall>e\<in>set (before @ after). enemy_id e \<noteq> enemy_id t) \<longrightarrow>
        enemies (gameLoop now g) =
          volley now post
            (filter (\<lambda>e. health e > 0)
               (before @ t\<lparr>health := health t - max (damage tower - armor t) 5\<rparr> # after))))
   \<and> ((isPlaying2 g2 \<and> \<not> gameOver2 g2 \<longrightarrow>
        enemies2 (gameLoop2 now g2) = volley2 now (towers2 g2) (enemies2 (movePhase2 g2)))
   \<and> (isPlaying2 g2 \<and> \<not> gameOver2 g2 \<longrightarrow>
        towers2 (gameLoop2 now g2) =
          map (\<lambda>t. if now - lastFired t < fireRate t then t else t\<lparr>lastFired := now\<rparr>)
            (towers2 g2))
   \<and> (\<not> (isPlaying2 g2 \<and> \<not> gameOver2 g2) \<longrightarrow> gameLoop2 now g2 = g2)
   \<and> (isPlaying2 g2 \<and> \<not> gameOver2 g2 \<and> towers2 g2 = pre2 @ tower2 # post2
        \<and> now - lastFired tower2 < fireRate tower2 \<longrightarrow>
        enemies2 (gameLoop2 now g2) =
          volley2 now post2 (volley2 now pre2 (enemies2 (movePhase2 g2))))
   \<and> (isPlaying2 g2 \<and> \<not> gameOver2 g2 \<and> towers2 g2 = pre2 @ tower2 # post2
        \<and> now - lastFired tower2 \<ge> fireRate tower2
        \<and> (\<forall>e\<in>set (volley2 now pre2 (enemies2 (movePhase2 g2))). \<not> inRange2 tower2 e) \<longrightarrow>
        enemies2 (gameLoop2 now g2) =
          volley2 now post2 (volley2 now pre2 (enemies2 (movePhase2 g2))))
   \<and> (isPlaying2 g2 \<and> \<not> gameOver2 g2 \<and> towers2 g2 = pre2 @ tower2 # post2
        \<and> now - lastFired tower2 \<ge> fireRate tower2
        \<and> volley2 now pre2 (enemies2 (movePhase2 g2)) = before2 @ t2 # after2
        \<and> (\<forall>e\<in>set before2. \<not> inRange2 tower2 e) \<and> inRange2 tower2 t2
        \<and> (\<forall>e\<in>set (before2 @ after2). enemy2_id e \<noteq> enemy2_id t2) \<longrightarrow>
        enemies2 (gameLoop2 now g2) =
          volley2 now post2
            (filter (\<lambda>e. health2 e > 0)
               (before2 @ t2\<lparr>health2 := health2 t2 - damage tower2\<rparr> # after2))))"
proof -
  have loop: "isPlaying s \<and> \<not> gameOver s \<longrightarrow>
        towers (gameLoop now s) =
          map (\<lambda>t. if now - lastFired t < fireRate t then t else t\<lparr>lastFired := now\<rparr>)
            (towers s)"
    by (simp add: gameLoop_towers)
  show ?thesis
    by (rule conjI [OF fireTower_first_in_range
          conjI [OF loop conjI [OF fireTower2_first_in_range
            conjI [OF gameLoop_combat gameLoop2_combat]]]])
qed

theorem fire_rate_gate_witness:
  "fireTower 500 exTower exState = (exTower, exState)
   \<and> fst (fireTower 1000 exTower exState) = exTower\<lparr>lastFired := 1000\<rparr>
   \<and> snd (fireTower 1000 exTower (exState\<lparr>enemies := [exFar]\<rparr>)) = exState\<lparr>enemies := [exFar]\<rparr>
   \<and> enemies (snd (fireTower 1000 exTower exState)) = [exFar, exNear\<lparr>health := 235\<rparr>]
   \<and> towers (gameLoop 1000 exState) = [exTower\<lparr>lastFired := 1000\<rparr>]
   \<and> towers (gameLoop 500 exState) = [exTower]
   \<and> fireTower2 500 exTower2 exState2 = (exTower2, exState2)
   \<and> fst (fireTower2 1000 exTower2 exState2) = exTower2\<lparr>lastFired := 1000\<rparr>
   \<and> snd (fireTower2 1000 exTower2 (exState2\<lparr>enemies2 := [exFar2]\<rparr>)) = exState2\<lparr>enemies2 := [exFar2]\<rparr>
   \<and> enemies2 (snd (fireTower2 1000 exTower2 exState2)) = [exFar2, exNear2\<lparr>health2 := 20\<rparr>]
   \<and> enemies (gameLoop 500 (exFrame [exAtStart, exAtCorner]))
       = [exAtStart\<lparr>pathIndex := 1\<rparr>, exAtCorner\<lparr>pathIndex := 2\<rparr>]
   \<and> enemies (gameLoop 1000 (exFrame [exAtStart])) = [exAtStart\<lparr>pathIndex := 1\<rparr>]
   \<and> enemies (gameLoop 1000 (exFrame [exAtStart, exAtCorner]))
       = [exAtStart\<lparr>pathIndex := 1\<rparr>, exAtCorner\<lparr>pathIndex := 2, health := 235\<rparr>]
   \<and> gameLoop 1000 ((exFrame [exAtStart])\<lparr>isPlaying := False\<rparr>)
       = (exFrame [exAtStart])\<lparr>isPlaying := False\<rparr>
   \<and> enemies2 (gameLoop2 500 (exFrame2 [exAtStart2, exAtCorner2]))
       = [exAtStart2\<lparr>pathIndex2 := 1\<rparr>, exAtCorner2\<lparr>pathIndex2 := 2\<rparr>]
   \<and> towers2 (gameLoop2 500 (exFrame2 [exAtStart2, exAtCorner2])) = [exTower2]
   \<and> enemies2 (gameLoop2 1000 (exFrame2 [exAtStart2])) = [exAtStart2\<lparr>pathIndex2 := 1\<rparr>]
   \<and> towers2 (gameLoop2 1000 (exFrame2 [exAtStart2])) = [exTower2\<lparr>lastFired := 1000\<rparr>]
   \<and> enemies2 (gameLoop2 1000 (exFrame2 [exAtStart2, exAtCorner2]))
       = [exAtStart2\<lparr>pathIndex2 := 1\<rparr>, exAtCorner2\<lparr>pathIndex2 := 2, health2 := 20\<rparr>]
   \<and> gameLoop2 1000 ((exFrame2 [exAtStart2])\<lparr>isPlaying2 := False\<rparr>)
       = (exFrame2 [exAtStart2])\<lparr>isPlaying2 := False\<rparr>
   \<and> volley 1000 [exTower] [exAtStart\<lparr>pathIndex := 1\<rparr>, exAtCorner\<lparr>pathIndex := 2\<rparr>]
       = [exAtStart\<lparr>pathIndex := 1\<rparr>, exAtCorner\<lparr>pathIndex := 2, health := 235\<rparr>]
   \<and> volley2 1000 [exTower2] [exAtStart2\<lparr>pathIndex2 := 1\<rparr>, exAtCorner2\<lparr>pathIndex2 := 2\<rparr>]
       = [exAtStart2\<lparr>pathIndex2 := 1\<rparr>, exAtCorner2\<lparr>pathIndex2 := 2, health2 := 20\<rparr>]"
proof -
  have r: "\<not> inRange exTower exFar" "inRange exTower exNear"
    "\<not> inRange2 exTower2 exFar2" "inRange2 exTower2 exNear2"
    by (simp_all add: inRange_sq inRange2_sq exTower_def exTower2_def exFar_def exNear_def
          exFar2_def exNear2_def newTower_def)
  have f: "fireRate exTower = 800" "lastFired exTower = 0" "damage exTower = 15"
    "fireRate exTower2 = 1000" "lastFired exTower2 = 0" "damage exTower2 = 10"
    by (simp_all add: exTower_def exTower2_def newTower_def)
  have e: "enemies exState = [exFar, exNear]" "enemies2 exState2 = [exFar2, exNear2]"
    "isPlaying exState" "\<not> gameOver exState" "towers exState = [exTower]"
    by (simp_all add: exState_def exState2_def initialState_def initialState2_def)
  have i: "enemy_id exFar \<noteq> enemy_id exNear" "enemy2_id exFar2 \<noteq> enemy2_id exNear2"
    "health exFar = 120" "health exNear = 240" "armor exNear = 15"
    "health2 exFar2 = 30" "health2 exNear2 = 30"
    by (simp_all add: exFar_def exNear_def exFar2_def exNear2_def)
  have j: "enemy_id exAtStart \<noteq> enemy_id exAtCorner" "enemy2_id exAtStart2 \<noteq> enemy2_id exAtCorner2"
    "health exAtStart = 120" "health exAtCorner = 240" "armor exAtCorner = 15"
    "health2 exAtStart2 = 30" "health2 exAtCorner2 = 30"
    by (simp_all add: exAtStart_def exAtCorner_def exAtStart2_def exAtCorner2_def)
  note low = fire_rate_gate [of 500 exTower exState "[exAtStart\<lparr>pathIndex := 1\<rparr>]"
      "exAtCorner\<lparr>pathIndex := 2\<rparr>" "[]" exTower2 exState2
      "[exAtStart2\<lparr>pathIndex2 := 1\<rparr>]" "exAtCorner2\<lparr>pathIndex2 := 2\<rparr>" "[]"
      "exFrame [exAtStart, exAtCorner]" "[]" "[]" "exFrame2 [exAtStart2, exAtCorner2]" "[]" "[]"]
  note hit = fire_rate_gate [of 1000 exTower exState "[exAtStart\<lparr>pathIndex := 1\<rparr>]"
      "exAtCorner\<lparr>pathIndex := 2\<rparr>" "[]" exTower2 exState2
      "[exAtStart2\<lparr>pathIndex2 := 1\<rparr>]" "exAtCorner2\<lparr>pathIndex2 := 2\<rparr>" "[]"
      "exFrame [exAtStart, exAtCorner]" "[]" "[]" "exFrame2 [exAtStart2, exAtCorner2]" "[]" "[]"]
  note miss = fire_rate_gate [of 1000 exTower exState "[]" exAtStart "[]" exTower2 exState2
      "[]" exAtStart2 "[]" "exFrame [exAtStart]" "[]" "[]" "exFrame2 [exAtStart2]" "[]" "[]"]
  note idle = fire_rate_gate [of 1000 exTower exState "[]" exAtStart "[]" exTower2 exState2
      "[]" exAtStart2 "[]" "(exFrame [exAtStart])\<lparr>isPlaying := False\<rparr>" "[]" "[]"
      "(exFrame2 [exAtStart2])\<lparr>isPlaying2 := False\<rparr>" "[]" "[]"]
  have callbacks:
    "fireTower 500 exTower exState = (exTower, exState)
     \<and> fst (fireTower 1000 exTower exState) = exTower\<lparr>lastFired := 1000\<rparr>
     \<and> snd (fireTower 1000 exTower (exState\<lparr>enemies := [exFar]\<rparr>)) = exState\<lparr>enemies := [exFar]\<rparr>
     \<and> enemies (snd (fireTower 1000 exTower exState)) = [exFar, exNear\<lparr>health := 235\<rparr>]
     \<and> towers (gameLoop 1000 exState) = [exTower\<lparr>lastFired := 1000\<rparr>]
     \<and> towers (gameLoop 500 exState) = [exTower]
     \<and> fireTower2 500 exTower2 exState2 = (exTower2, exState2)
     \<and> fst (fireTower2 1000 exTower2 exState2) = exTower2\<lparr>lastFired := 1000\<rparr>
     \<and> snd (fireTower2 1000 exTower2 (exState2\<lparr>enemies2 := [exFar2]\<rparr>)) = exState2\<lparr>enemies2 := [exFar2]\<rparr>
     \<and> enemies2 (snd (fireTower2 1000 exTower2 exState2)) = [exFar2, exNear2\<lparr>health2 := 20\<rparr>]"
    using fire_rate_gate [of 500 exTower exState "[exFar]" exNear "[]"
            exTower2 exState2 "[exFar2]" exNear2 "[]", THEN conjunct1]
          fire_rate_gate [of 500 exTower exState "[exFar]" exNear "[]"
            exTower2 exState2 "[exFar2]" exNear2 "[]", THEN conjunct2, THEN conjunct1]
          fire_rate_gate [of 500 exTower exState "[exFar]" exNear "[]"
            exTower2 exState2 "[exFar2]" exNear2 "[]", THEN conjunct2, THEN conjunct2, THEN conjunct1]
          fire_rate_gate [of 1000 exTower exState "[exFar]" exNear "[]"
            exTower2 exState2 "[exFar2]" exNear2 "[]", THEN conjunct1]
          fire_rate_gate [of 1000 exTower exState "[exFar]" exNear "[]"
            exTower2 exState2 "[exFar2]" exNear2 "[]", THEN conjunct2, THEN conjunct1]
          fire_rate_gate [of 1000 exTower exState "[exFar]" exNear "[]"
            exTower2 exState2 "[exFar2]" exNear2 "[]", THEN conjunct2, THEN conjunct2, THEN conjunct1]
          fire_rate_gate [of 1000 exTower "exState\<lparr>enemies := [exFar]\<rparr>" "[]" exFar "[]"
            exTower2 "exState2\<lparr>enemies2 := [exFar2]\<rparr>" "[]" exFar2 "[]", THEN conjunct1]
          fire_rate_gate [of 1000 exTower "exState\<lparr>enemies := [exFar]\<rparr>" "[]" exFar "[]"
            exTower2 "exState2\<lparr>enemies2 := [exFar2]\<rparr>" "[]" exFar2 "[]",
            THEN conjunct2, THEN conjunct2, THEN conjunct1]
    by (simp add: r f e i hitBy_def hitBy2_def)
  note low1 = low [THEN conjunct2, THEN conjunct2, THEN conjunct2, THEN conjunct1]
  note low2 = low [THEN conjunct2, THEN conjunct2, THEN conjunct2, THEN conjunct2]
  note hit1 = hit [THEN conjunct2, THEN conjunct2, THEN conjunct2, THEN conjunct1]
  note hit2 = hit [THEN conjunct2, THEN conjunct2, THEN conjunct2, THEN conjunct2]
  note miss1 = miss [THEN conjunct2, THEN conjunct2, THEN conjunct2, THEN conjunct1]
  note miss2 = miss [THEN conjunct2, THEN conjunct2, THEN conjunct2, THEN conjunct2]
  note idle1 = idle [THEN conjunct2, THEN conjunct2, THEN conjunct2, THEN conjunct1]
  note idle2 = idle [THEN conjunct2, THEN conjunct2, THEN conjunct2, THEN conjunct2]
  have a1: "enemies (gameLoop 500 (exFrame [exAtStart, exAtCorner]))
       = [exAtStart\<lparr>pathIndex := 1\<rparr>, exAtCorner\<lparr>pathIndex := 2\<rparr>]"
    using low1 [THEN conjunct2, THEN conjunct2, THEN conjunct1]
    by (simp add: exFrame_fields exFrame_move f)
  have a2: "enemies (gameLoop 1000 (exFrame [exAtStart])) = [exAtStart\<lparr>pathIndex := 1\<rparr>]"
    using miss1 [THEN conjunct2, THEN conjunct2, THEN conjunct2, THEN conjunct1]
    by (simp add: exFrame_fields exFrame_move exFrame_ranges [unfolded One_nat_def] f)
  have a3: "enemies (gameLoop 1000 (exFrame [exAtStart, exAtCorner]))
       = [exAtStart\<lparr>pathIndex := 1\<rparr>, exAtCorner\<lparr>pathIndex := 2, health := 235\<rparr>]"
    using hit1 [THEN conjunct2, THEN conjunct2, THEN conjunct2, THEN conjunct2]
    by (simp add: exFrame_fields exFrame_move exFrame_ranges [unfolded One_nat_def] f j)
  have a4: "gameLoop 1000 ((exFrame [exAtStart])\<lparr>isPlaying := False\<rparr>)
       = (exFrame [exAtStart])\<lparr>isPlaying := False\<rparr>"
    using idle1 [THEN conjunct2, THEN conjunct1] by simp
  have b1: "enemies2 (gameLoop2 500 (exFrame2 [exAtStart2, exAtCorner2]))
       = [exAtStart2\<lparr>pathIndex2 := 1\<rparr>, exAtCorner2\<lparr>pathIndex2 := 2\<rparr>]"
    using low2 [THEN conjunct2, THEN conjunct2, THEN conjunct2, THEN conjunct1]
    by (simp add: exFrame_fields exFrame2_move f)
  have b1': "towers2 (gameLoop2 500 (exFrame2 [exAtStart2, exAtCorner2])) = [exTower2]"
    using low2 [THEN conjunct2, THEN conjunct1]
    by (simp add: exFrame_fields f)
  have b2: "enemies2 (gameLoop2 1000 (exFrame2 [exAtStart2])) = [exAtStart2\<lparr>pathIndex2 := 1\<rparr>]"
    using miss2 [THEN conjunct2, THEN conjunct2, THEN conjunct2, THEN conjunct2, THEN conjunct1]
    by (simp add: exFrame_fields exFrame2_move exFrame_ranges [unfolded One_nat_def] f)
  have b2': "towers2 (gameLoop2 1000 (exFrame2 [exAtStart2])) = [exTower2\<lparr>lastFired := 1000\<rparr>]"
    using miss2 [THEN conjunct2, THEN conjunct1]
    by (simp add: exFrame_fields f)
  have b3: "enemies2 (gameLoop2 1000 (exFrame2 [exAtStart2, exAtCorner2]))
       = [exAtStart2\<lparr>pathIndex2 := 1\<rparr>, exAtCorner2\<lparr>pathIndex2 := 2, health2 := 20\<rparr>]"
    using hit2 [THEN conjunct2, THEN conjunct2, THEN conjunct2, THEN conjunct2, THEN conjunct2]
    by (simp add: exFrame_fields exFrame2_move exFrame_ranges [unfolded One_nat_def] f j)
  have b4: "gameLoop2 1000 ((exFrame2 [exAtStart2])\<lparr>isPlaying2 := False\<rparr>)
       = (exFrame2 [exAtStart2])\<lparr>isPlaying2 := False\<rparr>"
    using idle2 [THEN conjunct2, THEN conjunct2, THEN conjunct1] by simp
  have a0: "enemies (gameLoop 1000 (exFrame [exAtStart, exAtCorner]))
       = volley 1000 [exTower] [exAtStart\<lparr>pathIndex := 1\<rparr>, exAtCorner\<lparr>pathIndex := 2\<rparr>]"
    using hit1 [THEN conjunct1]
    by (simp add: exFrame_fields exFrame_move del: volley.simps)
  have b0: "enemies2 (gameLoop2 1000 (exFrame2 [exAtStart2, exAtCorner2]))
       = volley2 1000 [exTower2] [exAtStart2\<lparr>pathIndex2 := 1\<rparr>, exAtCorner2\<lparr>pathIndex2 := 2\<rparr>]"
    using hit2 [THEN conjunct1]
    by (simp add: exFrame_fields exFrame2_move del: volley2.simps)
  have a5: "volley 1000 [exTower] [exAtStart\<lparr>pathIndex := 1\<rparr>, exAtCorner\<lparr>pathIndex := 2\<rparr>]
       = [exAtStart\<lparr>pathIndex := 1\<rparr>, exAtCorner\<lparr>pathIndex := 2, health := 235\<rparr>]"
    using a0 a3 by (rule trans [OF sym])
  have b5: "volley2 1000 [exTower2] [exAtStart2\<lparr>pathIndex2 := 1\<rparr>, exAtCorner2\<lparr>pathIndex2 := 2\<rparr>]
       = [exAtStart2\<lparr>pathIndex2 := 1\<rparr>, exAtCorner2\<lparr>pathIndex2 := 2, health2 := 20\<rparr>]"
    using b0 b3 by (rule trans [OF sym])
  show ?thesis
    using callbacks a1 a2 a3 a4 b1 b1' b2 b2' b3 b4 a5 b5 by blast
qed

section \<open>Damage of an attack\<close>

lemma catalogTower2_newTower: "catalogTower2 (newTower k (TOWER_TYPES2 k) x y now)"
  by (simp add: catalogTower2_def newTower_def)

lemma catalogTower2_floor: "catalogTower2 t \<Longrightarrow> max (damage t - 0) 5 = damage t"
  using catalog2_damage [of "tower_type t"] by (simp add: catalogTower2_def)

lemma catalogTower2_lastFired:
  "list_all catalogTower2
     (map (\<lambda>t. if now - lastFired t < fireRate t then t else t\<lparr>lastFired := now\<rparr>) ts)
   = list_all catalogTower2 ts"
  by (induction ts) (simp_all add: catalogTower2_def)

lemma waveCompletionEffect2_towers: "towers2 (waveCompletionEffect2 s) = towers2 s"
  by (simp add: waveCompletionEffect2_def handleVictory2_def Let_def split: option.splits)

lemma frame2_catalog:
  "list_all catalogTower2 (towers2 (frame2 now s)) = list_all catalogTower2 (towers2 s)"
  by (simp add: frame2_def waveCompletionEffect2_towers gameLoop2_towers catalogTower2_lastFired)

lemma placeTower2_catalog:
  "list_all catalogTower2 (towers2 s) \<Longrightarrow> placeTower2 x y now s = Inr s' \<Longrightarrow>
   list_all catalogTower2 (towers2 s')"
  by (auto simp add: placeTower2_def Let_def catalogTower2_newTower
        split: option.splits if_splits)

lemma exFrost_move:
  "enemies (movePhase ((exFrame [exAtStart, exAtCorner])\<lparr>towers := [exFrost]\<rparr>))
     = [exAtStart\<lparr>pathIndex := 1\<rparr>, exAtCorner\<lparr>pathIndex := 2\<rparr>]"
  "enemies (movePhase (exFrame [exAtCorner\<lparr>armor := 3\<rparr>]))
     = [exAtCorner\<lparr>pathIndex := 2, armor := 3\<rparr>]"
  by (simp_all add: movePhase_def moveEnemy_def exFrame_def exAtStart_def exAtCorner_def
        initialState_def currentPath_def pt_def Let_def)

lemma exSlow2_move:
  "enemies2 (movePhase2 ((exFrame2 [exAtStart2, exAtCorner2])\<lparr>towers2 := [exSlow2]\<rparr>))
     = [exAtStart2\<lparr>pathIndex2 := 1\<rparr>, exAtCorner2\<lparr>pathIndex2 := 2\<rparr>]"
  by (simp add: movePhase2_def moveEnemy2_def exFrame2_def exAtStart2_def exAtCorner2_def
        initialState2_def ENEMY_PATH_def pt_def Let_def)

text \<open>
  C1. A tower attack reduces the health of every enemy it hits by exactly
  \<open>max (tower.damage - enemy.armor) 5\<close>, which is never less than 5: when the armor is at
  least the damage the reduction is 5. This holds for the attack updater and for the
  combat step of a frame. The enemies of the second implementation carry no armor, which
  is armor 0, and its attack subtracts the damage of the tower; the towers it can hold
  are built from its catalog, whose damages are at least 5, so that on them the reduction
  is \<open>max (tower.damage - 0) 5\<close> as well. The towers of the initial state and of a reset
  state have their catalog damage, and a placement, a frame and an unlock keep it so.
\<close>

theorem damage_floor:
  "(filter (inRange tower) (enemies s) = target # rest \<longrightarrow>
      enemies (towerAttack tower s) =
        filter (\<lambda>e. health e > 0)
          (map (\<lambda>e. if enemy_id e = enemy_id target
                     then e\<lparr>health := health e - max (damage tower - armor e) 5\<rparr> else e)
             (enemies s)))
   \<and> (catalogTower2 tower2 \<and> filter (inRange2 tower2) (enemies2 s2) = target2 # rest2 \<longrightarrow>
      enemies2 (towerAttack2 tower2 s2) =
        filter (\<lambda>e. health2 e > 0)
          (map (\<lambda>e. if enemy2_id e = enemy2_id target2
                     then e\<lparr>health2 := health2 e - max (damage tower2 - 0) 5\<rparr> else e)
             (enemies2 s2)))
   \<and> (isPlaying g \<and> \<not> gameOver g \<and> towers g = pre @ tower # post
        \<and> now - lastFired tower \<ge> fireRate tower
        \<and> volley now pre (enemies (movePhase g)) = before @ t # after
        \<and> (\<forall>e\<in>set before. \<not> inRange tower e) \<and> inRange tower t
        \<and> (\<forall>e\<in>set (before @ after). enemy_id e \<noteq> enemy_id t) \<longrightarrow>
        enemies (gameLoop now g) =
          volley now post
            (filter (\<lambda>e. health e > 0)
               (before @ t\<lparr>health := health t - max (damage tower - armor t) 5\<rparr> # after)))
   \<and> (isPlaying g \<and> \<not> gameOver g \<and> towers g = pre @ tower # post
        \<and> now - lastFired tower \<ge> fireRate tower
        \<and> volley now pre (enemies (movePhase g)) = before @ t # after
        \<and> (\<forall>e\<in>set before. \<not> inRange tower e) \<and> inRange tower t
        \<and> (\<forall>e\<in>set (before @ after). enemy_id e \<noteq> enemy_id t)
        \<and> damage tower \<le> armor t \<longrightarrow>
        enemies (gameLoop now g) =
          volley now post
            (filter (\<lambda>e. health e > 0) (before @ t\<lparr>health := health t - 5\<rparr> # after)))
   \<and> (isPlaying2 g2 \<and> \<not> gameOver2 g2 \<and> list_all catalogTower2 (towers2 g2)
        \<and> towers2 g2 = pre2 @ tower2 # post2
        \<and> now - lastFired tower2 \<ge> fireRate tower2
        \<and> volley2 now pre2 (enemies2 (movePhase2 g2)) = before2 @ t2 # after2
        \<and> (\<forall>e\<in>set before2. \<not> inRange2 tower2 e) \<and> inRange2 tower2 t2
        \<and> (\<forall>e\<in>set (before2 @ after2). enemy2_id e \<noteq> enemy2_id t2) \<longrightarrow>
        enemies2 (gameLoop2 now g2) =
          volley2 now post2
            (filter (\<lambda>e. health2 e > 0)
               (before2 @ t2\<lparr>health2 := health2 t2 - max (damage tower2 - 0) 5\<rparr> # after2)))
   \<and> list_all catalogTower2 (towers2 (initialState2 addr))
   \<and> list_all catalogTower2 (towers2 (resetGame2 g2))
   \<and> (list_all catalogTower2 (towers2 g2) \<and> placeTower2 x y now g2 = Inr g2' \<longrightarrow>
        list_all catalogTower2 (towers2 g2'))
   \<and> (list_all catalogTower2 (towers2 g2) \<longrightarrow> list_all catalogTower2 (towers2 (frame2 now g2)))
   \<and> (list_all catalogTower2 (towers2 g2) \<longrightarrow>
        list_all catalogTower2 (towers2 (unlockTower2 k2 g2)))"
proof -
  have a: "filter (inRange tower) (enemies s) = target # rest \<longrightarrow>
      enemies (towerAttack tower s) =
        filter (\<lambda>e. health e > 0)
          (map (\<lambda>e. if enemy_id e = enemy_id target
                     then e\<lparr>health := health e - max (damage tower - armor e) 5\<rparr> else e)
             (enemies s))"
    by (simp add: towerAttack_target hitBy_def [abs_def])
  have b: "catalogTower2 tower2 \<and> filter (inRange2 tower2) (enemies2 s2) = target2 # rest2 \<longrightarrow>
      enemies2 (towerAttack2 tower2 s2) =
        filter (\<lambda>e. health2 e > 0)
          (map (\<lambda>e. if enemy2_id e = enemy2_id target2
                     then e\<lparr>health2 := health2 e - max (damage tower2 - 0) 5\<rparr> else e)
             (enemies2 s2))"
  proof (intro impI, elim conjE)
    assume h: "catalogTower2 tower2" "filter (inRange2 tower2) (enemies2 s2) = target2 # rest2"
    show "enemies2 (towerAttack2 tower2 s2) =
        filter (\<lambda>e. health2 e > 0)
          (map (\<lambda>e. if enemy2_id e = enemy2_id target2
                     then e\<lparr>health2 := health2 e - max (damage tower2 - 0) 5\<rparr> else e)
             (enemies2 s2))"
      unfolding catalogTower2_floor [OF h(1)]
      using h(2) by (simp add: towerAttack2_target hitBy2_def [abs_def])
  qed
  note c = gameLoop_combat [of g now pre tower post before t after, THEN conjunct2,
      THEN conjunct2, THEN conjunct2, THEN conjunct2]
  have d: "isPlaying g \<and> \<not> gameOver g \<and> towers g = pre @ tower # post
        \<and> now - lastFired tower \<ge> fireRate tower
        \<and> volley now pre (enemies (movePhase g)) = before @ t # after
        \<and> (\<forall>e\<in>set before. \<not> inRange tower e) \<and> inRange tower t
        \<and> (\<forall>e\<in>set (before @ after). enemy_id e \<noteq> enemy_id t)
        \<and> damage tower \<le> armor t \<longrightarrow>
        enemies (gameLoop now g) =
          volley now post
            (filter (\<lambda>e. health e > 0) (before @ t\<lparr>health := health t - 5\<rparr> # after))"
  proof (intro impI, elim conjE)
    assume h: "isPlaying g" "\<not> gameOver g" "towers g = pre @ tower # post"
      "now - lastFired tower \<ge> fireRate tower"
      "volley now pre (enemies (movePhase g)) = before @ t # after"
      "\<forall>e\<in>set before. \<not> inRange tower e" "inRange tower t"
      "\<forall>e\<in>set (before @ after). enemy_id e \<noteq> enemy_id t"
      and fl: "damage tower \<le> armor t"
    have m: "max (damage tower - armor t) 5 = 5" using fl by simp
    show "enemies (gameLoop now g) =
          volley now post
            (filter (\<lambda>e. health e > 0) (before @ t\<lparr>health := health t - 5\<rparr> # after))"
      using c h unfolding m by blast
  qed
  have e: "isPlaying2 g2 \<and> \<not> gameOver2 g2 \<and> list_all catalogTower2 (towers2 g2)
        \<and> towers2 g2 = pre2 @ tower2 # post2
        \<and> now - lastFired tower2 \<ge> fireRate tower2
        \<and> volley2 now pre2 (enemies2 (movePhase2 g2)) = before2 @ t2 # after2
        \<and> (\<forall>e\<in>set before2. \<not> inRange2 tower2 e) \<and> inRange2 tower2 t2
        \<and> (\<forall>e\<in>set (before2 @ after2). enemy2_id e \<noteq> enemy2_id t2) \<longrightarrow>
        enemies2 (gameLoop2 now g2) =
          volley2 now post2
            (filter (\<lambda>e. health2 e > 0)
               (before2 @ t2\<lparr>health2 := health2 t2 - max (damage tower2 - 0) 5\<rparr> # after2))"
  proof (intro impI, elim conjE)
    assume h: "isPlaying2 g2" "\<not> gameOver2 g2" "towers2 g2 = pre2 @ tower2 # post2"
      "now - lastFired tower2 \<ge> fireRate tower2"
      "volley2 now pre2 (enemies2 (movePhase2 g2)) = before2 @ t2 # after2"
      "\<forall>e\<in>set before2. \<not> inRange2 tower2 e" "inRange2 tower2 t2"
      "\<forall>e\<in>set (before2 @ after2). enemy2_id e \<noteq> enemy2_id t2"
      and inv: "list_all catalogTower2 (towers2 g2)"
    have "catalogTower2 tower2" using inv h(3) by simp
    then have m: "max (damage tower2 - 0) 5 = damage tower2" by (rule catalogTower2_floor)
    show "enemies2 (gameLoop2 now g2) =
          volley2 now post2
            (filter (\<lambda>e. health2 e > 0)
               (before2 @ t2\<lparr>health2 := health2 t2 - max (damage tower2 - 0) 5\<rparr> # after2))"
      using gameLoop2_combat [of g2 now pre2 tower2 post2 before2 t2 after2, THEN conjunct2,
          THEN conjunct2, THEN conjunct2, THEN conjunct2, THEN conjunct2] h
      unfolding m by blast
  qed
  have f: "list_all catalogTower2 (towers2 (initialState2 addr))"
    by (simp add: initialState2_def)
  have f': "list_all catalogTower2 (towers2 (resetGame2 g2))"
    by (simp add: resetGame2_def)
  have i: "list_all catalogTower2 (towers2 g2) \<and> placeTower2 x y now g2 = Inr g2' \<longrightarrow>
        list_all catalogTower2 (towers2 g2')"
    using placeTower2_catalog [of g2 x y now g2'] by blast
  have j: "list_all catalogTower2 (towers2 g2) \<longrightarrow> list_all catalogTower2 (towers2 (frame2 now g2))"
    by (simp add: frame2_catalog)
  have k: "list_all catalogTower2 (towers2 g2) \<longrightarrow>
        list_all catalogTower2 (towers2 (unlockTower2 k2 g2))"
    by (simp add: unlockTower2_def Let_def)
  show ?thesis
    by (intro conjI; fact)
qed

theorem damage_floor_witness:
  "enemies (towerAttack exFrost ((initialState None)\<lparr>enemies := [exFar, exNear]\<rparr>))
     = [exFar, exNear\<lparr>health := 235\<rparr>]
   \<and> enemies2 (towerAttack2 exSlow2 ((initialState2 None)\<lparr>enemies2 := [exFar2, exNear2]\<rparr>))
     = [exFar2, exNear2\<lparr>health2 := 25\<rparr>]
   \<and> enemies (gameLoop 1000 (exFrame [exAtCorner\<lparr>armor := 3\<rparr>]))
     = [exAtCorner\<lparr>pathIndex := 2, armor := 3, health := 228\<rparr>]
   \<and> enemies (gameLoop 1000 ((exFrame [exAtStart, exAtCorner])\<lparr>towers := [exFrost]\<rparr>))
     = [exAtStart\<lparr>pathIndex := 1\<rparr>, exAtCorner\<lparr>pathIndex := 2, health := 235\<rparr>]
   \<and> enemies2 (gameLoop2 1000 ((exFrame2 [exAtStart2, exAtCorner2])\<lparr>towers2 := [exSlow2]\<rparr>))
     = [exAtStart2\<lparr>pathIndex2 := 1\<rparr>, exAtCorner2\<lparr>pathIndex2 := 2, health2 := 25\<rparr>]
   \<and> list_all catalogTower2
        (towers2 (exArmed2\<lparr>towers2 := [newTower basic (TOWER_TYPES2 basic) 60 60 7],
                    gold2 := 150, placementMode2 := False\<rparr>))
   \<and> list_all catalogTower2
        (towers2 (frame2 1000 ((exFrame2 [exAtStart2, exAtCorner2])\<lparr>towers2 := [exSlow2]\<rparr>)))
   \<and> list_all catalogTower2 (towers2 (unlockTower2 slow exArmed2))"
proof -
  have r: "\<not> inRange exFrost exFar" "inRange exFrost exNear"
    "\<not> inRange2 exSlow2 exFar2" "inRange2 exSlow2 exNear2"
    "\<not> inRange exFrost (exAtStart\<lparr>pathIndex := 1\<rparr>)" "inRange exFrost (exAtCorner\<lparr>pathIndex := 2\<rparr>)"
    "inRange exTower (exAtCorner\<lparr>pathIndex := 2, armor := 3\<rparr>)"
    "\<not> inRange2 exSlow2 (exAtStart2\<lparr>pathIndex2 := 1\<rparr>)"
    "inRange2 exSlow2 (exAtCorner2\<lparr>pathIndex2 := 2\<rparr>)"
    by (simp_all add: inRange_sq inRange2_sq exFar_def exNear_def exFar2_def exNear2_def
          exFrost_def exSlow2_def exTower_def exAtStart_def exAtCorner_def exAtStart2_def
          exAtCorner2_def newTower_def)
  have i: "enemy_id exFar \<noteq> enemy_id exNear" "enemy2_id exFar2 \<noteq> enemy2_id exNear2"
    "health exFar = 120" "health exNear = 240" "armor exNear = 15"
    "health2 exFar2 = 30" "health2 exNear2 = 30"
    "damage exFrost = 10" "damage exSlow2 = 5" "damage exTower = 15"
    "fireRate exFrost = 600" "lastFired exFrost = 0"
    "fireRate exSlow2 = 500" "lastFired exSlow2 = 0"
    "fireRate exTower = 800" "lastFired exTower = 0"
    "enemy_id exAtStart \<noteq> enemy_id exAtCorner" "enemy2_id exAtStart2 \<noteq> enemy2_id exAtCorner2"
    "health exAtStart = 120" "health exAtCorner = 240" "armor exAtCorner = 15"
    "health2 exAtStart2 = 30" "health2 exAtCorner2 = 30"
    by (simp_all add: exFar_def exNear_def exFar2_def exNear2_def exFrost_def exSlow2_def
          exTower_def exAtStart_def exAtCorner_def exAtStart2_def exAtCorner2_def newTower_def)
  have c: "catalogTower2 exSlow2"
    by (simp add: exSlow2_def catalogTower2_def newTower_def)
  have p: "placeTower2 60 60 7 exArmed2 =
       Inr (exArmed2\<lparr>towers2 := [newTower basic (TOWER_TYPES2 basic) 60 60 7],
              gold2 := 150, placementMode2 := False\<rparr>)"
    "list_all catalogTower2 (towers2 exArmed2)"
    by (simp_all add: placeTower2_def exArmed2_def initialState2_def Let_def)
  note attack = damage_floor [of exFrost "(initialState None)\<lparr>enemies := [exFar, exNear]\<rparr>"
        exNear "[]" exSlow2 "(initialState2 None)\<lparr>enemies2 := [exFar2, exNear2]\<rparr>"
        exNear2 "[]" "(exFrame [exAtStart, exAtCorner])\<lparr>towers := [exFrost]\<rparr>" "[]" "[]" 1000
        "[exAtStart\<lparr>pathIndex := 1\<rparr>]" "exAtCorner\<lparr>pathIndex := 2\<rparr>" "[]"
        "(exFrame2 [exAtStart2, exAtCorner2])\<lparr>towers2 := [exSlow2]\<rparr>" "[]" "[]"
        "[exAtStart2\<lparr>pathIndex2 := 1\<rparr>]" "exAtCorner2\<lparr>pathIndex2 := 2\<rparr>" "[]" None
        60 60 exArmed2 slow]
  note strong = damage_floor [of exTower "(initialState None)\<lparr>enemies := [exFar, exNear]\<rparr>"
        exNear "[]" exSlow2 "(initialState2 None)\<lparr>enemies2 := [exFar2, exNear2]\<rparr>"
        exNear2 "[]" "exFrame [exAtCorner\<lparr>armor := 3\<rparr>]" "[]" "[]" 1000 "[]"
        "exAtCorner\<lparr>pathIndex := 2, armor := 3\<rparr>" "[]"
        exArmed2 "[]" "[]" "[]" exAtCorner2 "[]" None 60 60 exArmed2 slow]
  note place = damage_floor [of exFrost "(initialState None)\<lparr>enemies := [exFar, exNear]\<rparr>"
        exNear "[]" exSlow2 "(initialState2 None)\<lparr>enemies2 := [exFar2, exNear2]\<rparr>"
        exNear2 "[]" "exFrame [exAtCorner\<lparr>armor := 3\<rparr>]" "[]" "[]" 7 "[]"
        "exAtCorner\<lparr>pathIndex := 2, armor := 3\<rparr>" "[]"
        exArmed2 "[]" "[]" "[]" exAtCorner2 "[]" None 60 60
        "exArmed2\<lparr>towers2 := [newTower basic (TOWER_TYPES2 basic) 60 60 7],
              gold2 := 150, placementMode2 := False\<rparr>" slow]
  have fr: "isPlaying ((exFrame [exAtStart, exAtCorner])\<lparr>towers := [exFrost]\<rparr>)"
    "\<not> gameOver ((exFrame [exAtStart, exAtCorner])\<lparr>towers := [exFrost]\<rparr>)"
    "towers ((exFrame [exAtStart, exAtCorner])\<lparr>towers := [exFrost]\<rparr>) = [] @ exFrost # []"
    "isPlaying2 ((exFrame2 [exAtStart2, exAtCorner2])\<lparr>towers2 := [exSlow2]\<rparr>)"
    "\<not> gameOver2 ((exFrame2 [exAtStart2, exAtCorner2])\<lparr>towers2 := [exSlow2]\<rparr>)"
    "towers2 ((exFrame2 [exAtStart2, exAtCorner2])\<lparr>towers2 := [exSlow2]\<rparr>) = [] @ exSlow2 # []"
    by (simp_all add: exFrame_def exFrame2_def initialState_def initialState2_def)
  have a1: "enemies (towerAttack exFrost ((initialState None)\<lparr>enemies := [exFar, exNear]\<rparr>))
     = [exFar, exNear\<lparr>health := 235\<rparr>]"
    using attack [THEN conjunct1] by (simp add: r i)
  have a2: "enemies2 (towerAttack2 exSlow2 ((initialState2 None)\<lparr>enemies2 := [exFar2, exNear2]\<rparr>))
     = [exFar2, exNear2\<lparr>health2 := 25\<rparr>]"
    using attack [THEN conjunct2, THEN conjunct1] by (simp add: r i c)
  have a3: "enemies (gameLoop 1000 (exFrame [exAtCorner\<lparr>armor := 3\<rparr>]))
     = [exAtCorner\<lparr>pathIndex := 2, armor := 3, health := 228\<rparr>]"
    using strong [THEN conjunct2, THEN conjunct2, THEN conjunct1]
    by (simp add: exFrame_fields exFrost_move r [unfolded One_nat_def] i)
  have a4: "enemies (gameLoop 1000 ((exFrame [exAtStart, exAtCorner])\<lparr>towers := [exFrost]\<rparr>))
     = [exAtStart\<lparr>pathIndex := 1\<rparr>, exAtCorner\<lparr>pathIndex := 2, health := 235\<rparr>]"
    using attack [THEN conjunct2, THEN conjunct2, THEN conjunct2, THEN conjunct1]
    by (simp add: fr exFrost_move r [unfolded One_nat_def] i)
  have a5: "enemies2 (gameLoop2 1000 ((exFrame2 [exAtStart2, exAtCorner2])\<lparr>towers2 := [exSlow2]\<rparr>))
     = [exAtStart2\<lparr>pathIndex2 := 1\<rparr>, exAtCorner2\<lparr>pathIndex2 := 2, health2 := 25\<rparr>]"
    using attack [THEN conjunct2, THEN conjunct2, THEN conjunct2, THEN conjunct2, THEN conjunct1]
    by (simp add: fr exSlow2_move r [unfolded One_nat_def] i c)
  have a6: "list_all catalogTower2
        (towers2 (exArmed2\<lparr>towers2 := [newTower basic (TOWER_TYPES2 basic) 60 60 7],
                    gold2 := 150, placementMode2 := False\<rparr>))"
    using place [THEN conjunct2, THEN conjunct2, THEN conjunct2, THEN conjunct2, THEN conjunct2,
        THEN conjunct2, THEN conjunct2, THEN conjunct1] p by blast
  have a7: "list_all catalogTower2
        (towers2 (frame2 1000 ((exFrame2 [exAtStart2, exAtCorner2])\<lparr>towers2 := [exSlow2]\<rparr>)))"
    using attack [THEN conjunct2, THEN conjunct2, THEN conjunct2, THEN conjunct2, THEN conjunct2,
        THEN conjunct2, THEN conjunct2, THEN conjunct2, THEN conjunct1] c
    by (simp add: exFrame2_def)
  have a8: "list_all catalogTower2 (towers2 (unlockTower2 slow exArmed2))"
    using place [THEN conjunct2, THEN conjunct2, THEN conjunct2, THEN conjunct2, THEN conjunct2,
        THEN conjunct2, THEN conjunct2, THEN conjunct2, THEN conjunct2] p by blast
  show ?thesis
    by (intro conjI; fact)
qed

section \<open>Victory on the final wave\<close>

lemma exFinal_loop:
  "gameLoop 1000 (exFinal ms) =
     (exFinal ms)\<lparr>towers := [exTower\<lparr>lastFired := 1000\<rparr>], enemies := [], gold := 280,
        xpEarned := 40, killCount := 1, totalKills := 1\<rparr>"
  by (simp add: gameLoop_def movePhase_def moveEnemy_def towerAttack_def fireTower_def
        inRange_sq creditKill_def exFinal_def exWeak_def exTower_def newTower_def
        initialState_def currentPath_def pt_def Let_def)

lemma exFinal2_loop:
  "gameLoop2 1000 exFinal2 =
     exFinal2\<lparr>towers2 := [exTower2\<lparr>lastFired := 1000\<rparr>], enemies2 := [], gold2 := 230,
        xpEarned2 := 40, killCount2 := 1\<rparr>"
  by (simp add: gameLoop2_def movePhase2_def moveEnemy2_def towerAttack2_def fireTower2_def
        inRange2_sq creditKill2_def exFinal2_def exWeak2_def exTower2_def newTower_def
        initialState2_def ENEMY_PATH_def pt_def Let_def)

lemma handle_unlockedMaps: "unlockedMaps (handle ev s) = unlockedMaps s"
  by (cases ev)
     (simp_all add: gameLoop_frame placeTower_def unlockTower_def startGame_def resetGame_def
        waveTimerFires_def Let_def split: option.splits)

lemma waveCompletionEffect_distinct:
  "distinct (unlockedMaps s) \<Longrightarrow> distinct (unlockedMaps (waveCompletionEffect s))"
  by (simp add: waveCompletionEffect_def handleVictory_unlockedMaps nextMapOf_distinct)

lemma step_distinct:
  "distinct (unlockedMaps s) \<Longrightarrow> distinct (unlockedMaps (step rnd ev s))"
  using waveCompletionEffect_distinct [of "handle ev s"]
  by (simp add: step_def Let_def handle_unlockedMaps)

lemma run_distinct:
  "distinct (unlockedMaps s) \<Longrightarrow> distinct (unlockedMaps (run evs s))"
proof (induction evs arbitrary: s)
  case Nil
  then show ?case by simp
next
  case (Cons x evs)
  obtain ev rnd where x: "x = (ev, rnd)" by (cases x)
  show ?case using Cons x by (simp add: step_distinct)
qed

lemma step_victory:
  "lastEnemyDefeated now s \<Longrightarrow> step rnd (Tick now) s = handleVictory (gameLoop now s)"
  using waves_ge(1) [of "currentMap s"]
  by (simp add: lastEnemyDefeated_def step_def Let_def waveDepsChanged_def spawnDepsChanged_def
        waveCompletionEffect_def gameLoop_frame)

lemma frame2_victory:
  "lastEnemyDefeated2 now s \<Longrightarrow> frame2 now s = handleVictory2 (gameLoop2 now s)"
  using waves_ge(2) [of "currentMap2 s"]
  by (simp add: lastEnemyDefeated2_def frame2_def waveCompletionEffect2_def gameLoop2_frame Let_def)

lemma victory_unlockedMaps:
  "unlockedMaps (handleVictory (gameLoop now s)) =
     (case nextMapOf (currentMap s) of
        None \<Rightarrow> unlockedMaps s
      | Some n \<Rightarrow> if n \<in> set (unlockedMaps s) then unlockedMaps s else unlockedMaps s @ [n])"
  unfolding handleVictory_unlockedMaps gameLoop_frame by (rule refl)

lemma exFinal_trigger: "lastEnemyDefeated 1000 (exFinal ms)"
  unfolding lastEnemyDefeated_def exFinal_loop
  by (simp add: exFinal_def initialState_def)

lemma exFinal2_trigger: "lastEnemyDefeated2 1000 exFinal2"
  unfolding lastEnemyDefeated2_def exFinal2_loop
  by (simp add: exFinal2_def initialState2_def)

text \<open>
  C8, as the code has it. When a frame defeats the last enemy of the final wave (the
  session is playing, the wave number is at or above the wave count of the map, the frame
  kills an enemy and leaves no enemy and the session playing), the render that follows
  ends the session in victory. In the primary implementation the experience becomes
  \<open>150 + wave * 15\<close> plus the experience earned so far, which includes 5 for every enemy
  killed in that frame, and the map following the current one in catalog order is
  appended to the unlocked maps unless it is already there: a later victory on the same
  map leaves the unlocked maps as they are, and no session holds a map twice in that
  list. In the second implementation the experience becomes \<open>100 + wave * 10\<close> plus the
  experience earned so far and no map is unlocked: whether a map can be chosen there is
  the static flag of the catalog.
\<close>

theorem victory_transition:
  "(lastEnemyDefeated now s \<longrightarrow>
      step rnd (Tick now) s = handleVictory (gameLoop now s)
      \<and> victory (step rnd (Tick now) s) \<and> gameOver (step rnd (Tick now) s)
      \<and> \<not> isPlaying (step rnd (Tick now) s)
      \<and> xpEarned (step rnd (Tick now) s) = 150 + int (wave s) * 15 + xpEarned (gameLoop now s)
      \<and> xpEarned (gameLoop now s) =
          xpEarned s + 5 * (int (totalKills (gameLoop now s)) - int (totalKills s))
      \<and> unlockedMaps (step rnd (Tick now) s) =
          (case nextMapOf (currentMap s) of
             None \<Rightarrow> unlockedMaps s
           | Some n \<Rightarrow> if n \<in> set (unlockedMaps s) then unlockedMaps s else unlockedMaps s @ [n]))
   \<and> (lastEnemyDefeated now s \<and> lastEnemyDefeated now' t \<and> currentMap t = currentMap s
        \<and> unlockedMaps t = unlockedMaps (step rnd (Tick now) s) \<longrightarrow>
      unlockedMaps (step rnd' (Tick now') t) = unlockedMaps t)
   \<and> (distinct (unlockedMaps s) \<longrightarrow> distinct (unlockedMaps (run evs s)))
   \<and> distinct (unlockedMaps (run evs (initialState addr)))
   \<and> (lastEnemyDefeated2 now s2 \<longrightarrow>
      frame2 now s2 = handleVictory2 (gameLoop2 now s2)
      \<and> gameOver2 (frame2 now s2) \<and> \<not> isPlaying2 (frame2 now s2)
      \<and> xpEarned2 (frame2 now s2) = 100 + int (wave2 s2) * 10 + xpEarned2 (gameLoop2 now s2)
      \<and> mapEnabled2 (frame2 now s2) k2 = mapEnabled2 s2 k2)"
proof -
  have a: "lastEnemyDefeated now s \<longrightarrow>
      step rnd (Tick now) s = handleVictory (gameLoop now s)
      \<and> victory (step rnd (Tick now) s) \<and> gameOver (step rnd (Tick now) s)
      \<and> \<not> isPlaying (step rnd (Tick now) s)
      \<and> xpEarned (step rnd (Tick now) s) = 150 + int (wave s) * 15 + xpEarned (gameLoop now s)
      \<and> xpEarned (gameLoop now s) =
          xpEarned s + 5 * (int (totalKills (gameLoop now s)) - int (totalKills s))
      \<and> unlockedMaps (step rnd (Tick now) s) =
          (case nextMapOf (currentMap s) of
             None \<Rightarrow> unlockedMaps s
           | Some n \<Rightarrow> if n \<in> set (unlockedMaps s) then unlockedMaps s else unlockedMaps s @ [n])"
  proof
    assume h: "lastEnemyDefeated now s"
    have x: "xpEarned (gameLoop now s) =
          xpEarned s + 5 * (int (totalKills (gameLoop now s)) - int (totalKills s))"
      by (rule gameLoop_xp)
    have u: "unlockedMaps (handleVictory (gameLoop now s)) =
          (case nextMapOf (currentMap s) of
             None \<Rightarrow> unlockedMaps s
           | Some n \<Rightarrow> if n \<in> set (unlockedMaps s) then unlockedMaps s else unlockedMaps s @ [n])"
      by (rule victory_unlockedMaps)
    show "step rnd (Tick now) s = handleVictory (gameLoop now s)
      \<and> victory (step rnd (Tick now) s) \<and> gameOver (step rnd (Tick now) s)
      \<and> \<not> isPlaying (step rnd (Tick now) s)
      \<and> xpEarned (step rnd (Tick now) s) = 150 + int (wave s) * 15 + xpEarned (gameLoop now s)
      \<and> xpEarned (gameLoop now s) =
          xpEarned s + 5 * (int (totalKills (gameLoop now s)) - int (totalKills s))
      \<and> unlockedMaps (step rnd (Tick now) s) =
          (case nextMapOf (currentMap s) of
             None \<Rightarrow> unlockedMaps s
           | Some n \<Rightarrow> if n \<in> set (unlockedMaps s) then unlockedMaps s else unlockedMaps s @ [n])"
      unfolding step_victory [OF h]
      using x u by (simp add: handleVictory_fields gameLoop_frame)
  qed
  have b: "lastEnemyDefeated now s \<and> lastEnemyDefeated now' t \<and> currentMap t = currentMap s
        \<and> unlockedMaps t = unlockedMaps (step rnd (Tick now) s) \<longrightarrow>
      unlockedMaps (step rnd' (Tick now') t) = unlockedMaps t"
  proof (intro impI, elim conjE)
    assume h: "lastEnemyDefeated now s" "lastEnemyDefeated now' t" "currentMap t = currentMap s"
      "unlockedMaps t = unlockedMaps (step rnd (Tick now) s)"
    have u: "unlockedMaps t =
          (case nextMapOf (currentMap s) of
             None \<Rightarrow> unlockedMaps s
           | Some n \<Rightarrow> if n \<in> set (unlockedMaps s) then unlockedMaps s else unlockedMaps s @ [n])"
      using h(4) unfolding step_victory [OF h(1)] victory_unlockedMaps .
    show "unlockedMaps (step rnd' (Tick now') t) = unlockedMaps t"
      unfolding step_victory [OF h(2)] victory_unlockedMaps h(3)
      using u by (simp split: option.splits if_splits)
  qed
  have c: "distinct (unlockedMaps s) \<longrightarrow> distinct (unlockedMaps (run evs s))"
    by (simp add: run_distinct)
  have d: "distinct (unlockedMaps (run evs (initialState addr)))"
    by (rule run_distinct) (simp add: initialState_def)
  have e: "lastEnemyDefeated2 now s2 \<longrightarrow>
      frame2 now s2 = handleVictory2 (gameLoop2 now s2)
      \<and> gameOver2 (frame2 now s2) \<and> \<not> isPlaying2 (frame2 now s2)
      \<and> xpEarned2 (frame2 now s2) = 100 + int (wave2 s2) * 10 + xpEarned2 (gameLoop2 now s2)
      \<and> mapEnabled2 (frame2 now s2) k2 = mapEnabled2 s2 k2"
  proof
    assume h: "lastEnemyDefeated2 now s2"
    show "frame2 now s2 = handleVictory2 (gameLoop2 now s2)
      \<and> gameOver2 (frame2 now s2) \<and> \<not> isPlaying2 (frame2 now s2)
      \<and> xpEarned2 (frame2 now s2) = 100 + int (wave2 s2) * 10 + xpEarned2 (gameLoop2 now s2)
      \<and> mapEnabled2 (frame2 now s2) k2 = mapEnabled2 s2 k2"
      unfolding frame2_victory [OF h]
      by (simp add: handleVictory2_fields gameLoop2_frame mapEnabled2_def)
  qed
  show ?thesis
    by (intro conjI; fact)
qed

theorem victory_transition_witness:
  "lastEnemyDefeated 1000 (exFinal [greenlands])
   \<and> victory (step noDraws (Tick 1000) (exFinal [greenlands]))
   \<and> gameOver (step noDraws (Tick 1000) (exFinal [greenlands]))
   \<and> \<not> isPlaying (step noDraws (Tick 1000) (exFinal [greenlands]))
   \<and> xpEarned (exFinal [greenlands]) = 35
   \<and> xpEarned (gameLoop 1000 (exFinal [greenlands])) = 40
   \<and> xpEarned (step noDraws (Tick 1000) (exFinal [greenlands])) = 340
   \<and> unlockedMaps (step noDraws (Tick 1000) (exFinal [greenlands])) = [greenlands, volcano]
   \<and> lastEnemyDefeated 1000 (exFinal [greenlands, volcano])
   \<and> unlockedMaps (step noDraws (Tick 1000) (exFinal [greenlands, volcano])) = [greenlands, volcano]
   \<and> distinct (unlockedMaps (run [(Tick 1000, noDraws)] (exFinal [greenlands])))
   \<and> lastEnemyDefeated2 1000 exFinal2
   \<and> gameOver2 (frame2 1000 exFinal2) \<and> \<not> isPlaying2 (frame2 1000 exFinal2)
   \<and> xpEarned2 (frame2 1000 exFinal2) = 240"
proof -
  note v = victory_transition [of 1000 "exFinal [greenlands]" noDraws 1000
      "exFinal [greenlands, volcano]" noDraws "[(Tick 1000, noDraws)]" None exFinal2 desert]
  have t1: "lastEnemyDefeated 1000 (exFinal [greenlands])"
    and t2: "lastEnemyDefeated 1000 (exFinal [greenlands, volcano])"
    and t3: "lastEnemyDefeated2 1000 exFinal2"
    by (rule exFinal_trigger, rule exFinal_trigger, rule exFinal2_trigger)
  have f: "xpEarned (exFinal [greenlands]) = 35" "wave (exFinal [greenlands]) = 10"
    "currentMap (exFinal [greenlands]) = greenlands"
    "unlockedMaps (exFinal [greenlands]) = [greenlands]"
    "currentMap (exFinal [greenlands, volcano]) = currentMap (exFinal [greenlands])"
    "unlockedMaps (exFinal [greenlands, volcano]) = [greenlands, volcano]"
    "totalKills (exFinal [greenlands]) = 0"
    "wave2 exFinal2 = 10"
    by (simp_all add: exFinal_def exFinal2_def initialState_def initialState2_def)
  have g: "xpEarned (gameLoop 1000 (exFinal [greenlands])) = 40"
    "xpEarned2 (gameLoop2 1000 exFinal2) = 40"
    unfolding exFinal_loop exFinal2_loop by simp_all
  have a: "victory (step noDraws (Tick 1000) (exFinal [greenlands]))
      \<and> gameOver (step noDraws (Tick 1000) (exFinal [greenlands]))
      \<and> \<not> isPlaying (step noDraws (Tick 1000) (exFinal [greenlands]))
      \<and> xpEarned (step noDraws (Tick 1000) (exFinal [greenlands])) = 340
      \<and> unlockedMaps (step noDraws (Tick 1000) (exFinal [greenlands])) = [greenlands, volcano]"
    using v [THEN conjunct1, rule_format, OF t1, THEN conjunct2] by (simp add: f g)
  then have u: "unlockedMaps (exFinal [greenlands, volcano])
      = unlockedMaps (step noDraws (Tick 1000) (exFinal [greenlands]))"
    by (simp add: f)
  have b0: "unlockedMaps (step noDraws (Tick 1000) (exFinal [greenlands, volcano]))
      = unlockedMaps (exFinal [greenlands, volcano])"
    using v [THEN conjunct2, THEN conjunct1] t1 t2 f(5) u by blast
  have b: "unlockedMaps (step noDraws (Tick 1000) (exFinal [greenlands, volcano])) = [greenlands, volcano]"
    unfolding b0 by (simp add: f)
  have c: "distinct (unlockedMaps (run [(Tick 1000, noDraws)] (exFinal [greenlands])))"
    using v [THEN conjunct2, THEN conjunct2, THEN conjunct1] by (simp add: f)
  have d: "gameOver2 (frame2 1000 exFinal2) \<and> \<not> isPlaying2 (frame2 1000 exFinal2)
      \<and> xpEarned2 (frame2 1000 exFinal2) = 240"
    using v [THEN conjunct2, THEN conjunct2, THEN conjunct2, THEN conjunct2, rule_format,
        OF t3, THEN conjunct2]
    by (simp add: f g)
  show ?thesis
    using t1 t2 t3 f(1) g(1) a b c d by blast
qed

text \<open>
  C8 as stated fails for the second implementation: the frame that defeats the last enemy
  of the tenth wave on the first map ends the session in victory, and the next map of the
  catalog is still locked.
\<close>

theorem victory_unlock_counterexample:
  "lastEnemyDefeated2 1000 exFinal2
   \<and> gameOver2 (frame2 1000 exFinal2)
   \<and> currentMap2 (frame2 1000 exFinal2) = forest
   \<and> \<not> mapEnabled2 (frame2 1000 exFinal2) desert"
proof -
  have e: "frame2 1000 exFinal2 = handleVictory2 (gameLoop2 1000 exFinal2)"
    by (rule frame2_victory) (rule exFinal2_trigger)
  have m: "currentMap2 (handleVictory2 (gameLoop2 1000 exFinal2)) = forest"
    unfolding exFinal2_loop
    by (simp add: handleVictory2_def exFinal2_def initialState2_def Let_def)
  show ?thesis
    unfolding e using exFinal2_trigger m
    by (simp add: handleVictory2_fields mapEnabled2_def)
qed

end
